theory Spec2Isabelle
  imports Complex_Main
begin

unbundle bit_operations_syntax

section \<open>The WebGL graphics device: render-state cache and command submission\<close>

text \<open>
  A shallow embedding of \<^verbatim>\<open>src/graphics/webgl/webgl-graphics-device.js\<close>.
  The device object is a record; every method takes the device and returns the
  updated device. The WebGL context \<^verbatim>\<open>gl\<close> is an external object: each call the
  device makes on it is appended to the field \<open>trace\<close>, in the order issued, so
  "issues a native call" is a statement about the trace.

  The numbers given to the state setters and held in their caches (colours, depths,
  biases over the reals; pixel rectangles and stencil values over the integers) are
  JavaScript numbers, \<^verbatim>\<open>NaN\<close> included, compared as \<^verbatim>\<open>!==\<close> compares them. Engine enums
  (indices into the translation tables) are naturals.
\<close>

subsection \<open>Native tokens\<close>

text \<open>
  The numeric values of the \<^verbatim>\<open>gl.*\<close> constants, as the WebGL API fixes them.
\<close>

abbreviation (input) GL_BLEND :: nat where "GL_BLEND \<equiv> 3042"
abbreviation (input) GL_CULL_FACE :: nat where "GL_CULL_FACE \<equiv> 2884"
abbreviation (input) GL_DEPTH_TEST :: nat where "GL_DEPTH_TEST \<equiv> 2929"
abbreviation (input) GL_STENCIL_TEST :: nat where "GL_STENCIL_TEST \<equiv> 2960"
abbreviation (input) GL_SCISSOR_TEST :: nat where "GL_SCISSOR_TEST \<equiv> 3089"
abbreviation (input) GL_POLYGON_OFFSET_FILL :: nat where "GL_POLYGON_OFFSET_FILL \<equiv> 32823"
abbreviation (input) GL_SAMPLE_ALPHA_TO_COVERAGE :: nat where "GL_SAMPLE_ALPHA_TO_COVERAGE \<equiv> 32926"
abbreviation (input) GL_RASTERIZER_DISCARD :: nat where "GL_RASTERIZER_DISCARD \<equiv> 35977"

abbreviation (input) GL_FRONT :: nat where "GL_FRONT \<equiv> 1028"
abbreviation (input) GL_BACK :: nat where "GL_BACK \<equiv> 1029"
abbreviation (input) GL_FRONT_AND_BACK :: nat where "GL_FRONT_AND_BACK \<equiv> 1032"

abbreviation (input) GL_NEVER :: nat where "GL_NEVER \<equiv> 512"
abbreviation (input) GL_LESS :: nat where "GL_LESS \<equiv> 513"
abbreviation (input) GL_EQUAL :: nat where "GL_EQUAL \<equiv> 514"
abbreviation (input) GL_LEQUAL :: nat where "GL_LEQUAL \<equiv> 515"
abbreviation (input) GL_GREATER :: nat where "GL_GREATER \<equiv> 516"
abbreviation (input) GL_NOTEQUAL :: nat where "GL_NOTEQUAL \<equiv> 517"
abbreviation (input) GL_GEQUAL :: nat where "GL_GEQUAL \<equiv> 518"
abbreviation (input) GL_ALWAYS :: nat where "GL_ALWAYS \<equiv> 519"

abbreviation (input) GL_KEEP :: nat where "GL_KEEP \<equiv> 7680"
abbreviation (input) GL_REPLACE :: nat where "GL_REPLACE \<equiv> 7681"
abbreviation (input) GL_INCR :: nat where "GL_INCR \<equiv> 7682"
abbreviation (input) GL_DECR :: nat where "GL_DECR \<equiv> 7683"
abbreviation (input) GL_INVERT :: nat where "GL_INVERT \<equiv> 5386"
abbreviation (input) GL_INCR_WRAP :: nat where "GL_INCR_WRAP \<equiv> 34055"
abbreviation (input) GL_DECR_WRAP :: nat where "GL_DECR_WRAP \<equiv> 34056"

abbreviation (input) GL_ZERO :: nat where "GL_ZERO \<equiv> 0"
abbreviation (input) GL_ONE :: nat where "GL_ONE \<equiv> 1"
abbreviation (input) GL_SRC_COLOR :: nat where "GL_SRC_COLOR \<equiv> 768"
abbreviation (input) GL_ONE_MINUS_SRC_COLOR :: nat where "GL_ONE_MINUS_SRC_COLOR \<equiv> 769"
abbreviation (input) GL_SRC_ALPHA :: nat where "GL_SRC_ALPHA \<equiv> 770"
abbreviation (input) GL_ONE_MINUS_SRC_ALPHA :: nat where "GL_ONE_MINUS_SRC_ALPHA \<equiv> 771"
abbreviation (input) GL_DST_ALPHA :: nat where "GL_DST_ALPHA \<equiv> 772"
abbreviation (input) GL_ONE_MINUS_DST_ALPHA :: nat where "GL_ONE_MINUS_DST_ALPHA \<equiv> 773"
abbreviation (input) GL_DST_COLOR :: nat where "GL_DST_COLOR \<equiv> 774"
abbreviation (input) GL_ONE_MINUS_DST_COLOR :: nat where "GL_ONE_MINUS_DST_COLOR \<equiv> 775"
abbreviation (input) GL_SRC_ALPHA_SATURATE :: nat where "GL_SRC_ALPHA_SATURATE \<equiv> 776"
abbreviation (input) GL_CONSTANT_COLOR :: nat where "GL_CONSTANT_COLOR \<equiv> 32769"
abbreviation (input) GL_ONE_MINUS_CONSTANT_COLOR :: nat where "GL_ONE_MINUS_CONSTANT_COLOR \<equiv> 32770"
abbreviation (input) GL_CONSTANT_ALPHA :: nat where "GL_CONSTANT_ALPHA \<equiv> 32771"
abbreviation (input) GL_ONE_MINUS_CONSTANT_ALPHA :: nat where "GL_ONE_MINUS_CONSTANT_ALPHA \<equiv> 32772"

abbreviation (input) GL_FUNC_ADD :: nat where "GL_FUNC_ADD \<equiv> 32774"
abbreviation (input) GL_FUNC_SUBTRACT :: nat where "GL_FUNC_SUBTRACT \<equiv> 32778"
abbreviation (input) GL_FUNC_REVERSE_SUBTRACT :: nat where "GL_FUNC_REVERSE_SUBTRACT \<equiv> 32779"
abbreviation (input) GL_MIN :: nat where "GL_MIN \<equiv> 32775"
abbreviation (input) GL_MAX :: nat where "GL_MAX \<equiv> 32776"

abbreviation (input) GL_DEPTH_BUFFER_BIT :: nat where "GL_DEPTH_BUFFER_BIT \<equiv> 256"
abbreviation (input) GL_STENCIL_BUFFER_BIT :: nat where "GL_STENCIL_BUFFER_BIT \<equiv> 1024"
abbreviation (input) GL_COLOR_BUFFER_BIT :: nat where "GL_COLOR_BUFFER_BIT \<equiv> 16384"

abbreviation (input) GL_POINTS :: nat where "GL_POINTS \<equiv> 0"
abbreviation (input) GL_LINES :: nat where "GL_LINES \<equiv> 1"
abbreviation (input) GL_LINE_LOOP :: nat where "GL_LINE_LOOP \<equiv> 2"
abbreviation (input) GL_LINE_STRIP :: nat where "GL_LINE_STRIP \<equiv> 3"
abbreviation (input) GL_TRIANGLES :: nat where "GL_TRIANGLES \<equiv> 4"
abbreviation (input) GL_TRIANGLE_STRIP :: nat where "GL_TRIANGLE_STRIP \<equiv> 5"
abbreviation (input) GL_TRIANGLE_FAN :: nat where "GL_TRIANGLE_FAN \<equiv> 6"

abbreviation (input) GL_BYTE :: nat where "GL_BYTE \<equiv> 5120"
abbreviation (input) GL_UNSIGNED_BYTE :: nat where "GL_UNSIGNED_BYTE \<equiv> 5121"
abbreviation (input) GL_SHORT :: nat where "GL_SHORT \<equiv> 5122"
abbreviation (input) GL_UNSIGNED_SHORT :: nat where "GL_UNSIGNED_SHORT \<equiv> 5123"
abbreviation (input) GL_INT :: nat where "GL_INT \<equiv> 5124"
abbreviation (input) GL_UNSIGNED_INT :: nat where "GL_UNSIGNED_INT \<equiv> 5125"
abbreviation (input) GL_FLOAT :: nat where "GL_FLOAT \<equiv> 5126"

abbreviation (input) GL_TEXTURE_2D :: nat where "GL_TEXTURE_2D \<equiv> 3553"
abbreviation (input) GL_TEXTURE_CUBE_MAP :: nat where "GL_TEXTURE_CUBE_MAP \<equiv> 34067"
abbreviation (input) GL_TEXTURE_3D :: nat where "GL_TEXTURE_3D \<equiv> 32879"
abbreviation (input) GL_TEXTURE0 :: nat where "GL_TEXTURE0 \<equiv> 33984"

abbreviation (input) GL_TRANSFORM_FEEDBACK :: nat where "GL_TRANSFORM_FEEDBACK \<equiv> 36386"
abbreviation (input) GL_FRAMEBUFFER :: nat where "GL_FRAMEBUFFER \<equiv> 36160"
abbreviation (input) GL_DRAW_FRAMEBUFFER :: nat where "GL_DRAW_FRAMEBUFFER \<equiv> 36009"
abbreviation (input) GL_COLOR_ATTACHMENT0 :: nat where "GL_COLOR_ATTACHMENT0 \<equiv> 36064"
abbreviation (input) GL_DEPTH_ATTACHMENT :: nat where "GL_DEPTH_ATTACHMENT \<equiv> 36096"
abbreviation (input) GL_STENCIL_ATTACHMENT :: nat where "GL_STENCIL_ATTACHMENT \<equiv> 36128"

abbreviation (input) GL_NONE :: nat where "GL_NONE \<equiv> 0"
abbreviation (input) GL_NICEST :: nat where "GL_NICEST \<equiv> 4354"
abbreviation (input) GL_FRAGMENT_SHADER_DERIVATIVE_HINT :: nat where
  "GL_FRAGMENT_SHADER_DERIVATIVE_HINT \<equiv> 35723"
abbreviation (input) GL_UNPACK_ALIGNMENT :: nat where "GL_UNPACK_ALIGNMENT \<equiv> 3317"
abbreviation (input) GL_UNPACK_FLIP_Y_WEBGL :: nat where "GL_UNPACK_FLIP_Y_WEBGL \<equiv> 37440"
abbreviation (input) GL_UNPACK_PREMULTIPLY_ALPHA_WEBGL :: nat where
  "GL_UNPACK_PREMULTIPLY_ALPHA_WEBGL \<equiv> 37441"
abbreviation (input) GL_UNPACK_COLORSPACE_CONVERSION_WEBGL :: nat where
  "GL_UNPACK_COLORSPACE_CONVERSION_WEBGL \<equiv> 37443"

abbreviation (input) GL_NEAREST :: nat where "GL_NEAREST \<equiv> 9728"
abbreviation (input) GL_LINEAR :: nat where "GL_LINEAR \<equiv> 9729"
abbreviation (input) GL_NEAREST_MIPMAP_NEAREST :: nat where "GL_NEAREST_MIPMAP_NEAREST \<equiv> 9984"
abbreviation (input) GL_LINEAR_MIPMAP_NEAREST :: nat where "GL_LINEAR_MIPMAP_NEAREST \<equiv> 9985"
abbreviation (input) GL_NEAREST_MIPMAP_LINEAR :: nat where "GL_NEAREST_MIPMAP_LINEAR \<equiv> 9986"
abbreviation (input) GL_LINEAR_MIPMAP_LINEAR :: nat where "GL_LINEAR_MIPMAP_LINEAR \<equiv> 9987"
abbreviation (input) GL_REPEAT :: nat where "GL_REPEAT \<equiv> 10497"
abbreviation (input) GL_CLAMP_TO_EDGE :: nat where "GL_CLAMP_TO_EDGE \<equiv> 33071"
abbreviation (input) GL_MIRRORED_REPEAT :: nat where "GL_MIRRORED_REPEAT \<equiv> 33648"


subsection \<open>Engine enums\<close>

text \<open>
  Modelled from the spec: \<^verbatim>\<open>constants.js\<close> is not among the sources. The spec calls
  these "engine-level symbolic enums" translated "via the lookup tables"; each value below
  is the index at which the tables of this file hold the native token that
  \<^verbatim>\<open>initializeRenderState\<close> pairs with the enum (\<^verbatim>\<open>glCull\<close> holds \<^verbatim>\<open>gl.BACK\<close> at 1,
  \<^verbatim>\<open>glComparison\<close> holds \<^verbatim>\<open>gl.LEQUAL\<close> at 3 and \<^verbatim>\<open>gl.ALWAYS\<close> at 7,
  \<^verbatim>\<open>glClearFlag\<close> holds the colour bit at 1, the depth bit at 2, the stencil bit at 4).
\<close>

definition BLENDMODE_ZERO :: nat where "BLENDMODE_ZERO = 0"
definition BLENDMODE_ONE :: nat where "BLENDMODE_ONE = 1"
definition BLENDEQUATION_ADD :: nat where "BLENDEQUATION_ADD = 0"
definition CULLFACE_NONE :: nat where "CULLFACE_NONE = 0"
definition CULLFACE_BACK :: nat where "CULLFACE_BACK = 1"
definition CULLFACE_FRONT :: nat where "CULLFACE_FRONT = 2"
definition CULLFACE_FRONTANDBACK :: nat where "CULLFACE_FRONTANDBACK = 3"
definition FUNC_LESSEQUAL :: nat where "FUNC_LESSEQUAL = 3"
definition FUNC_ALWAYS :: nat where "FUNC_ALWAYS = 7"
definition STENCILOP_KEEP :: nat where "STENCILOP_KEEP = 0"
definition CLEARFLAG_COLOR :: nat where "CLEARFLAG_COLOR = 1"
definition CLEARFLAG_DEPTH :: nat where "CLEARFLAG_DEPTH = 2"
definition CLEARFLAG_STENCIL :: nat where "CLEARFLAG_STENCIL = 4"

subsection \<open>Calls on the context and other observable events\<close>

text \<open>
  A table read \<^verbatim>\<open>this.glX[i]\<close> past the end of the array is \<^verbatim>\<open>undefined\<close> in
  JavaScript and is passed on as such; \<open>None\<close> stands for it.
\<close>

definition lookup :: "'a list \<Rightarrow> nat \<Rightarrow> 'a option" where
  "lookup tbl i = (if i < length tbl then Some (tbl ! i) else None)"

text \<open>
  A JavaScript number passed to a setter or held in its cache: a number, or \<^verbatim>\<open>NaN\<close>. The
  setters compare with \<^verbatim>\<open>!==\<close>, which holds between \<^verbatim>\<open>NaN\<close> and everything, \<^verbatim>\<open>NaN\<close>
  included. Numerals denote numbers; addition is that of JavaScript.
\<close>

datatype 'a jsnum = Num 'a | NaN

definition strict_ne :: "'a jsnum \<Rightarrow> 'a jsnum \<Rightarrow> bool" where
  "strict_ne a b = (case (a, b) of (Num x, Num y) \<Rightarrow> x \<noteq> y | _ \<Rightarrow> True)"

instantiation jsnum :: (zero) zero
begin
definition zero_jsnum :: "'a jsnum" where
  "zero_jsnum = Num 0"
instance ..
end

instantiation jsnum :: (one) one
begin
definition one_jsnum :: "'a jsnum" where
  "one_jsnum = Num 1"
instance ..
end

instantiation jsnum :: (semigroup_add) semigroup_add
begin
definition plus_jsnum :: "'a jsnum \<Rightarrow> 'a jsnum \<Rightarrow> 'a jsnum" where
  "plus_jsnum a b = (case (a, b) of (Num x, Num y) \<Rightarrow> Num (x + y) | _ \<Rightarrow> NaN)"
instance
proof
  fix a b c :: "'a jsnum"
  show "a + b + c = a + (b + c)"
    by (cases a; cases b; cases c) (simp_all add: plus_jsnum_def add.assoc)
qed
end

instance jsnum :: (numeral) numeral ..

text \<open>A JavaScript reference: \<^verbatim>\<open>null\<close>, \<^verbatim>\<open>undefined\<close> or an object (by identity).\<close>

datatype jsref = JNull | JUndefined | JObj nat

definition truthy :: "jsref \<Rightarrow> bool" where
  "truthy x = (case x of JObj _ \<Rightarrow> True | _ \<Rightarrow> False)"

text \<open>
  A native call is the name of the \<^verbatim>\<open>gl\<close> method and its arguments. Besides the native
  calls the trace records what the device reports on the \<^verbatim>\<open>Debug\<close> channel and the
  calls it makes on its resource collaborators (shader, texture and render-target
  implementations, which are not part of this file).

  Modelled from the spec: \<^verbatim>\<open>Debug\<close> belongs to \<^verbatim>\<open>core/debug.js\<close>, which is not among the
  sources. The spec calls it "an assertion/diagnostic channel" through which a violated
  precondition is "reported": a failed \<^verbatim>\<open>Debug.assert\<close> and a \<^verbatim>\<open>Debug.warn\<close> are recorded,
  and the method that made them goes on.
\<close>

datatype gl_arg =
    ATok "nat option"
  | ANum "real jsnum"
  | AInt "int jsnum"
  | ABool bool
  | ARef jsref
  | AInts "int list"
  | ANums "real list"
  | AToks "nat list"

datatype event =
    Native string "gl_arg list"
  | DebugAssertFailed string
  | DebugWarn string
  | Collaborator string nat

definition is_native :: "event \<Rightarrow> bool" where
  "is_native e = (case e of Native _ _ \<Rightarrow> True | _ \<Rightarrow> False)"

abbreviation (input) GlEnable :: "nat \<Rightarrow> event" where
  "GlEnable cap \<equiv> Native ''enable'' [ATok (Some cap)]"
abbreviation (input) GlDisable :: "nat \<Rightarrow> event" where
  "GlDisable cap \<equiv> Native ''disable'' [ATok (Some cap)]"
abbreviation (input) GlBlendFunc :: "nat option \<Rightarrow> nat option \<Rightarrow> event" where
  "GlBlendFunc s t \<equiv> Native ''blendFunc'' [ATok s, ATok t]"
abbreviation (input) GlBlendFuncSeparate ::
  "nat option \<Rightarrow> nat option \<Rightarrow> nat option \<Rightarrow> nat option \<Rightarrow> event" where
  "GlBlendFuncSeparate s t sa ta \<equiv> Native ''blendFuncSeparate'' [ATok s, ATok t, ATok sa, ATok ta]"
abbreviation (input) GlBlendEquation :: "nat option \<Rightarrow> event" where
  "GlBlendEquation e \<equiv> Native ''blendEquation'' [ATok e]"
abbreviation (input) GlBlendEquationSeparate :: "nat option \<Rightarrow> nat option \<Rightarrow> event" where
  "GlBlendEquationSeparate e ea \<equiv> Native ''blendEquationSeparate'' [ATok e, ATok ea]"
abbreviation (input) GlBlendColor ::
  "real jsnum \<Rightarrow> real jsnum \<Rightarrow> real jsnum \<Rightarrow> real jsnum \<Rightarrow> event" where
  "GlBlendColor r g b a \<equiv> Native ''blendColor'' [ANum r, ANum g, ANum b, ANum a]"
abbreviation (input) GlColorMask :: "bool \<Rightarrow> bool \<Rightarrow> bool \<Rightarrow> bool \<Rightarrow> event" where
  "GlColorMask r g b a \<equiv> Native ''colorMask'' [ABool r, ABool g, ABool b, ABool a]"
abbreviation (input) GlCullFace :: "nat option \<Rightarrow> event" where
  "GlCullFace m \<equiv> Native ''cullFace'' [ATok m]"
abbreviation (input) GlDepthFunc :: "nat option \<Rightarrow> event" where
  "GlDepthFunc f \<equiv> Native ''depthFunc'' [ATok f]"
abbreviation (input) GlDepthMask :: "bool \<Rightarrow> event" where
  "GlDepthMask w \<equiv> Native ''depthMask'' [ABool w]"
abbreviation (input) GlStencilFunc :: "nat option \<Rightarrow> int jsnum \<Rightarrow> int jsnum \<Rightarrow> event" where
  "GlStencilFunc f rf msk \<equiv> Native ''stencilFunc'' [ATok f, AInt rf, AInt msk]"
abbreviation (input) GlStencilFuncSeparate ::
  "nat \<Rightarrow> nat option \<Rightarrow> int jsnum \<Rightarrow> int jsnum \<Rightarrow> event" where
  "GlStencilFuncSeparate face f rf msk \<equiv>
     Native ''stencilFuncSeparate'' [ATok (Some face), ATok f, AInt rf, AInt msk]"
abbreviation (input) GlStencilOp :: "nat option \<Rightarrow> nat option \<Rightarrow> nat option \<Rightarrow> event" where
  "GlStencilOp f zf zp \<equiv> Native ''stencilOp'' [ATok f, ATok zf, ATok zp]"
abbreviation (input) GlStencilOpSeparate ::
  "nat \<Rightarrow> nat option \<Rightarrow> nat option \<Rightarrow> nat option \<Rightarrow> event" where
  "GlStencilOpSeparate face f zf zp \<equiv>
     Native ''stencilOpSeparate'' [ATok (Some face), ATok f, ATok zf, ATok zp]"
abbreviation (input) GlStencilMask :: "int jsnum \<Rightarrow> event" where
  "GlStencilMask m \<equiv> Native ''stencilMask'' [AInt m]"
abbreviation (input) GlStencilMaskSeparate :: "nat \<Rightarrow> int jsnum \<Rightarrow> event" where
  "GlStencilMaskSeparate face m \<equiv> Native ''stencilMaskSeparate'' [ATok (Some face), AInt m]"
abbreviation (input) GlPolygonOffset :: "real jsnum \<Rightarrow> real jsnum \<Rightarrow> event" where
  "GlPolygonOffset factor units \<equiv> Native ''polygonOffset'' [ANum factor, ANum units]"
abbreviation (input) GlClearDepth :: "real jsnum \<Rightarrow> event" where
  "GlClearDepth z \<equiv> Native ''clearDepth'' [ANum z]"
abbreviation (input) GlClearColor ::
  "real jsnum \<Rightarrow> real jsnum \<Rightarrow> real jsnum \<Rightarrow> real jsnum \<Rightarrow> event" where
  "GlClearColor r g b a \<equiv> Native ''clearColor'' [ANum r, ANum g, ANum b, ANum a]"
abbreviation (input) GlClearStencil :: "int jsnum \<Rightarrow> event" where
  "GlClearStencil s \<equiv> Native ''clearStencil'' [AInt s]"
abbreviation (input) GlViewport ::
  "int jsnum \<Rightarrow> int jsnum \<Rightarrow> int jsnum \<Rightarrow> int jsnum \<Rightarrow> event" where
  "GlViewport x y w h \<equiv> Native ''viewport'' [AInt x, AInt y, AInt w, AInt h]"
abbreviation (input) GlScissor ::
  "int jsnum \<Rightarrow> int jsnum \<Rightarrow> int jsnum \<Rightarrow> int jsnum \<Rightarrow> event" where
  "GlScissor x y w h \<equiv> Native ''scissor'' [AInt x, AInt y, AInt w, AInt h]"
abbreviation (input) GlClear :: "nat option \<Rightarrow> event" where
  "GlClear bits \<equiv> Native ''clear'' [ATok bits]"
abbreviation (input) GlActiveTexture :: "int \<Rightarrow> event" where
  "GlActiveTexture u \<equiv> Native ''activeTexture'' [AInt (Num (int GL_TEXTURE0 + u))]"
abbreviation (input) GlBindTexture :: "nat \<Rightarrow> jsref \<Rightarrow> event" where
  "GlBindTexture target obj \<equiv> Native ''bindTexture'' [ATok (Some target), ARef obj]"
abbreviation (input) GlGenerateMipmap :: "nat \<Rightarrow> event" where
  "GlGenerateMipmap target \<equiv> Native ''generateMipmap'' [ATok (Some target)]"
abbreviation (input) GlBindFramebuffer :: "jsref \<Rightarrow> event" where
  "GlBindFramebuffer fb \<equiv> Native ''bindFramebuffer'' [ATok (Some GL_FRAMEBUFFER), ARef fb]"
abbreviation (input) GlUseProgram :: "jsref \<Rightarrow> event" where
  "GlUseProgram prog \<equiv> Native ''useProgram'' [ARef prog]"
abbreviation (input) GlBindVertexArray :: "jsref \<Rightarrow> event" where
  "GlBindVertexArray vao \<equiv> Native ''bindVertexArray'' [ARef vao]"

abbreviation (input) GlHint :: "nat \<Rightarrow> nat \<Rightarrow> event" where
  "GlHint target mode \<equiv> Native ''hint'' [ATok (Some target), ATok (Some mode)]"
abbreviation (input) GlPixelStorei :: "nat \<Rightarrow> gl_arg \<Rightarrow> event" where
  "GlPixelStorei pname v \<equiv> Native ''pixelStorei'' [ATok (Some pname), v]"
abbreviation (input) GlInvalidateFramebuffer :: "nat list \<Rightarrow> event" where
  "GlInvalidateFramebuffer atts \<equiv>
     Native ''invalidateFramebuffer'' [ATok (Some GL_DRAW_FRAMEBUFFER), AToks atts]"

datatype error = TypeError string

definition and_then :: "error + 'a \<Rightarrow> ('a \<Rightarrow> error + 'b) \<Rightarrow> error + 'b" where
  "and_then r f = (case r of Inl e \<Rightarrow> Inl e | Inr x \<Rightarrow> f x)"

subsection \<open>Resources the device reads\<close>

record color =
  col_r :: "real jsnum"
  col_g :: "real jsnum"
  col_b :: "real jsnum"
  col_a :: "real jsnum"

text \<open>
  A texture, with the fields of its WebGL implementation object that the device reads
  (\<^verbatim>\<open>impl._glTarget\<close>, \<^verbatim>\<open>impl._glTexture\<close>). \<^verbatim>\<open>_glTarget\<close> is one of the three targets
  \<^verbatim>\<open>targetToSlot\<close> knows.
\<close>

datatype tex_target = TEXTURE_2D | TEXTURE_CUBE_MAP | TEXTURE_3D

record texture =
  glTarget :: tex_target
  glTexture :: jsref
  parameterFlags :: nat
  needsUpload :: bool
  needsMipmapsUpload :: bool
  mipmaps :: bool
  pot :: bool
  compressed :: bool
  levels_length :: nat
  minFilter :: nat
  magFilter :: nat
  addressU :: nat
  addressV :: nat
  addressW :: nat
  compareOnRead :: bool
  compareFunc :: nat
  anisotropy :: int

datatype sampler_value = SUnset | STexture nat | SArray "nat list"

record sampler =
  sam_value :: sampler_value
  sam_locationId :: nat
  sam_slot :: "int option"
  sam_array :: "int list"

datatype uniform_type =
    UNIFORMTYPE_BOOL | UNIFORMTYPE_INT | UNIFORMTYPE_FLOAT
  | UNIFORMTYPE_VEC2 | UNIFORMTYPE_VEC3 | UNIFORMTYPE_VEC4
  | UNIFORMTYPE_IVEC2 | UNIFORMTYPE_IVEC3 | UNIFORMTYPE_IVEC4
  | UNIFORMTYPE_BVEC2 | UNIFORMTYPE_BVEC3 | UNIFORMTYPE_BVEC4
  | UNIFORMTYPE_MAT2 | UNIFORMTYPE_MAT3 | UNIFORMTYPE_MAT4
  | UNIFORMTYPE_FLOATARRAY | UNIFORMTYPE_VEC2ARRAY | UNIFORMTYPE_VEC3ARRAY
  | UNIFORMTYPE_VEC4ARRAY

record uniform =
  uni_scope_value :: "real list option"
  uni_scope_version :: "nat \<times> nat"
  uni_version :: "nat \<times> nat"
  uni_value :: "real list"
  uni_dataType :: uniform_type
  uni_locationId :: nat

record shader_obj =
  failed :: bool
  ready :: bool
  glProgram :: jsref
  samplers :: "sampler list"
  uniforms :: "uniform list"

record vertex_element =
  el_name :: string
  numComponents :: nat
  dataType :: nat
  normalize :: bool
  stride :: nat
  offset :: nat

record vertex_buffer =
  vb_id :: int
  renderingingHash :: int
  elements :: "vertex_element list"
  instancing :: bool
  vb_bufferId :: jsref
  vb_device_is_this :: bool

record index_buffer =
  ib_bufferId :: jsref
  glFormat :: nat
  bytesPerIndex :: int
  ib_device_is_this :: bool

record render_target =
  rt_width :: int
  rt_height :: int
  glFrameBuffer :: jsref
  colorBuffer :: "nat option"
  rt_samples :: int
  autoResolve :: bool

record color_ops =
  co_clear :: bool
  clearValue :: color
  co_store :: bool
  co_resolve :: bool
  co_mipmaps :: bool

record depth_stencil_ops =
  clearDepth_op :: bool
  clearDepthValue :: "real jsnum"
  clearStencil_op :: bool
  clearStencilValue :: "int jsnum"
  storeDepth :: bool
  storeStencil :: bool

record render_pass =
  rp_renderTarget :: "nat option"
  colorOps :: color_ops
  depthStencilOps :: depth_stencil_ops
  fullSizeClearRect :: bool
  rp_samples :: int


text \<open>
  The argument of \<^verbatim>\<open>clear\<close>: each property may be left out (\<open>None\<close>), and then
  \<^verbatim>\<open>defaultClearOptions\<close> supplies it.
\<close>

record clear_options =
  opt_color :: "color option"
  opt_depth :: "real jsnum option"
  opt_stencil :: "int jsnum option"
  opt_flags :: "nat option"

record default_clear_options =
  def_color :: color
  def_depth :: "real jsnum"
  def_stencil :: "int jsnum"
  def_flags :: nat


subsection \<open>The device\<close>

text \<open>
  The fields of \<^verbatim>\<open>this\<close>, in the groups \<^verbatim>\<open>initializeRenderState\<close> sets them: blend
  state, raster and depth state, stencil state, clear values and rectangles. Each record
  extends the one before, so every field is read and updated on the device itself.
\<close>

record render_blend =
  blending :: bool
  blendSrc :: nat
  blendDst :: nat
  blendSrcAlpha :: nat
  blendDstAlpha :: nat
  separateAlphaBlend :: bool
  blendEquation :: nat
  blendAlphaEquation :: nat
  separateAlphaEquation :: bool
  blendColor :: color

record render_raster = render_blend +
  writeRed :: bool
  writeGreen :: bool
  writeBlue :: bool
  writeAlpha :: bool
  cullMode :: nat
  cullFace :: "nat option"
  depthTest :: bool
  depthFunc :: nat
  depthWrite :: bool
  alphaToCoverage :: bool
  raster :: bool
  depthBiasEnabled :: bool

record render_stencil = render_raster +
  stencil :: bool
  stencilFuncFront :: nat
  stencilFuncBack :: nat
  stencilRefFront :: "int jsnum"
  stencilRefBack :: "int jsnum"
  stencilMaskFront :: "int jsnum"
  stencilMaskBack :: "int jsnum"
  stencilFailFront :: nat
  stencilFailBack :: nat
  stencilZfailFront :: nat
  stencilZfailBack :: nat
  stencilZpassFront :: nat
  stencilZpassBack :: nat
  stencilWriteMaskFront :: "int jsnum"
  stencilWriteMaskBack :: "int jsnum"

record render_state = render_stencil +
  clearDepth :: "real jsnum"
  clearColor :: color
  clearStencil :: "int jsnum"
  vx :: "int jsnum"
  vy :: "int jsnum"
  vw :: "int jsnum"
  vh :: "int jsnum"
  sx :: "int jsnum"
  sy :: "int jsnum"
  sw :: "int jsnum"
  sh :: "int jsnum"
  unpackFlipY :: bool
  unpackPremultiplyAlpha :: bool

text \<open>
  What the constructor and the capability probe leave on the device: the context tier,
  the extensions and limits the modelled methods read, and the enum translation tables.
\<close>

record device_context = render_state +
  webgl2 :: bool
  extBlendMinmax :: bool
  extStandardDerivatives :: bool
  maxCombinedTextures :: int
  extTextureFilterAnisotropic :: bool
  maxAnisotropy :: int
  tempEnableSafariTextureUnitWorkaround :: bool
  defaultClearOptions :: default_clear_options
  glAddress :: "nat list"
  glBlendEquation :: "nat list"
  glBlendFunction :: "nat list"
  glComparison :: "nat list"
  glStencilOp :: "nat list"
  glClearFlag :: "nat list"
  glCull :: "nat list"
  glFilter :: "nat list"
  glPrimitive :: "nat list"
  glType :: "nat list"

text \<open>
  The binding caches of \<^verbatim>\<open>initializeContextCaches\<close> and the active resources the base
  class \<^verbatim>\<open>GraphicsDevice\<close> keeps (\<^verbatim>\<open>shader\<close>, \<^verbatim>\<open>indexBuffer\<close>, \<^verbatim>\<open>vertexBuffers\<close>,
  \<^verbatim>\<open>renderTarget\<close>, \<^verbatim>\<open>insideRenderPass\<close>). Shaders, textures and render targets are
  named by their index in the heap below. A texture unit is a JavaScript array, a map
  from slot to reference: a slot never written reads \<^verbatim>\<open>undefined\<close>.
\<close>

record device_bindings = device_context +
  vaoMap :: "string \<rightharpoonup> nat"
  boundVao :: "nat option"
  activeFramebuffer :: jsref
  defaultFramebuffer :: jsref
  feedback :: jsref
  transformFeedbackBuffer :: "vertex_buffer option"
  textureUnit :: int
  textureUnits :: "(nat \<Rightarrow> jsref) list"
  shader :: "nat option"
  indexBuffer :: "index_buffer option"
  vertexBuffers :: "vertex_buffer list"
  renderTarget :: "nat option"
  insideRenderPass :: bool
  attributesInvalidated :: bool
  drawCallsPerFrame :: nat

text \<open>
  The objects the device mutates through references (shader, texture, render target,
  and the \<^verbatim>\<open>impl.vao\<close> of each vertex buffer, keyed by the buffer's \<^verbatim>\<open>id\<close>); the lists
  of tracked resources the base class keeps (\<^verbatim>\<open>shaders\<close>, \<^verbatim>\<open>textures\<close>, \<^verbatim>\<open>buffers\<close>,
  \<^verbatim>\<open>targets\<close>); the size of the back buffer; the imported table
  \<^verbatim>\<open>semanticToLocation\<close> (of \<^verbatim>\<open>constants.js\<close>, taken as a parameter); a counter naming the
  native objects the context creates; and the trace.
\<close>

record device = device_bindings +
  shader_heap :: "nat \<Rightarrow> shader_obj"
  texture_heap :: "nat \<Rightarrow> texture"
  target_heap :: "nat \<Rightarrow> render_target"
  vb_vao :: "int \<rightharpoonup> nat"
  shaders :: "nat list"
  textures :: "nat list"
  buffers :: "int list"
  targets :: "nat list"
  width :: int
  height :: int
  semanticToLocation :: "string \<Rightarrow> nat option"
  next_object :: nat
  trace :: "event list"

definition emit :: "event \<Rightarrow> device \<Rightarrow> device" where
  "emit e d = d\<lparr>trace := trace d @ [e]\<rparr>"

text \<open>The events an operation adds to the trace of \<open>d\<close>.\<close>

definition issued :: "(device \<Rightarrow> device) \<Rightarrow> device \<Rightarrow> event list" where
  "issued f d = drop (length (trace d)) (trace (f d))"

definition native_calls :: "event list \<Rightarrow> event list" where
  "native_calls es = filter is_native es"


subsection \<open>The state setters\<close>

definition setViewport ::
  "int jsnum \<Rightarrow> int jsnum \<Rightarrow> int jsnum \<Rightarrow> int jsnum \<Rightarrow> device \<Rightarrow> device" where
  "setViewport x y w h d =
     (if strict_ne (vx d) x \<or> strict_ne (vy d) y \<or> strict_ne (vw d) w \<or> strict_ne (vh d) h
      then (emit (GlViewport x y w h) d)\<lparr>vx := x, vy := y, vw := w, vh := h\<rparr>
      else d)"

definition setScissor ::
  "int jsnum \<Rightarrow> int jsnum \<Rightarrow> int jsnum \<Rightarrow> int jsnum \<Rightarrow> device \<Rightarrow> device" where
  "setScissor x y w h d =
     (if strict_ne (sx d) x \<or> strict_ne (sy d) y \<or> strict_ne (sw d) w \<or> strict_ne (sh d) h
      then (emit (GlScissor x y w h) d)\<lparr>sx := x, sy := y, sw := w, sh := h\<rparr>
      else d)"

definition setClearDepth :: "real jsnum \<Rightarrow> device \<Rightarrow> device" where
  "setClearDepth depth d =
     (if strict_ne depth (clearDepth d)
      then (emit (GlClearDepth depth) d)\<lparr>clearDepth := depth\<rparr>
      else d)"

definition setClearColor ::
  "real jsnum \<Rightarrow> real jsnum \<Rightarrow> real jsnum \<Rightarrow> real jsnum \<Rightarrow> device \<Rightarrow> device" where
  "setClearColor r g b a d =
     (let c = clearColor d in
      if strict_ne r (col_r c) \<or> strict_ne g (col_g c) \<or> strict_ne b (col_b c)
         \<or> strict_ne a (col_a c)
      then (emit (GlClearColor r g b a) d)
             \<lparr>clearColor := \<lparr>col_r = r, col_g = g, col_b = b, col_a = a\<rparr>\<rparr>
      else d)"

definition setClearStencil :: "int jsnum \<Rightarrow> device \<Rightarrow> device" where
  "setClearStencil v d =
     (if strict_ne v (clearStencil d)
      then (emit (GlClearStencil v) d)\<lparr>clearStencil := v\<rparr>
      else d)"

definition setDepthTest :: "bool \<Rightarrow> device \<Rightarrow> device" where
  "setDepthTest depthTest' d =
     (if depthTest d \<noteq> depthTest'
      then (emit (if depthTest' then GlEnable GL_DEPTH_TEST else GlDisable GL_DEPTH_TEST) d)
             \<lparr>depthTest := depthTest'\<rparr>
      else d)"

definition setDepthFunc :: "nat \<Rightarrow> device \<Rightarrow> device" where
  "setDepthFunc func d =
     (if depthFunc d = func then d
      else (emit (GlDepthFunc (lookup (glComparison d) func)) d)\<lparr>depthFunc := func\<rparr>)"

definition setDepthWrite :: "bool \<Rightarrow> device \<Rightarrow> device" where
  "setDepthWrite writeDepth d =
     (if depthWrite d \<noteq> writeDepth
      then (emit (GlDepthMask writeDepth) d)\<lparr>depthWrite := writeDepth\<rparr>
      else d)"

definition setColorWrite :: "bool \<Rightarrow> bool \<Rightarrow> bool \<Rightarrow> bool \<Rightarrow> device \<Rightarrow> device" where
  "setColorWrite writeRed' writeGreen' writeBlue' writeAlpha' d =
     (if writeRed d \<noteq> writeRed' \<or> writeGreen d \<noteq> writeGreen'
         \<or> writeBlue d \<noteq> writeBlue' \<or> writeAlpha d \<noteq> writeAlpha'
      then (emit (GlColorMask writeRed' writeGreen' writeBlue' writeAlpha') d)
             \<lparr>writeRed := writeRed', writeGreen := writeGreen',
              writeBlue := writeBlue', writeAlpha := writeAlpha'\<rparr>
      else d)"

definition setAlphaToCoverage :: "bool \<Rightarrow> device \<Rightarrow> device" where
  "setAlphaToCoverage state d =
     (if \<not> webgl2 d then d
      else if alphaToCoverage d = state then d
      else emit (if state then GlEnable GL_SAMPLE_ALPHA_TO_COVERAGE
                 else GlDisable GL_SAMPLE_ALPHA_TO_COVERAGE)
             (d\<lparr>alphaToCoverage := state\<rparr>))"

definition setRaster :: "bool \<Rightarrow> device \<Rightarrow> device" where
  "setRaster on d =
     (if raster d = on then d
      else let d1 = d\<lparr>raster := on\<rparr> in
        if webgl2 d1
        then emit (if on then GlDisable GL_RASTERIZER_DISCARD
                   else GlEnable GL_RASTERIZER_DISCARD) d1
        else d1)"

definition setDepthBias :: "bool \<Rightarrow> device \<Rightarrow> device" where
  "setDepthBias on d =
     (if depthBiasEnabled d = on then d
      else emit (if on then GlEnable GL_POLYGON_OFFSET_FILL
                 else GlDisable GL_POLYGON_OFFSET_FILL)
             (d\<lparr>depthBiasEnabled := on\<rparr>))"

definition setDepthBiasValues :: "real jsnum \<Rightarrow> real jsnum \<Rightarrow> device \<Rightarrow> device" where
  "setDepthBiasValues constBias slopeBias d = emit (GlPolygonOffset slopeBias constBias) d"

definition setBlending :: "bool \<Rightarrow> device \<Rightarrow> device" where
  "setBlending blending' d =
     (if blending d \<noteq> blending'
      then (emit (if blending' then GlEnable GL_BLEND else GlDisable GL_BLEND) d)
             \<lparr>blending := blending'\<rparr>
      else d)"

definition setStencilTest :: "bool \<Rightarrow> device \<Rightarrow> device" where
  "setStencilTest enable d =
     (if stencil d \<noteq> enable
      then (emit (if enable then GlEnable GL_STENCIL_TEST else GlDisable GL_STENCIL_TEST) d)
             \<lparr>stencil := enable\<rparr>
      else d)"

definition setStencilFunc :: "nat \<Rightarrow> int jsnum \<Rightarrow> int jsnum \<Rightarrow> device \<Rightarrow> device" where
  "setStencilFunc func rf msk d =
     (if stencilFuncFront d \<noteq> func \<or> strict_ne (stencilRefFront d) rf
         \<or> strict_ne (stencilMaskFront d) msk
         \<or> stencilFuncBack d \<noteq> func \<or> strict_ne (stencilRefBack d) rf
         \<or> strict_ne (stencilMaskBack d) msk
      then (emit (GlStencilFunc (lookup (glComparison d) func) rf msk) d)
             \<lparr>stencilFuncFront := func, stencilFuncBack := func,
              stencilRefFront := rf, stencilRefBack := rf,
              stencilMaskFront := msk, stencilMaskBack := msk\<rparr>
      else d)"

definition setStencilFuncFront :: "nat \<Rightarrow> int jsnum \<Rightarrow> int jsnum \<Rightarrow> device \<Rightarrow> device" where
  "setStencilFuncFront func rf msk d =
     (if stencilFuncFront d \<noteq> func \<or> strict_ne (stencilRefFront d) rf
         \<or> strict_ne (stencilMaskFront d) msk
      then (emit (GlStencilFuncSeparate GL_FRONT (lookup (glComparison d) func) rf msk) d)
             \<lparr>stencilFuncFront := func, stencilRefFront := rf, stencilMaskFront := msk\<rparr>
      else d)"

definition setStencilFuncBack :: "nat \<Rightarrow> int jsnum \<Rightarrow> int jsnum \<Rightarrow> device \<Rightarrow> device" where
  "setStencilFuncBack func rf msk d =
     (if stencilFuncBack d \<noteq> func \<or> strict_ne (stencilRefBack d) rf
         \<or> strict_ne (stencilMaskBack d) msk
      then (emit (GlStencilFuncSeparate GL_BACK (lookup (glComparison d) func) rf msk) d)
             \<lparr>stencilFuncBack := func, stencilRefBack := rf, stencilMaskBack := msk\<rparr>
      else d)"


definition setStencilOperation ::
  "nat \<Rightarrow> nat \<Rightarrow> nat \<Rightarrow> int jsnum \<Rightarrow> device \<Rightarrow> device" where
  "setStencilOperation fail zfail zpass writeMask d =
     (let d1 =
        (if stencilFailFront d \<noteq> fail \<or> stencilZfailFront d \<noteq> zfail
            \<or> stencilZpassFront d \<noteq> zpass \<or> stencilFailBack d \<noteq> fail
            \<or> stencilZfailBack d \<noteq> zfail \<or> stencilZpassBack d \<noteq> zpass
         then (emit (GlStencilOp (lookup (glStencilOp d) fail) (lookup (glStencilOp d) zfail)
                       (lookup (glStencilOp d) zpass)) d)
                \<lparr>stencilFailFront := fail, stencilFailBack := fail,
                 stencilZfailFront := zfail, stencilZfailBack := zfail,
                 stencilZpassFront := zpass, stencilZpassBack := zpass\<rparr>
         else d)
      in if strict_ne (stencilWriteMaskFront d1) writeMask
            \<or> strict_ne (stencilWriteMaskBack d1) writeMask
         then (emit (GlStencilMask writeMask) d1)
                \<lparr>stencilWriteMaskFront := writeMask, stencilWriteMaskBack := writeMask\<rparr>
         else d1)"

definition setStencilOperationFront ::
  "nat \<Rightarrow> nat \<Rightarrow> nat \<Rightarrow> int jsnum \<Rightarrow> device \<Rightarrow> device" where
  "setStencilOperationFront fail zfail zpass writeMask d =
     (let d1 =
        (if stencilFailFront d \<noteq> fail \<or> stencilZfailFront d \<noteq> zfail
            \<or> stencilZpassFront d \<noteq> zpass
         then (emit (GlStencilOpSeparate GL_FRONT (lookup (glStencilOp d) fail)
                       (lookup (glStencilOp d) zfail) (lookup (glStencilOp d) zpass)) d)
                \<lparr>stencilFailFront := fail, stencilZfailFront := zfail,
                 stencilZpassFront := zpass\<rparr>
         else d)
      in if strict_ne (stencilWriteMaskFront d1) writeMask
         then (emit (GlStencilMaskSeparate GL_FRONT writeMask) d1)
                \<lparr>stencilWriteMaskFront := writeMask\<rparr>
         else d1)"

definition setStencilOperationBack ::
  "nat \<Rightarrow> nat \<Rightarrow> nat \<Rightarrow> int jsnum \<Rightarrow> device \<Rightarrow> device" where
  "setStencilOperationBack fail zfail zpass writeMask d =
     (let d1 =
        (if stencilFailBack d \<noteq> fail \<or> stencilZfailBack d \<noteq> zfail
            \<or> stencilZpassBack d \<noteq> zpass
         then (emit (GlStencilOpSeparate GL_BACK (lookup (glStencilOp d) fail)
                       (lookup (glStencilOp d) zfail) (lookup (glStencilOp d) zpass)) d)
                \<lparr>stencilFailBack := fail, stencilZfailBack := zfail,
                 stencilZpassBack := zpass\<rparr>
         else d)
      in if strict_ne (stencilWriteMaskBack d1) writeMask
         then (emit (GlStencilMaskSeparate GL_BACK writeMask) d1)
                \<lparr>stencilWriteMaskBack := writeMask\<rparr>
         else d1)"

definition setBlendFunction :: "nat \<Rightarrow> nat \<Rightarrow> device \<Rightarrow> device" where
  "setBlendFunction blendSrc' blendDst' d =
     (if blendSrc d \<noteq> blendSrc' \<or> blendDst d \<noteq> blendDst' \<or> separateAlphaBlend d
      then (emit (GlBlendFunc (lookup (glBlendFunction d) blendSrc')
                    (lookup (glBlendFunction d) blendDst')) d)
             \<lparr>blendSrc := blendSrc', blendDst := blendDst', separateAlphaBlend := False\<rparr>
      else d)"

definition setBlendFunctionSeparate :: "nat \<Rightarrow> nat \<Rightarrow> nat \<Rightarrow> nat \<Rightarrow> device \<Rightarrow> device" where
  "setBlendFunctionSeparate blendSrc' blendDst' blendSrcAlpha' blendDstAlpha' d =
     (if blendSrc d \<noteq> blendSrc' \<or> blendDst d \<noteq> blendDst'
         \<or> blendSrcAlpha d \<noteq> blendSrcAlpha' \<or> blendDstAlpha d \<noteq> blendDstAlpha'
         \<or> \<not> separateAlphaBlend d
      then (emit (GlBlendFuncSeparate (lookup (glBlendFunction d) blendSrc')
                    (lookup (glBlendFunction d) blendDst')
                    (lookup (glBlendFunction d) blendSrcAlpha')
                    (lookup (glBlendFunction d) blendDstAlpha')) d)
             \<lparr>blendSrc := blendSrc', blendDst := blendDst',
              blendSrcAlpha := blendSrcAlpha', blendDstAlpha := blendDstAlpha',
              separateAlphaBlend := True\<rparr>
      else d)"

definition setBlendEquation :: "nat \<Rightarrow> device \<Rightarrow> device" where
  "setBlendEquation blendEquation' d =
     (if blendEquation d \<noteq> blendEquation' \<or> separateAlphaEquation d
      then (emit (GlBlendEquation (lookup (glBlendEquation d) blendEquation')) d)
             \<lparr>blendEquation := blendEquation', separateAlphaEquation := False\<rparr>
      else d)"

definition setBlendEquationSeparate :: "nat \<Rightarrow> nat \<Rightarrow> device \<Rightarrow> device" where
  "setBlendEquationSeparate blendEquation' blendAlphaEquation' d =
     (if blendEquation d \<noteq> blendEquation' \<or> blendAlphaEquation d \<noteq> blendAlphaEquation'
         \<or> \<not> separateAlphaEquation d
      then (emit (GlBlendEquationSeparate (lookup (glBlendEquation d) blendEquation')
                    (lookup (glBlendEquation d) blendAlphaEquation')) d)
             \<lparr>blendEquation := blendEquation', blendAlphaEquation := blendAlphaEquation',
              separateAlphaEquation := True\<rparr>
      else d)"

definition setBlendColor ::
  "real jsnum \<Rightarrow> real jsnum \<Rightarrow> real jsnum \<Rightarrow> real jsnum \<Rightarrow> device \<Rightarrow> device" where
  "setBlendColor r g b a d =
     (let c = blendColor d in
      if strict_ne r (col_r c) \<or> strict_ne g (col_g c) \<or> strict_ne b (col_b c)
         \<or> strict_ne a (col_a c)
      then (emit (GlBlendColor r g b a) d)
             \<lparr>blendColor := \<lparr>col_r = r, col_g = g, col_b = b, col_a = a\<rparr>\<rparr>
      else d)"

text \<open>
  \<^verbatim>\<open>setCullMode\<close> keeps a second cache, \<^verbatim>\<open>this.cullFace\<close>, of the face last passed to
  \<^verbatim>\<open>gl.cullFace\<close>; no other method of the file reads or writes it.
\<close>

definition setCullMode :: "nat \<Rightarrow> device \<Rightarrow> device" where
  "setCullMode cullMode' d =
     (if cullMode d \<noteq> cullMode'
      then
        (let d3 =
           (if cullMode' = CULLFACE_NONE
            then emit (GlDisable GL_CULL_FACE) d
            else
              (let d1 = (if cullMode d = CULLFACE_NONE
                         then emit (GlEnable GL_CULL_FACE) d else d);
                   mode = lookup (glCull d1) cullMode'
               in if cullFace d1 \<noteq> mode
                  then (emit (GlCullFace mode) d1)\<lparr>cullFace := mode\<rparr>
                  else d1))
         in d3\<lparr>cullMode := cullMode'\<rparr>)
      else d)"

definition getDepthTest :: "device \<Rightarrow> bool" where
  "getDepthTest d = depthTest d"

definition getDepthWrite :: "device \<Rightarrow> bool" where
  "getDepthWrite d = depthWrite d"

definition getBlending :: "device \<Rightarrow> bool" where
  "getBlending d = blending d"

definition getCullMode :: "device \<Rightarrow> nat" where
  "getCullMode d = cullMode d"

text \<open>The setter family of the render-state cache, as one type of calls.\<close>

datatype blend_setter =
    SetBlending bool
  | SetBlendFunction nat nat
  | SetBlendFunctionSeparate nat nat nat nat
  | SetBlendEquation nat
  | SetBlendEquationSeparate nat nat
  | SetBlendColor "real jsnum" "real jsnum" "real jsnum" "real jsnum"

datatype stencil_setter =
    SetStencilTest bool
  | SetStencilFunc nat "int jsnum" "int jsnum"
  | SetStencilFuncFront nat "int jsnum" "int jsnum"
  | SetStencilFuncBack nat "int jsnum" "int jsnum"
  | SetStencilOperation nat nat nat "int jsnum"
  | SetStencilOperationFront nat nat nat "int jsnum"
  | SetStencilOperationBack nat nat nat "int jsnum"

datatype raster_setter =
    SetDepthTest bool
  | SetDepthFunc nat
  | SetDepthWrite bool
  | SetColorWrite bool bool bool bool
  | SetCullMode nat
  | SetAlphaToCoverage bool
  | SetRaster bool
  | SetDepthBias bool

datatype frame_setter =
    SetViewport "int jsnum" "int jsnum" "int jsnum" "int jsnum"
  | SetScissor "int jsnum" "int jsnum" "int jsnum" "int jsnum"
  | SetClearColor "real jsnum" "real jsnum" "real jsnum" "real jsnum"
  | SetClearDepth "real jsnum"
  | SetClearStencil "int jsnum"

datatype setter =
    Blend blend_setter
  | Stencil stencil_setter
  | Raster raster_setter
  | Frame frame_setter
  | SetDepthBiasValues "real jsnum" "real jsnum"

fun call_blend :: "blend_setter \<Rightarrow> device \<Rightarrow> device" where
  "call_blend (SetBlending b) = setBlending b"
| "call_blend (SetBlendFunction s t) = setBlendFunction s t"
| "call_blend (SetBlendFunctionSeparate s t sa ta) = setBlendFunctionSeparate s t sa ta"
| "call_blend (SetBlendEquation e) = setBlendEquation e"
| "call_blend (SetBlendEquationSeparate e ea) = setBlendEquationSeparate e ea"
| "call_blend (SetBlendColor r g b a) = setBlendColor r g b a"

fun call_stencil :: "stencil_setter \<Rightarrow> device \<Rightarrow> device" where
  "call_stencil (SetStencilTest b) = setStencilTest b"
| "call_stencil (SetStencilFunc f rf msk) = setStencilFunc f rf msk"
| "call_stencil (SetStencilFuncFront f rf msk) = setStencilFuncFront f rf msk"
| "call_stencil (SetStencilFuncBack f rf msk) = setStencilFuncBack f rf msk"
| "call_stencil (SetStencilOperation f zf zp wm) = setStencilOperation f zf zp wm"
| "call_stencil (SetStencilOperationFront f zf zp wm) = setStencilOperationFront f zf zp wm"
| "call_stencil (SetStencilOperationBack f zf zp wm) = setStencilOperationBack f zf zp wm"

fun call_raster :: "raster_setter \<Rightarrow> device \<Rightarrow> device" where
  "call_raster (SetDepthTest b) = setDepthTest b"
| "call_raster (SetDepthFunc f) = setDepthFunc f"
| "call_raster (SetDepthWrite b) = setDepthWrite b"
| "call_raster (SetColorWrite r g b a) = setColorWrite r g b a"
| "call_raster (SetCullMode m) = setCullMode m"
| "call_raster (SetAlphaToCoverage b) = setAlphaToCoverage b"
| "call_raster (SetRaster b) = setRaster b"
| "call_raster (SetDepthBias b) = setDepthBias b"

fun call_frame :: "frame_setter \<Rightarrow> device \<Rightarrow> device" where
  "call_frame (SetViewport x y w h) = setViewport x y w h"
| "call_frame (SetScissor x y w h) = setScissor x y w h"
| "call_frame (SetClearColor r g b a) = setClearColor r g b a"
| "call_frame (SetClearDepth z) = setClearDepth z"
| "call_frame (SetClearStencil v) = setClearStencil v"

fun call_setter :: "setter \<Rightarrow> device \<Rightarrow> device" where
  "call_setter (Blend c) = call_blend c"
| "call_setter (Stencil c) = call_stencil c"
| "call_setter (Raster c) = call_raster c"
| "call_setter (Frame c) = call_frame c"
| "call_setter (SetDepthBiasValues constBias slopeBias) = setDepthBiasValues constBias slopeBias"


subsection \<open>Clearing\<close>

definition as_options :: "default_clear_options \<Rightarrow> clear_options" where
  "as_options df =
     \<lparr>opt_color = Some (def_color df), opt_depth = Some (def_depth df),
      opt_stencil = Some (def_stencil df), opt_flags = Some (def_flags df)\<rparr>"

definition or_default :: "'a option \<Rightarrow> 'a \<Rightarrow> 'a" where
  "or_default v df = (case v of None \<Rightarrow> df | Some x \<Rightarrow> x)"

text \<open>The three conditional blocks of \<^verbatim>\<open>clear\<close>, then the method.\<close>

definition clear_color_block :: "clear_options \<Rightarrow> default_clear_options \<Rightarrow> nat \<Rightarrow> device \<Rightarrow> device" where
  "clear_color_block options defaultOptions flags d =
     (if flags AND CLEARFLAG_COLOR \<noteq> 0 then
        (let color = or_default (opt_color options) (def_color defaultOptions)
         in setColorWrite True True True True
              (setClearColor (col_r color) (col_g color) (col_b color) (col_a color) d))
      else d)"

definition clear_depth_block :: "clear_options \<Rightarrow> default_clear_options \<Rightarrow> nat \<Rightarrow> device \<Rightarrow> device" where
  "clear_depth_block options defaultOptions flags d =
     (if flags AND CLEARFLAG_DEPTH \<noteq> 0 then
        (let depth = or_default (opt_depth options) (def_depth defaultOptions)
         in setDepthWrite True (setClearDepth depth d))
      else d)"

definition clear_stencil_block :: "clear_options \<Rightarrow> default_clear_options \<Rightarrow> nat \<Rightarrow> device \<Rightarrow> device" where
  "clear_stencil_block options defaultOptions flags d =
     (if flags AND CLEARFLAG_STENCIL \<noteq> 0 then
        (let stencil' = or_default (opt_stencil options) (def_stencil defaultOptions)
         in setClearStencil stencil' d)
      else d)"

definition clear :: "clear_options option \<Rightarrow> device \<Rightarrow> device" where
  "clear options' d =
     (let defaultOptions = defaultClearOptions d;
          options = (case options' of None \<Rightarrow> as_options defaultOptions | Some opts \<Rightarrow> opts);
          flags = or_default (opt_flags options) (def_flags defaultOptions)
      in if flags \<noteq> 0 then
           (let d3 = clear_stencil_block options defaultOptions flags
                       (clear_depth_block options defaultOptions flags
                          (clear_color_block options defaultOptions flags d))
            in emit (GlClear (lookup (glClearFlag d3) flags)) d3)
         else d)"

subsection \<open>Texture binding\<close>

definition targetToSlot :: "tex_target \<Rightarrow> nat" where
  "targetToSlot t = (case t of TEXTURE_2D \<Rightarrow> 0 | TEXTURE_CUBE_MAP \<Rightarrow> 1 | TEXTURE_3D \<Rightarrow> 2)"

definition gl_target :: "tex_target \<Rightarrow> nat" where
  "gl_target t = (case t of TEXTURE_2D \<Rightarrow> GL_TEXTURE_2D
                  | TEXTURE_CUBE_MAP \<Rightarrow> GL_TEXTURE_CUBE_MAP | TEXTURE_3D \<Rightarrow> GL_TEXTURE_3D)"

definition activeTexture :: "int \<Rightarrow> device \<Rightarrow> device" where
  "activeTexture textureUnit' d =
     (if textureUnit d \<noteq> textureUnit'
      then (emit (GlActiveTexture textureUnit') d)\<lparr>textureUnit := textureUnit'\<rparr>
      else d)"

text \<open>
  \<^verbatim>\<open>this.textureUnits[textureUnit]\<close> is \<^verbatim>\<open>undefined\<close> for a unit the table does not
  have, and reading a slot of \<^verbatim>\<open>undefined\<close> throws.
\<close>

definition unit_in_table :: "int \<Rightarrow> device \<Rightarrow> bool" where
  "unit_in_table u d = (0 \<le> u \<and> u < int (length (textureUnits d)))"

definition tracked :: "device \<Rightarrow> int \<Rightarrow> nat \<Rightarrow> jsref" where
  "tracked d u slot = (textureUnits d ! nat u) slot"

definition track :: "int \<Rightarrow> nat \<Rightarrow> jsref \<Rightarrow> device \<Rightarrow> device" where
  "track u slot obj d =
     d\<lparr>textureUnits := (textureUnits d)[nat u := (textureUnits d ! nat u)(slot := obj)]\<rparr>"

definition bindTexture :: "texture \<Rightarrow> device \<Rightarrow> error + device" where
  "bindTexture tex d =
     (let textureTarget = glTarget tex;
          textureObject = glTexture tex;
          textureUnit' = textureUnit d;
          slot = targetToSlot textureTarget
      in if \<not> unit_in_table textureUnit' d
         then Inl (TypeError ''Cannot read properties of undefined'')
         else if tracked d textureUnit' slot \<noteq> textureObject
         then Inr (track textureUnit' slot textureObject
                     (emit (GlBindTexture (gl_target textureTarget) textureObject) d))
         else Inr d)"

definition bindTextureOnUnit :: "texture \<Rightarrow> int \<Rightarrow> device \<Rightarrow> error + device" where
  "bindTextureOnUnit tex textureUnit' d =
     (let textureTarget = glTarget tex;
          textureObject = glTexture tex;
          slot = targetToSlot textureTarget
      in if \<not> unit_in_table textureUnit' d
         then Inl (TypeError ''Cannot read properties of undefined'')
         else if tracked d textureUnit' slot \<noteq> textureObject
         then Inr (track textureUnit' slot textureObject
                     (emit (GlBindTexture (gl_target textureTarget) textureObject)
                        (activeTexture textureUnit' d)))
         else Inr d)"







subsection \<open>Vertex array objects\<close>







definition unbindVertexArray :: "device \<Rightarrow> device" where
  "unbindVertexArray d =
     (if boundVao d \<noteq> None
      then emit (GlBindVertexArray JNull) (d\<lparr>boundVao := None\<rparr>)
      else d)"




definition setVertexBuffer :: "vertex_buffer option \<Rightarrow> device \<Rightarrow> device" where
  "setVertexBuffer vertexBuffer d =
     (case vertexBuffer of
        Some vb \<Rightarrow> d\<lparr>vertexBuffers := vertexBuffers d @ [vb]\<rparr>
      | None \<Rightarrow> d)"

subsection \<open>Shader activation\<close>

text \<open>
  \<^verbatim>\<open>shader.impl.postLink\<close> belongs to \<^verbatim>\<open>webgl-shader.js\<close>, which is not among the
  sources; it is a parameter: a function that, given the shader object, answers whether
  linking succeeded and returns the object as the call leaves it. Each call is recorded
  in the trace.
\<close>

type_synonym post_link = "shader_obj \<Rightarrow> bool \<times> shader_obj"

definition update_shader :: "nat \<Rightarrow> (shader_obj \<Rightarrow> shader_obj) \<Rightarrow> device \<Rightarrow> device" where
  "update_shader s f d = d\<lparr>shader_heap := (shader_heap d)(s := f (shader_heap d s))\<rparr>"

definition call_postLink :: "post_link \<Rightarrow> nat \<Rightarrow> device \<Rightarrow> bool \<times> device" where
  "call_postLink postLink s d =
     (let (ok, obj) = postLink (shader_heap d s)
      in (ok, update_shader s (\<lambda>_. obj) (emit (Collaborator ''shader.impl.postLink'' s) d)))"

definition use_shader :: "nat \<Rightarrow> device \<Rightarrow> bool \<times> device" where
  "use_shader s d =
     (True, (emit (GlUseProgram (glProgram (shader_heap d s))) (d\<lparr>shader := Some s\<rparr>))
              \<lparr>attributesInvalidated := True\<rparr>)"

definition setShader :: "post_link \<Rightarrow> nat \<Rightarrow> device \<Rightarrow> bool \<times> device" where
  "setShader postLink s d =
     (if Some s \<noteq> shader d then
        (if failed (shader_heap d s) then (False, d)
         else if \<not> ready (shader_heap d s) then
           (let (ok, d1) = call_postLink postLink s d
            in if \<not> ok then (False, update_shader s (\<lambda>x. x\<lparr>failed := True\<rparr>) d1)
               else use_shader s d1)
         else use_shader s d)
      else (True, d))"


subsection \<open>Drawing\<close>












subsection \<open>Render passes\<close>

definition setFramebuffer :: "jsref \<Rightarrow> device \<Rightarrow> device" where
  "setFramebuffer fb d =
     (if activeFramebuffer d \<noteq> fb
      then (emit (GlBindFramebuffer fb) d)\<lparr>activeFramebuffer := fb\<rparr>
      else d)"

definition update_target :: "nat \<Rightarrow> (render_target \<Rightarrow> render_target) \<Rightarrow> device \<Rightarrow> device" where
  "update_target t f d = d\<lparr>target_heap := (target_heap d)(t := f (target_heap d t))\<rparr>"

text \<open>
  Modelled from the spec: \<^verbatim>\<open>target.init\<close> and \<^verbatim>\<open>target.resolve\<close> belong to
  \<^verbatim>\<open>render-target.js\<close>, and \<^verbatim>\<open>setRenderTarget\<close> to the base class
  \<^verbatim>\<open>graphics-device.js\<close>; neither is among the sources. The spec says \<^verbatim>\<open>startPass\<close>
  "binds the pass's render target (creating its native framebuffer on first use)":
  \<^verbatim>\<open>setRenderTarget\<close> stores the target on the device, \<^verbatim>\<open>init\<close> gives the target a fresh
  native framebuffer; a resolve is recorded as an event.
\<close>

definition setRenderTarget :: "nat option \<Rightarrow> device \<Rightarrow> device" where
  "setRenderTarget rt d = d\<lparr>renderTarget := rt\<rparr>"

definition target_init :: "nat \<Rightarrow> device \<Rightarrow> device" where
  "target_init t d =
     update_target t (\<lambda>x. x\<lparr>glFrameBuffer := JObj (next_object d)\<rparr>)
       ((emit (Collaborator ''target.init'' t) d)\<lparr>next_object := Suc (next_object d)\<rparr>)"

definition initRenderTarget :: "nat \<Rightarrow> device \<Rightarrow> device" where
  "initRenderTarget t d =
     (if truthy (glFrameBuffer (target_heap d t)) then d
      else (let d1 = target_init t d in d1\<lparr>targets := targets d1 @ [t]\<rparr>))"

definition updateBegin :: "device \<Rightarrow> device" where
  "updateBegin d =
     (let d1 = d\<lparr>boundVao := None\<rparr>;
          d2 = (if tempEnableSafariTextureUnitWorkaround d1
                then d1\<lparr>textureUnits :=
                         map (\<lambda>unit. unit(0 := JNull, 1 := JNull, 2 := JNull)) (textureUnits d1)\<rparr>
                else d1)
      in case renderTarget d2 of
           Some target \<Rightarrow>
             (if \<not> truthy (glFrameBuffer (target_heap d2 target))
              then initRenderTarget target d2
              else setFramebuffer (glFrameBuffer (target_heap d2 target)) d2)
         | None \<Rightarrow> setFramebuffer (defaultFramebuffer d2) d2)"

text \<open>
  \<^verbatim>\<open>startPass\<close> in its two halves: \<open>pass_setup\<close> sets up the render target and clears it,
  then come the assertion that no pass is open and the flag.
\<close>

definition pass_setup :: "render_pass \<Rightarrow> device \<Rightarrow> device" where
  "pass_setup renderPass d =
     (let d1 = updateBegin (setRenderTarget (rp_renderTarget renderPass) d);
          colorOps' = colorOps renderPass;
          depthStencilOps' = depthStencilOps renderPass
      in if co_clear colorOps' \<or> clearDepth_op depthStencilOps' \<or> clearStencil_op depthStencilOps'
         then
           (let rt = rp_renderTarget renderPass;
                width' = (case rt of Some t \<Rightarrow> rt_width (target_heap d1 t) | None \<Rightarrow> width d1);
                height' = (case rt of Some t \<Rightarrow> rt_height (target_heap d1 t) | None \<Rightarrow> height d1);
                d1a = setScissor 0 0 (Num width') (Num height')
                        (setViewport 0 0 (Num width') (Num height') d1);
                clearFlags =
                  (if co_clear colorOps' then CLEARFLAG_COLOR else 0)
                  OR (if clearDepth_op depthStencilOps' then CLEARFLAG_DEPTH else 0)
                  OR (if clearStencil_op depthStencilOps' then CLEARFLAG_STENCIL else 0);
                clearOptions =
                  \<lparr>opt_color = (if co_clear colorOps' then Some (clearValue colorOps') else None),
                   opt_depth = (if clearDepth_op depthStencilOps'
                                then Some (clearDepthValue depthStencilOps') else None),
                   opt_stencil = (if clearStencil_op depthStencilOps'
                                  then Some (clearStencilValue depthStencilOps') else None),
                   opt_flags = Some clearFlags\<rparr>
            in clear (Some clearOptions) d1a)
         else d1)"

definition startPass :: "render_pass \<Rightarrow> device \<Rightarrow> device" where
  "startPass renderPass d =
     (let d2 = pass_setup renderPass d;
          d3 = (if insideRenderPass d2 then emit (DebugAssertFailed ''!this.insideRenderPass'') d2
                else d2)
      in d3\<lparr>insideRenderPass := True\<rparr>)"

definition endPass :: "render_pass \<Rightarrow> device \<Rightarrow> error + device" where
  "endPass renderPass d =
     (let d1 = unbindVertexArray d
      in and_then
           (case renderTarget d1 of
              None \<Rightarrow> Inr d1
            | Some target \<Rightarrow>
                (let invalidateAttachments =
                       (if \<not> (co_store (colorOps renderPass) \<or> co_resolve (colorOps renderPass))
                        then [GL_COLOR_ATTACHMENT0] else [])
                       @ (if \<not> storeDepth (depthStencilOps renderPass)
                          then [GL_DEPTH_ATTACHMENT] else [])
                       @ (if \<not> storeStencil (depthStencilOps renderPass)
                          then [GL_STENCIL_ATTACHMENT] else []);
                     d2 = (if webgl2 d1 \<and> length invalidateAttachments > 0
                              \<and> fullSizeClearRect renderPass
                           then emit (GlInvalidateFramebuffer invalidateAttachments) d1
                           else d1);
                     d3 = (if co_resolve (colorOps renderPass) \<and> webgl2 d2
                              \<and> rp_samples renderPass > 1 \<and> autoResolve (target_heap d2 target)
                           then emit (Collaborator ''target.resolve'' target) d2
                           else d2)
                 in if co_mipmaps (colorOps renderPass) then
                      (case colorBuffer (target_heap d3 target) of
                         None \<Rightarrow> Inr d3
                       | Some c \<Rightarrow>
                           (let tex = texture_heap d3 c
                            in if truthy (glTexture tex) \<and> mipmaps tex \<and> (pot tex \<or> webgl2 d3)
                               then and_then
                                      (bindTexture tex (activeTexture (maxCombinedTextures d3 - 1) d3))
                                      (\<lambda>d4. Inr (emit (GlGenerateMipmap (gl_target (glTarget tex))) d4))
                               else Inr d3))
                    else Inr d3))
           (\<lambda>d5. Inr (d5\<lparr>insideRenderPass := False\<rparr>)))"


subsection \<open>Construction, context loss and restore\<close>

text \<open>
  What the context answers when probed. Context acquisition and capability probing are
  collaborators of the core; of \<^verbatim>\<open>initializeExtensions\<close> and
  \<^verbatim>\<open>initializeCapabilities\<close> the model keeps the answers the methods above read.
\<close>

record glenv =
  env_webgl2 :: bool
  env_EXT_blend_minmax :: bool
  env_OES_standard_derivatives :: bool
  env_EXT_texture_filter_anisotropic :: bool
  env_MAX_COMBINED_TEXTURE_IMAGE_UNITS :: int
  env_MAX_TEXTURE_MAX_ANISOTROPY :: int
  env_safari :: bool
  env_drawingBufferWidth :: int
  env_drawingBufferHeight :: int
  env_semanticToLocation :: "string \<Rightarrow> nat option"

definition initializeExtensions :: "glenv \<Rightarrow> device \<Rightarrow> device" where
  "initializeExtensions env d =
     (let d1 = (if webgl2 d
                then d\<lparr>extBlendMinmax := True, extStandardDerivatives := True\<rparr>
                else d\<lparr>extBlendMinmax := env_EXT_blend_minmax env,
                       extStandardDerivatives := env_OES_standard_derivatives env\<rparr>)
      in d1\<lparr>extTextureFilterAnisotropic := env_EXT_texture_filter_anisotropic env\<rparr>)"

definition initializeCapabilities :: "glenv \<Rightarrow> device \<Rightarrow> device" where
  "initializeCapabilities env d =
     d\<lparr>maxCombinedTextures := env_MAX_COMBINED_TEXTURE_IMAGE_UNITS env,
       maxAnisotropy := (if extTextureFilterAnisotropic d
                         then env_MAX_TEXTURE_MAX_ANISOTROPY env else 1)\<rparr>"

definition emits :: "event list \<Rightarrow> device \<Rightarrow> device" where
  "emits es d = d\<lparr>trace := trace d @ es\<rparr>"

text \<open>
  \<^verbatim>\<open>initializeRenderState\<close>, block by block: each block assigns its cached fields and
  issues its native calls, in the order of the source. It assigns every field of the
  render state but \<^verbatim>\<open>cullFace\<close>, which the source never initialises.
\<close>

definition init_blend :: "device \<Rightarrow> device" where
  "init_blend d =
     emits [GlDisable GL_BLEND, GlBlendFunc (Some GL_ONE) (Some GL_ZERO),
            GlBlendEquation (Some GL_FUNC_ADD), GlBlendColor 0 0 0 0]
       (d\<lparr>blending := False,
          blendSrc := BLENDMODE_ONE, blendDst := BLENDMODE_ZERO,
          blendSrcAlpha := BLENDMODE_ONE, blendDstAlpha := BLENDMODE_ZERO,
          separateAlphaBlend := False,
          blendEquation := BLENDEQUATION_ADD, blendAlphaEquation := BLENDEQUATION_ADD,
          separateAlphaEquation := False,
          blendColor := \<lparr>col_r = 0, col_g = 0, col_b = 0, col_a = 0\<rparr>\<rparr>)"

definition init_raster :: "device \<Rightarrow> device" where
  "init_raster d =
     emits [GlColorMask True True True True, GlEnable GL_CULL_FACE, GlCullFace (Some GL_BACK),
            GlEnable GL_DEPTH_TEST, GlDepthFunc (Some GL_LEQUAL), GlDepthMask True]
       (d\<lparr>writeRed := True, writeGreen := True, writeBlue := True, writeAlpha := True,
          cullMode := CULLFACE_BACK,
          depthTest := True, depthFunc := FUNC_LESSEQUAL, depthWrite := True\<rparr>)"

definition init_stencil :: "device \<Rightarrow> device" where
  "init_stencil d =
     emits [GlDisable GL_STENCIL_TEST, GlStencilFunc (Some GL_ALWAYS) 0 255,
            GlStencilOp (Some GL_KEEP) (Some GL_KEEP) (Some GL_KEEP), GlStencilMask 255]
       (d\<lparr>stencil := False,
          stencilFuncFront := FUNC_ALWAYS, stencilFuncBack := FUNC_ALWAYS,
          stencilRefFront := 0, stencilRefBack := 0,
          stencilMaskFront := 255, stencilMaskBack := 255,
          stencilFailFront := STENCILOP_KEEP, stencilFailBack := STENCILOP_KEEP,
          stencilZfailFront := STENCILOP_KEEP, stencilZfailBack := STENCILOP_KEEP,
          stencilZpassFront := STENCILOP_KEEP, stencilZpassBack := STENCILOP_KEEP,
          stencilWriteMaskFront := 255, stencilWriteMaskBack := 255\<rparr>)"

definition init_toggles :: "device \<Rightarrow> device" where
  "init_toggles d =
     emits ((if webgl2 d
             then [GlDisable GL_SAMPLE_ALPHA_TO_COVERAGE, GlDisable GL_RASTERIZER_DISCARD]
             else [])
            @ [GlDisable GL_POLYGON_OFFSET_FILL])
       (d\<lparr>alphaToCoverage := False, raster := True, depthBiasEnabled := False\<rparr>)"

definition init_frame :: "device \<Rightarrow> device" where
  "init_frame d =
     emits ([GlClearDepth 1, GlClearColor 0 0 0 0, GlClearStencil 0]
            @ (if webgl2 d \<or> extStandardDerivatives d
               then [GlHint GL_FRAGMENT_SHADER_DERIVATIVE_HINT GL_NICEST] else [])
            @ [GlEnable GL_SCISSOR_TEST,
               GlPixelStorei GL_UNPACK_COLORSPACE_CONVERSION_WEBGL (ATok (Some GL_NONE)),
               GlPixelStorei GL_UNPACK_FLIP_Y_WEBGL (ABool False),
               GlPixelStorei GL_UNPACK_PREMULTIPLY_ALPHA_WEBGL (ABool False),
               GlPixelStorei GL_UNPACK_ALIGNMENT (AInt 1)])
       (d\<lparr>clearDepth := 1,
          clearColor := \<lparr>col_r = 0, col_g = 0, col_b = 0, col_a = 0\<rparr>,
          clearStencil := 0,
          vx := 0, vy := 0, vw := 0, vh := 0,
          sx := 0, sy := 0, sw := 0, sh := 0,
          unpackFlipY := False, unpackPremultiplyAlpha := False\<rparr>)"

definition initializeRenderState :: "device \<Rightarrow> device" where
  "initializeRenderState d =
     init_frame (init_toggles (init_stencil (init_raster (init_blend d))))"

text \<open>
  Modelled from the spec: \<^verbatim>\<open>super.initializeContextCaches\<close> belongs to the base class,
  which is not among the sources. The spec lists the active resources (current shader,
  index buffer, pending vertex buffers, render target) and says restore rebuilds the
  "binding caches from scratch": the base call clears them.
\<close>

definition super_initializeContextCaches :: "device \<Rightarrow> device" where
  "super_initializeContextCaches d =
     d\<lparr>indexBuffer := None, vertexBuffers := [], shader := None, renderTarget := None\<rparr>"

definition initializeContextCaches :: "device \<Rightarrow> device" where
  "initializeContextCaches d =
     (super_initializeContextCaches d)
       \<lparr>vaoMap := Map.empty, boundVao := None, activeFramebuffer := JNull,
        feedback := JNull, transformFeedbackBuffer := None, textureUnit := 0,
        textureUnits :=
          replicate (nat (maxCombinedTextures d)) (\<lambda>slot. if slot < 3 then JNull else JUndefined)\<rparr>"

text \<open>
  Modelled from the spec: the \<^verbatim>\<open>loseContext\<close>, \<^verbatim>\<open>restoreContext\<close> and \<^verbatim>\<open>unlock\<close>
  methods of shaders, textures, buffers and render targets are not among the sources. The
  spec says each resource "independently forgets its native handle but retains
  engine-level description": a lost shader, texture or target has its handle set to
  \<^verbatim>\<open>null\<close>; the calls made on restore are recorded as events.
\<close>

definition notify :: "string \<Rightarrow> nat list \<Rightarrow> device \<Rightarrow> device" where
  "notify what ids d = emits (map (Collaborator what) ids) d"

definition loseContext :: "device \<Rightarrow> device" where
  "loseContext d =
     (let d1 = notify ''shader.loseContext'' (shaders d) d;
          d2 = d1\<lparr>shader_heap :=
                    (\<lambda>s. if s \<in> set (shaders d1)
                         then (shader_heap d1 s)\<lparr>glProgram := JNull\<rparr> else shader_heap d1 s)\<rparr>;
          d3 = notify ''texture.loseContext'' (textures d2) d2;
          d4 = d3\<lparr>texture_heap :=
                    (\<lambda>t. if t \<in> set (textures d3)
                         then (texture_heap d3 t)\<lparr>glTexture := JNull\<rparr> else texture_heap d3 t)\<rparr>;
          d5 = emits (map (\<lambda>b. Collaborator ''buffer.loseContext'' (nat b)) (buffers d4)) d4;
          d6 = notify ''target.loseContext'' (targets d5) d5
      in d6\<lparr>target_heap :=
               (\<lambda>t. if t \<in> set (targets d6)
                    then (target_heap d6 t)\<lparr>glFrameBuffer := JNull\<rparr> else target_heap d6 t)\<rparr>)"

definition restoreContext :: "glenv \<Rightarrow> device \<Rightarrow> device" where
  "restoreContext env d =
     (let d1 = initializeContextCaches
                 (initializeRenderState (initializeCapabilities env (initializeExtensions env d)));
          d2 = notify ''shader.restoreContext'' (shaders d1) d1
      in emits (map (\<lambda>b. Collaborator ''buffer.unlock'' (nat b)) (buffers d2)) d2)"

text \<open>
  The fields of a device before its constructor has run. The constructor assigns all of
  them but \<^verbatim>\<open>cullFace\<close>, which stays \<^verbatim>\<open>undefined\<close>.
\<close>

definition blank_color :: color where
  "blank_color = \<lparr>col_r = 0, col_g = 0, col_b = 0, col_a = 0\<rparr>"

definition blank_texture :: texture where
  "blank_texture =
     \<lparr>glTarget = TEXTURE_2D, glTexture = JUndefined, parameterFlags = 0, needsUpload = False,
      needsMipmapsUpload = False, mipmaps = False, pot = False, compressed = False,
      levels_length = 0, minFilter = 0, magFilter = 0, addressU = 0, addressV = 0,
      addressW = 0, compareOnRead = False, compareFunc = 0, anisotropy = 1\<rparr>"

definition blank_shader :: shader_obj where
  "blank_shader =
     \<lparr>failed = False, ready = False, glProgram = JUndefined, samplers = [], uniforms = []\<rparr>"

definition blank_target :: render_target where
  "blank_target =
     \<lparr>rt_width = 0, rt_height = 0, glFrameBuffer = JUndefined, colorBuffer = None,
      rt_samples = 1, autoResolve = False\<rparr>"

definition blank_device :: device where
  "blank_device =
     \<lparr>blending = False, blendSrc = 0, blendDst = 0, blendSrcAlpha = 0, blendDstAlpha = 0,
      separateAlphaBlend = False, blendEquation = 0, blendAlphaEquation = 0,
      separateAlphaEquation = False, blendColor = blank_color,
      writeRed = False, writeGreen = False, writeBlue = False, writeAlpha = False,
      cullMode = 0, cullFace = None, depthTest = False, depthFunc = 0, depthWrite = False,
      alphaToCoverage = False, raster = False, depthBiasEnabled = False,
      stencil = False, stencilFuncFront = 0, stencilFuncBack = 0, stencilRefFront = 0,
      stencilRefBack = 0, stencilMaskFront = 0, stencilMaskBack = 0, stencilFailFront = 0,
      stencilFailBack = 0, stencilZfailFront = 0, stencilZfailBack = 0,
      stencilZpassFront = 0, stencilZpassBack = 0, stencilWriteMaskFront = 0,
      stencilWriteMaskBack = 0,
      clearDepth = 0, clearColor = blank_color, clearStencil = 0,
      vx = 0, vy = 0, vw = 0, vh = 0, sx = 0, sy = 0, sw = 0, sh = 0,
      unpackFlipY = False, unpackPremultiplyAlpha = False,
      webgl2 = False, extBlendMinmax = False, extStandardDerivatives = False,
      maxCombinedTextures = 0, extTextureFilterAnisotropic = False, maxAnisotropy = 0,
      tempEnableSafariTextureUnitWorkaround = False,
      defaultClearOptions =
        \<lparr>def_color = blank_color, def_depth = 0, def_stencil = 0, def_flags = 0\<rparr>,
      glAddress = [], glBlendEquation = [], glBlendFunction = [], glComparison = [],
      glStencilOp = [], glClearFlag = [], glCull = [], glFilter = [], glPrimitive = [],
      glType = [],
      vaoMap = Map.empty, boundVao = None, activeFramebuffer = JUndefined,
      defaultFramebuffer = JUndefined, feedback = JUndefined,
      transformFeedbackBuffer = None, textureUnit = 0, textureUnits = [],
      shader = None, indexBuffer = None, vertexBuffers = [], renderTarget = None,
      insideRenderPass = False, attributesInvalidated = False, drawCallsPerFrame = 0,
      shader_heap = (\<lambda>_. blank_shader), texture_heap = (\<lambda>_. blank_texture),
      target_heap = (\<lambda>_. blank_target), vb_vao = Map.empty,
      shaders = [], textures = [], buffers = [], targets = [],
      width = 0, height = 0, semanticToLocation = (\<lambda>_. None),
      next_object = 0, trace = []\<rparr>"

definition enum_tables :: "device \<Rightarrow> device" where
  "enum_tables d =
     d\<lparr>glAddress := [GL_REPEAT, GL_CLAMP_TO_EDGE, GL_MIRRORED_REPEAT],
       glBlendEquation :=
         [GL_FUNC_ADD, GL_FUNC_SUBTRACT, GL_FUNC_REVERSE_SUBTRACT,
          (if webgl2 d then GL_MIN else if extBlendMinmax d then GL_MIN else GL_FUNC_ADD),
          (if webgl2 d then GL_MAX else if extBlendMinmax d then GL_MAX else GL_FUNC_ADD)],
       glBlendFunction :=
         [GL_ZERO, GL_ONE, GL_SRC_COLOR, GL_ONE_MINUS_SRC_COLOR, GL_DST_COLOR,
          GL_ONE_MINUS_DST_COLOR, GL_SRC_ALPHA, GL_SRC_ALPHA_SATURATE, GL_ONE_MINUS_SRC_ALPHA,
          GL_DST_ALPHA, GL_ONE_MINUS_DST_ALPHA, GL_CONSTANT_COLOR, GL_ONE_MINUS_CONSTANT_COLOR,
          GL_CONSTANT_ALPHA, GL_ONE_MINUS_CONSTANT_ALPHA],
       glComparison :=
         [GL_NEVER, GL_LESS, GL_EQUAL, GL_LEQUAL, GL_GREATER, GL_NOTEQUAL, GL_GEQUAL, GL_ALWAYS],
       glStencilOp :=
         [GL_KEEP, GL_ZERO, GL_REPLACE, GL_INCR, GL_INCR_WRAP, GL_DECR, GL_DECR_WRAP, GL_INVERT],
       glClearFlag :=
         [0, GL_COLOR_BUFFER_BIT, GL_DEPTH_BUFFER_BIT,
          GL_COLOR_BUFFER_BIT OR GL_DEPTH_BUFFER_BIT,
          GL_STENCIL_BUFFER_BIT,
          GL_STENCIL_BUFFER_BIT OR GL_COLOR_BUFFER_BIT,
          GL_STENCIL_BUFFER_BIT OR GL_DEPTH_BUFFER_BIT,
          GL_STENCIL_BUFFER_BIT OR GL_COLOR_BUFFER_BIT OR GL_DEPTH_BUFFER_BIT],
       glCull := [0, GL_BACK, GL_FRONT, GL_FRONT_AND_BACK],
       glFilter :=
         [GL_NEAREST, GL_LINEAR, GL_NEAREST_MIPMAP_NEAREST, GL_NEAREST_MIPMAP_LINEAR,
          GL_LINEAR_MIPMAP_NEAREST, GL_LINEAR_MIPMAP_LINEAR],
       glPrimitive :=
         [GL_POINTS, GL_LINES, GL_LINE_LOOP, GL_LINE_STRIP, GL_TRIANGLES, GL_TRIANGLE_STRIP,
          GL_TRIANGLE_FAN],
       glType :=
         [GL_BYTE, GL_UNSIGNED_BYTE, GL_SHORT, GL_UNSIGNED_SHORT, GL_INT, GL_UNSIGNED_INT,
          GL_FLOAT]\<rparr>"

text \<open>
  The constructor, as far as the fields above go: the context tier and the workaround
  flag, the four initialisation calls, the default clear options and the tables.
\<close>

definition construct :: "glenv \<Rightarrow> device" where
  "construct env =
     (let d0 = blank_device
                 \<lparr>defaultFramebuffer := JNull,
                  webgl2 := env_webgl2 env,
                  tempEnableSafariTextureUnitWorkaround := env_safari env,
                  width := env_drawingBufferWidth env,
                  height := env_drawingBufferHeight env,
                  semanticToLocation := env_semanticToLocation env\<rparr>;
          d1 = initializeContextCaches
                 (initializeRenderState (initializeCapabilities env (initializeExtensions env d0)));
          d2 = d1\<lparr>defaultClearOptions :=
                    \<lparr>def_color = \<lparr>col_r = 0, col_g = 0, col_b = 0, col_a = 1\<rparr>,
                     def_depth = 1, def_stencil = 0,
                     def_flags = CLEARFLAG_COLOR OR CLEARFLAG_DEPTH\<rparr>\<rparr>
      in enum_tables d2)"


subsection \<open>Observations used in the statements\<close>

text \<open>
  \<open>issues_at_most n f d\<close>: running \<open>f\<close> on \<open>d\<close> keeps the trace of \<open>d\<close> and adds at
  most \<open>n\<close> events, all of them native calls.
\<close>

definition issues_at_most :: "nat \<Rightarrow> (device \<Rightarrow> device) \<Rightarrow> device \<Rightarrow> bool" where
  "issues_at_most n f d =
     (take (length (trace d)) (trace (f d)) = trace d
      \<and> length (issued f d) \<le> n \<and> list_all is_native (issued f d))"

text \<open>The setters that keep a cache: all of the family but \<^verbatim>\<open>setDepthBiasValues\<close>.\<close>

definition cached_setter :: "setter \<Rightarrow> bool" where
  "cached_setter c = (case c of SetDepthBiasValues _ _ \<Rightarrow> False | _ \<Rightarrow> True)"

text \<open>
  The spec's pattern for a setter, in its own words: "compare all affected fields against
  the cached value; if and only if something differs, translate engine enum(s) via the
  lookup tables and issue exactly one native call, then update the cache".
  \<open>cache_differs c d\<close>: some field that the call \<open>c\<close> affects differs, by \<^verbatim>\<open>!==\<close>, from what
  the call asks for. \<^verbatim>\<open>setDepthBiasValues\<close> affects no cached field.
\<close>

fun blend_differs :: "blend_setter \<Rightarrow> device \<Rightarrow> bool" where
  "blend_differs (SetBlending b) d = (blending d \<noteq> b)"
| "blend_differs (SetBlendFunction s t) d =
     (blendSrc d \<noteq> s \<or> blendDst d \<noteq> t \<or> separateAlphaBlend d \<noteq> False)"
| "blend_differs (SetBlendFunctionSeparate s t sa ta) d =
     (blendSrc d \<noteq> s \<or> blendDst d \<noteq> t \<or> blendSrcAlpha d \<noteq> sa \<or> blendDstAlpha d \<noteq> ta
      \<or> separateAlphaBlend d \<noteq> True)"
| "blend_differs (SetBlendEquation e) d =
     (blendEquation d \<noteq> e \<or> separateAlphaEquation d \<noteq> False)"
| "blend_differs (SetBlendEquationSeparate e ea) d =
     (blendEquation d \<noteq> e \<or> blendAlphaEquation d \<noteq> ea \<or> separateAlphaEquation d \<noteq> True)"
| "blend_differs (SetBlendColor r g b a) d =
     (strict_ne (col_r (blendColor d)) r \<or> strict_ne (col_g (blendColor d)) g
      \<or> strict_ne (col_b (blendColor d)) b \<or> strict_ne (col_a (blendColor d)) a)"

fun stencil_differs :: "stencil_setter \<Rightarrow> device \<Rightarrow> bool" where
  "stencil_differs (SetStencilTest b) d = (stencil d \<noteq> b)"
| "stencil_differs (SetStencilFunc f rf msk) d =
     (stencilFuncFront d \<noteq> f \<or> stencilFuncBack d \<noteq> f
      \<or> strict_ne (stencilRefFront d) rf \<or> strict_ne (stencilRefBack d) rf
      \<or> strict_ne (stencilMaskFront d) msk \<or> strict_ne (stencilMaskBack d) msk)"
| "stencil_differs (SetStencilFuncFront f rf msk) d =
     (stencilFuncFront d \<noteq> f \<or> strict_ne (stencilRefFront d) rf
      \<or> strict_ne (stencilMaskFront d) msk)"
| "stencil_differs (SetStencilFuncBack f rf msk) d =
     (stencilFuncBack d \<noteq> f \<or> strict_ne (stencilRefBack d) rf
      \<or> strict_ne (stencilMaskBack d) msk)"
| "stencil_differs (SetStencilOperation f zf zp wm) d =
     (stencilFailFront d \<noteq> f \<or> stencilFailBack d \<noteq> f
      \<or> stencilZfailFront d \<noteq> zf \<or> stencilZfailBack d \<noteq> zf
      \<or> stencilZpassFront d \<noteq> zp \<or> stencilZpassBack d \<noteq> zp
      \<or> strict_ne (stencilWriteMaskFront d) wm \<or> strict_ne (stencilWriteMaskBack d) wm)"
| "stencil_differs (SetStencilOperationFront f zf zp wm) d =
     (stencilFailFront d \<noteq> f \<or> stencilZfailFront d \<noteq> zf \<or> stencilZpassFront d \<noteq> zp
      \<or> strict_ne (stencilWriteMaskFront d) wm)"
| "stencil_differs (SetStencilOperationBack f zf zp wm) d =
     (stencilFailBack d \<noteq> f \<or> stencilZfailBack d \<noteq> zf \<or> stencilZpassBack d \<noteq> zp
      \<or> strict_ne (stencilWriteMaskBack d) wm)"

fun raster_differs :: "raster_setter \<Rightarrow> device \<Rightarrow> bool" where
  "raster_differs (SetDepthTest b) d = (depthTest d \<noteq> b)"
| "raster_differs (SetDepthFunc f) d = (depthFunc d \<noteq> f)"
| "raster_differs (SetDepthWrite b) d = (depthWrite d \<noteq> b)"
| "raster_differs (SetColorWrite r g b a) d =
     (writeRed d \<noteq> r \<or> writeGreen d \<noteq> g \<or> writeBlue d \<noteq> b \<or> writeAlpha d \<noteq> a)"
| "raster_differs (SetCullMode m) d = (cullMode d \<noteq> m)"
| "raster_differs (SetAlphaToCoverage b) d = (alphaToCoverage d \<noteq> b)"
| "raster_differs (SetRaster b) d = (raster d \<noteq> b)"
| "raster_differs (SetDepthBias b) d = (depthBiasEnabled d \<noteq> b)"

fun frame_differs :: "frame_setter \<Rightarrow> device \<Rightarrow> bool" where
  "frame_differs (SetViewport x y w h) d =
     (strict_ne (vx d) x \<or> strict_ne (vy d) y \<or> strict_ne (vw d) w \<or> strict_ne (vh d) h)"
| "frame_differs (SetScissor x y w h) d =
     (strict_ne (sx d) x \<or> strict_ne (sy d) y \<or> strict_ne (sw d) w \<or> strict_ne (sh d) h)"
| "frame_differs (SetClearColor r g b a) d =
     (strict_ne (col_r (clearColor d)) r \<or> strict_ne (col_g (clearColor d)) g
      \<or> strict_ne (col_b (clearColor d)) b \<or> strict_ne (col_a (clearColor d)) a)"
| "frame_differs (SetClearDepth z) d = strict_ne (clearDepth d) z"
| "frame_differs (SetClearStencil v) d = strict_ne (clearStencil d) v"

fun cache_differs :: "setter \<Rightarrow> device \<Rightarrow> bool" where
  "cache_differs (Blend c) d = blend_differs c d"
| "cache_differs (Stencil c) d = stencil_differs c d"
| "cache_differs (Raster c) d = raster_differs c d"
| "cache_differs (Frame c) d = frame_differs c d"
| "cache_differs (SetDepthBiasValues constBias slopeBias) d = False"

text \<open>
  Three setters guard their native calls further: \<^verbatim>\<open>setAlphaToCoverage\<close> and \<^verbatim>\<open>setRaster\<close>
  by the context tier, \<^verbatim>\<open>setCullMode\<close> by the mode asked for, the mode held and its second
  cache. \<open>passes_gate c d\<close>: these guards let a native call of \<open>c\<close> through on \<open>d\<close>.
\<close>

definition passes_gate :: "setter \<Rightarrow> device \<Rightarrow> bool" where
  "passes_gate c d =
     (case c of
        Raster (SetAlphaToCoverage b) \<Rightarrow> webgl2 d
      | Raster (SetRaster b) \<Rightarrow> webgl2 d
      | Raster (SetCullMode m) \<Rightarrow>
          m = CULLFACE_NONE \<or> cullMode d = CULLFACE_NONE \<or> cullFace d \<noteq> lookup (glCull d) m
      | _ \<Rightarrow> True)"

text \<open>
  The native calls a setter guards: two for the setters that keep two groups of fields
  (the stencil operations with their write mask, the cull mode with its face), one for
  the others.
\<close>

definition guarded_calls :: "setter \<Rightarrow> nat" where
  "guarded_calls c =
     (case c of
        Stencil (SetStencilOperation f zf zp wm) \<Rightarrow> 2
      | Stencil (SetStencilOperationFront f zf zp wm) \<Rightarrow> 2
      | Stencil (SetStencilOperationBack f zf zp wm) \<Rightarrow> 2
      | Raster (SetCullMode m) \<Rightarrow> 2
      | _ \<Rightarrow> 1)"

text \<open>\<open>has_nan c\<close>: some number among the arguments of the call is \<^verbatim>\<open>NaN\<close>.\<close>

definition has_nan :: "setter \<Rightarrow> bool" where
  "has_nan c =
     (case c of
        Blend (SetBlendColor r g b a) \<Rightarrow> NaN \<in> set [r, g, b, a]
      | Stencil (SetStencilFunc f rf msk) \<Rightarrow> NaN \<in> set [rf, msk]
      | Stencil (SetStencilFuncFront f rf msk) \<Rightarrow> NaN \<in> set [rf, msk]
      | Stencil (SetStencilFuncBack f rf msk) \<Rightarrow> NaN \<in> set [rf, msk]
      | Stencil (SetStencilOperation f zf zp wm) \<Rightarrow> wm = NaN
      | Stencil (SetStencilOperationFront f zf zp wm) \<Rightarrow> wm = NaN
      | Stencil (SetStencilOperationBack f zf zp wm) \<Rightarrow> wm = NaN
      | Frame (SetViewport x y w h) \<Rightarrow> NaN \<in> set [x, y, w, h]
      | Frame (SetScissor x y w h) \<Rightarrow> NaN \<in> set [x, y, w, h]
      | Frame (SetClearColor r g b a) \<Rightarrow> NaN \<in> set [r, g, b, a]
      | Frame (SetClearDepth z) \<Rightarrow> z = NaN
      | Frame (SetClearStencil v) \<Rightarrow> v = NaN
      | SetDepthBiasValues constBias slopeBias \<Rightarrow> NaN \<in> set [constBias, slopeBias]
      | _ \<Rightarrow> False)"

text \<open>An example context: WebGL 2 with four texture units and a 300 by 150 back buffer.\<close>

definition env0 :: glenv where
  "env0 =
     \<lparr>env_webgl2 = True, env_EXT_blend_minmax = True, env_OES_standard_derivatives = True,
      env_EXT_texture_filter_anisotropic = False, env_MAX_COMBINED_TEXTURE_IMAGE_UNITS = 4,
      env_MAX_TEXTURE_MAX_ANISOTROPY = 1, env_safari = False, env_drawingBufferWidth = 300,
      env_drawingBufferHeight = 150,
      env_semanticToLocation = (\<lambda>n. if n = ''POSITION'' then Some 0 else None)\<rparr>"


text \<open>
  The spec's rule for \<^verbatim>\<open>setCullMode\<close>, in its own words: the enable/disable toggle
  fires on a disabled-to-enabled or enabled-to-disabled edge of the sequence of requested
  modes, and on nothing else. \<open>cur\<close> is the mode before the first call.
\<close>

definition is_cull_toggle :: "event \<Rightarrow> bool" where
  "is_cull_toggle e = (e = GlEnable GL_CULL_FACE \<or> e = GlDisable GL_CULL_FACE)"

fun spec_cull_toggles :: "nat \<Rightarrow> nat list \<Rightarrow> event list" where
  "spec_cull_toggles cur [] = []"
| "spec_cull_toggles cur (m # ms) =
     (if cur = CULLFACE_NONE \<and> m \<noteq> CULLFACE_NONE then [GlEnable GL_CULL_FACE]
      else if cur \<noteq> CULLFACE_NONE \<and> m = CULLFACE_NONE then [GlDisable GL_CULL_FACE]
      else [])
     @ spec_cull_toggles m ms"

text \<open>The flags a call of \<^verbatim>\<open>clear\<close> works with, and the scenario of the spec.\<close>

definition effective_flags :: "clear_options option \<Rightarrow> device \<Rightarrow> nat" where
  "effective_flags options' d =
     (case options' of
        None \<Rightarrow> def_flags (defaultClearOptions d)
      | Some opts \<Rightarrow> or_default (opt_flags opts) (def_flags (defaultClearOptions d)))"

definition is_clear_call :: "event \<Rightarrow> bool" where
  "is_clear_call e = (case e of Native fn _ \<Rightarrow> fn = ''clear'' | _ \<Rightarrow> False)"

definition opaque_red :: color where
  "opaque_red = \<lparr>col_r = 1, col_g = 0, col_b = 0, col_a = 1\<rparr>"

definition clear_color_depth :: clear_options where
  "clear_color_depth =
     \<lparr>opt_color = Some opaque_red, opt_depth = Some 1, opt_stencil = None,
      opt_flags = Some (CLEARFLAG_COLOR OR CLEARFLAG_DEPTH)\<rparr>"


text \<open>A sequence of \<^verbatim>\<open>setShader\<close> calls, each with the link step it would run.\<close>

fun setShaders :: "(post_link \<times> nat) list \<Rightarrow> device \<Rightarrow> device" where
  "setShaders [] d = d"
| "setShaders ((postLink, s) # calls) d = setShaders calls (snd (setShader postLink s d))"

definition link_fails :: post_link where
  "link_fails obj = (False, obj)"

definition link_succeeds :: post_link where
  "link_succeeds obj = (True, obj\<lparr>ready := True, glProgram := JObj 1\<rparr>)"

text \<open>The draw variants, and the one the spec selects by (indexed?, instanceCount > 0?).\<close>

definition is_draw_call :: "event \<Rightarrow> bool" where
  "is_draw_call e =
     (case e of
        Native fn _ \<Rightarrow>
          fn \<in> set [''drawElementsInstanced'', ''drawElements'', ''drawArraysInstanced'',
                     ''drawArrays'']
      | _ \<Rightarrow> False)"

definition draw_calls :: "device \<Rightarrow> event list" where
  "draw_calls d = filter is_draw_call (trace d)"


text \<open>
  What the dispatch at the end of \<^verbatim>\<open>draw\<close> reads from the device, with the draws
  issued so far and the draw counter.
\<close>

definition draw_inputs ::
  "device \<Rightarrow> index_buffer option \<times> nat list \<times> bool \<times> vertex_buffer option \<times> nat \<times> event list" where
  "draw_inputs d =
     (indexBuffer d, glPrimitive d, webgl2 d, transformFeedbackBuffer d, drawCallsPerFrame d,
      draw_calls d)"




text \<open>Example resources for the concrete instances below.\<close>

definition example_texture :: texture where
  "example_texture = blank_texture\<lparr>glTexture := JObj 7\<rparr>"




definition example_pass :: render_pass where
  "example_pass =
     \<lparr>rp_renderTarget = None,
      colorOps = \<lparr>co_clear = True, clearValue = opaque_red, co_store = True,
                  co_resolve = False, co_mipmaps = False\<rparr>,
      depthStencilOps = \<lparr>clearDepth_op = False, clearDepthValue = 1, clearStencil_op = False,
                         clearStencilValue = 0, storeDepth = False, storeStencil = False\<rparr>,
      fullSizeClearRect = True, rp_samples = 1\<rparr>"

section \<open>Properties\<close>


lemmas enum_defs =
  BLENDMODE_ZERO_def BLENDMODE_ONE_def BLENDEQUATION_ADD_def CULLFACE_NONE_def
  CULLFACE_BACK_def CULLFACE_FRONT_def CULLFACE_FRONTANDBACK_def FUNC_LESSEQUAL_def
  FUNC_ALWAYS_def STENCILOP_KEEP_def CLEARFLAG_COLOR_def CLEARFLAG_DEPTH_def
  CLEARFLAG_STENCIL_def

subsection \<open>JavaScript numbers\<close>

lemma numeral_jsnum: "(numeral k :: 'a::numeral jsnum) = Num (numeral k)"
proof (induction k)
  case One
  show ?case by (simp add: one_jsnum_def)
next
  case (Bit0 k)
  show ?case unfolding numeral_Bit0 Bit0.IH plus_jsnum_def by simp
next
  case (Bit1 k)
  show ?case unfolding numeral_Bit1 Bit1.IH plus_jsnum_def one_jsnum_def by simp
qed

lemmas jsnum_numerals = zero_jsnum_def one_jsnum_def numeral_jsnum

lemma strict_ne_iff: "strict_ne a b = (a \<noteq> b \<or> a = NaN)"
  by (cases a; cases b) (simp_all add: strict_ne_def)

lemma strict_ne_Num [simp]:
  "strict_ne (Num x) b = (Num x \<noteq> b)" "strict_ne a (Num y) = (a \<noteq> Num y)"
  "strict_ne NaN b" "strict_ne a NaN"
  by (cases b; cases a; simp add: strict_ne_def)+

lemma strict_ne_numeral [simp]:
  "strict_ne 0 b = (0 \<noteq> b)" "strict_ne a 0 = (a \<noteq> 0)"
  "strict_ne 1 b = (1 \<noteq> b)" "strict_ne a 1 = (a \<noteq> 1)"
  "strict_ne (numeral k) b = (numeral k \<noteq> b)" "strict_ne a (numeral k) = (a \<noteq> numeral k)"
  by (simp_all add: jsnum_numerals)

lemma strict_ne_same: "strict_ne a a = (a = NaN)"
  by (cases a) simp_all

lemmas nan_left = eq_commute [of NaN]

lemma strict_ne_eq: "\<not> strict_ne a b \<Longrightarrow> a = b"
  by (simp add: strict_ne_iff)

subsection \<open>What each setter leaves in the cache\<close>

lemma setViewport_post:
  "vx (setViewport x y w h d) = x" "vy (setViewport x y w h d) = y"
  "vw (setViewport x y w h d) = w" "vh (setViewport x y w h d) = h"
  by (simp_all add: strict_ne_iff setViewport_def emit_def)

lemma setScissor_post:
  "sx (setScissor x y w h d) = x" "sy (setScissor x y w h d) = y"
  "sw (setScissor x y w h d) = w" "sh (setScissor x y w h d) = h"
  by (simp_all add: strict_ne_iff setScissor_def emit_def)

lemma setClearDepth_post: "clearDepth (setClearDepth z d) = z"
  by (simp add: strict_ne_iff setClearDepth_def emit_def)

lemma setClearColor_post:
  "clearColor (setClearColor r g b a d) = \<lparr>col_r = r, col_g = g, col_b = b, col_a = a\<rparr>"
  by (simp add: strict_ne_iff setClearColor_def emit_def Let_def)

lemma setClearStencil_post: "clearStencil (setClearStencil v d) = v"
  by (simp add: strict_ne_iff setClearStencil_def emit_def)

lemma setDepthTest_post: "depthTest (setDepthTest b d) = b"
  by (simp add: setDepthTest_def emit_def)

lemma setDepthFunc_post: "depthFunc (setDepthFunc f d) = f"
  by (simp add: setDepthFunc_def emit_def)

lemma setDepthWrite_post: "depthWrite (setDepthWrite b d) = b"
  by (simp add: setDepthWrite_def emit_def)

lemma setColorWrite_post:
  "writeRed (setColorWrite r g b a d) = r" "writeGreen (setColorWrite r g b a d) = g"
  "writeBlue (setColorWrite r g b a d) = b" "writeAlpha (setColorWrite r g b a d) = a"
  by (auto simp add: setColorWrite_def emit_def)

lemma setAlphaToCoverage_post:
  "webgl2 (setAlphaToCoverage b d) = webgl2 d"
  "webgl2 d \<Longrightarrow> alphaToCoverage (setAlphaToCoverage b d) = b"
  by (simp_all add: setAlphaToCoverage_def emit_def)

lemma setRaster_post: "raster (setRaster b d) = b"
  by (simp add: setRaster_def emit_def Let_def)

lemma setDepthBias_post: "depthBiasEnabled (setDepthBias b d) = b"
  by (simp add: setDepthBias_def emit_def)

lemma setBlending_post: "blending (setBlending b d) = b"
  by (simp add: setBlending_def emit_def)

lemma setStencilTest_post: "stencil (setStencilTest b d) = b"
  by (simp add: setStencilTest_def emit_def)
lemma setStencilFunc_post:
  "stencilFuncFront (setStencilFunc f r m d) = f" "stencilFuncBack (setStencilFunc f r m d) = f"
  "stencilRefFront (setStencilFunc f r m d) = r" "stencilRefBack (setStencilFunc f r m d) = r"
  "stencilMaskFront (setStencilFunc f r m d) = m" "stencilMaskBack (setStencilFunc f r m d) = m"
  by (simp_all add: strict_ne_iff setStencilFunc_def emit_def)

lemma setStencilFuncFront_post:
  "stencilFuncFront (setStencilFuncFront f r m d) = f"
  "stencilRefFront (setStencilFuncFront f r m d) = r"
  "stencilMaskFront (setStencilFuncFront f r m d) = m"
  by (simp_all add: strict_ne_iff setStencilFuncFront_def emit_def)

lemma setStencilFuncBack_post:
  "stencilFuncBack (setStencilFuncBack f r m d) = f"
  "stencilRefBack (setStencilFuncBack f r m d) = r"
  "stencilMaskBack (setStencilFuncBack f r m d) = m"
  by (simp_all add: strict_ne_iff setStencilFuncBack_def emit_def)
lemma setStencilOperation_post:
  "stencilFailFront (setStencilOperation f zf zp wm d) = f"
  "stencilFailBack (setStencilOperation f zf zp wm d) = f"
  "stencilZfailFront (setStencilOperation f zf zp wm d) = zf"
  "stencilZfailBack (setStencilOperation f zf zp wm d) = zf"
  "stencilZpassFront (setStencilOperation f zf zp wm d) = zp"
  "stencilZpassBack (setStencilOperation f zf zp wm d) = zp"
  "stencilWriteMaskFront (setStencilOperation f zf zp wm d) = wm"
  "stencilWriteMaskBack (setStencilOperation f zf zp wm d) = wm"
  by (simp_all add: strict_ne_iff setStencilOperation_def emit_def Let_def)
lemma setStencilOperationFront_post:
  "stencilFailFront (setStencilOperationFront f zf zp wm d) = f"
  "stencilZfailFront (setStencilOperationFront f zf zp wm d) = zf"
  "stencilZpassFront (setStencilOperationFront f zf zp wm d) = zp"
  "stencilWriteMaskFront (setStencilOperationFront f zf zp wm d) = wm"
  by (simp_all add: strict_ne_iff setStencilOperationFront_def emit_def Let_def)

lemma setStencilOperationBack_post:
  "stencilFailBack (setStencilOperationBack f zf zp wm d) = f"
  "stencilZfailBack (setStencilOperationBack f zf zp wm d) = zf"
  "stencilZpassBack (setStencilOperationBack f zf zp wm d) = zp"
  "stencilWriteMaskBack (setStencilOperationBack f zf zp wm d) = wm"
  by (simp_all add: strict_ne_iff setStencilOperationBack_def emit_def Let_def)
lemma setBlendFunction_post:
  "blendSrc (setBlendFunction s t d) = s" "blendDst (setBlendFunction s t d) = t"
  "\<not> separateAlphaBlend (setBlendFunction s t d)"
  by (simp_all add: setBlendFunction_def emit_def)

lemma setBlendFunctionSeparate_post:
  "blendSrc (setBlendFunctionSeparate s t sa ta d) = s"
  "blendDst (setBlendFunctionSeparate s t sa ta d) = t"
  "blendSrcAlpha (setBlendFunctionSeparate s t sa ta d) = sa"
  "blendDstAlpha (setBlendFunctionSeparate s t sa ta d) = ta"
  "separateAlphaBlend (setBlendFunctionSeparate s t sa ta d)"
  by (simp_all add: setBlendFunctionSeparate_def emit_def)

lemma setBlendEquation_post:
  "blendEquation (setBlendEquation e d) = e" "\<not> separateAlphaEquation (setBlendEquation e d)"
  by (simp_all add: setBlendEquation_def emit_def)

lemma setBlendEquationSeparate_post:
  "blendEquation (setBlendEquationSeparate e ea d) = e"
  "blendAlphaEquation (setBlendEquationSeparate e ea d) = ea"
  "separateAlphaEquation (setBlendEquationSeparate e ea d)"
  by (simp_all add: setBlendEquationSeparate_def emit_def)

lemma setBlendColor_post:
  "blendColor (setBlendColor r g b a d) = \<lparr>col_r = r, col_g = g, col_b = b, col_a = a\<rparr>"
  by (simp add: strict_ne_iff setBlendColor_def emit_def Let_def)

lemma setCullMode_post: "cullMode (setCullMode m d) = m"
  by (simp add: setCullMode_def emit_def Let_def)

subsection \<open>A repeated call changes nothing\<close>

text \<open>
  The guard of a setter is closed by the cache the setter has just written, unless an
  argument is \<^verbatim>\<open>NaN\<close>.
\<close>

lemma setViewport_twice:
  "NaN \<notin> set [x, y, w, h] \<Longrightarrow>
   setViewport x y w h (setViewport x y w h d) = setViewport x y w h d"
  by (subst setViewport_def) (simp add: setViewport_post strict_ne_same nan_left)

lemma setScissor_twice:
  "NaN \<notin> set [x, y, w, h] \<Longrightarrow>
   setScissor x y w h (setScissor x y w h d) = setScissor x y w h d"
  by (subst setScissor_def) (simp add: setScissor_post strict_ne_same nan_left)

lemma setClearDepth_twice: "z \<noteq> NaN \<Longrightarrow> setClearDepth z (setClearDepth z d) = setClearDepth z d"
  by (subst setClearDepth_def) (simp add: setClearDepth_post strict_ne_same nan_left)

lemma setClearColor_twice:
  "NaN \<notin> set [r, g, b, a] \<Longrightarrow>
   setClearColor r g b a (setClearColor r g b a d) = setClearColor r g b a d"
  by (subst setClearColor_def) (simp add: setClearColor_post strict_ne_same nan_left)

lemma setClearStencil_twice:
  "v \<noteq> NaN \<Longrightarrow> setClearStencil v (setClearStencil v d) = setClearStencil v d"
  by (subst setClearStencil_def) (simp add: setClearStencil_post strict_ne_same nan_left)

lemma setDepthTest_twice: "setDepthTest b (setDepthTest b d) = setDepthTest b d"
  by (subst setDepthTest_def) (simp add: setDepthTest_post)

lemma setDepthFunc_twice: "setDepthFunc f (setDepthFunc f d) = setDepthFunc f d"
  by (subst setDepthFunc_def) (simp add: setDepthFunc_post)

lemma setDepthWrite_twice: "setDepthWrite b (setDepthWrite b d) = setDepthWrite b d"
  by (subst setDepthWrite_def) (simp add: setDepthWrite_post)

lemma setColorWrite_twice: "setColorWrite r g b a (setColorWrite r g b a d) = setColorWrite r g b a d"
  by (subst setColorWrite_def) (simp add: setColorWrite_post)

lemma setAlphaToCoverage_twice:
  "setAlphaToCoverage b (setAlphaToCoverage b d) = setAlphaToCoverage b d"
  by (subst setAlphaToCoverage_def) (simp add: setAlphaToCoverage_post)

lemma setRaster_twice: "setRaster b (setRaster b d) = setRaster b d"
  by (subst setRaster_def) (simp add: setRaster_post)

lemma setDepthBias_twice: "setDepthBias b (setDepthBias b d) = setDepthBias b d"
  by (subst setDepthBias_def) (simp add: setDepthBias_post)

lemma setBlending_twice: "setBlending b (setBlending b d) = setBlending b d"
  by (subst setBlending_def) (simp add: setBlending_post)

lemma setStencilTest_twice: "setStencilTest b (setStencilTest b d) = setStencilTest b d"
  by (subst setStencilTest_def) (simp add: setStencilTest_post)

lemma setStencilFunc_twice:
  "NaN \<notin> set [r, m] \<Longrightarrow> setStencilFunc f r m (setStencilFunc f r m d) = setStencilFunc f r m d"
  by (subst setStencilFunc_def) (simp add: setStencilFunc_post strict_ne_same nan_left)

lemma setStencilFuncFront_twice:
  "NaN \<notin> set [r, m] \<Longrightarrow>
   setStencilFuncFront f r m (setStencilFuncFront f r m d) = setStencilFuncFront f r m d"
  by (subst setStencilFuncFront_def) (simp add: setStencilFuncFront_post strict_ne_same nan_left)

lemma setStencilFuncBack_twice:
  "NaN \<notin> set [r, m] \<Longrightarrow>
   setStencilFuncBack f r m (setStencilFuncBack f r m d) = setStencilFuncBack f r m d"
  by (subst setStencilFuncBack_def) (simp add: setStencilFuncBack_post strict_ne_same nan_left)

lemma setStencilOperation_twice:
  "wm \<noteq> NaN \<Longrightarrow>
   setStencilOperation f zf zp wm (setStencilOperation f zf zp wm d)
     = setStencilOperation f zf zp wm d"
  by (subst setStencilOperation_def) (simp add: setStencilOperation_post strict_ne_same nan_left)

lemma setStencilOperationFront_twice:
  "wm \<noteq> NaN \<Longrightarrow>
   setStencilOperationFront f zf zp wm (setStencilOperationFront f zf zp wm d)
     = setStencilOperationFront f zf zp wm d"
  by (subst setStencilOperationFront_def) (simp add: setStencilOperationFront_post strict_ne_same nan_left)

lemma setStencilOperationBack_twice:
  "wm \<noteq> NaN \<Longrightarrow>
   setStencilOperationBack f zf zp wm (setStencilOperationBack f zf zp wm d)
     = setStencilOperationBack f zf zp wm d"
  by (subst setStencilOperationBack_def) (simp add: setStencilOperationBack_post strict_ne_same nan_left)

lemma setBlendFunction_twice: "setBlendFunction s t (setBlendFunction s t d) = setBlendFunction s t d"
  by (subst setBlendFunction_def) (simp add: setBlendFunction_post)

lemma setBlendFunctionSeparate_twice:
  "setBlendFunctionSeparate s t sa ta (setBlendFunctionSeparate s t sa ta d)
     = setBlendFunctionSeparate s t sa ta d"
  by (subst setBlendFunctionSeparate_def) (simp add: setBlendFunctionSeparate_post)

lemma setBlendEquation_twice: "setBlendEquation e (setBlendEquation e d) = setBlendEquation e d"
  by (subst setBlendEquation_def) (simp add: setBlendEquation_post)

lemma setBlendEquationSeparate_twice:
  "setBlendEquationSeparate e ea (setBlendEquationSeparate e ea d) = setBlendEquationSeparate e ea d"
  by (subst setBlendEquationSeparate_def) (simp add: setBlendEquationSeparate_post)

lemma setBlendColor_twice:
  "NaN \<notin> set [r, g, b, a] \<Longrightarrow>
   setBlendColor r g b a (setBlendColor r g b a d) = setBlendColor r g b a d"
  by (subst setBlendColor_def) (simp add: setBlendColor_post strict_ne_same nan_left)

lemma setCullMode_twice: "setCullMode m (setCullMode m d) = setCullMode m d"
  by (subst setCullMode_def) (simp add: setCullMode_post)

lemma call_blend_twice:
  "\<not> has_nan (Blend c) \<Longrightarrow> call_blend c (call_blend c d) = call_blend c d"
  by (cases c)
     (simp_all add: has_nan_def nan_left setBlending_twice setBlendFunction_twice
        setBlendFunctionSeparate_twice setBlendEquation_twice setBlendEquationSeparate_twice
        setBlendColor_twice)

lemma call_stencil_twice:
  "\<not> has_nan (Stencil c) \<Longrightarrow> call_stencil c (call_stencil c d) = call_stencil c d"
  by (cases c)
     (simp_all add: has_nan_def nan_left setStencilTest_twice setStencilFunc_twice
        setStencilFuncFront_twice setStencilFuncBack_twice setStencilOperation_twice
        setStencilOperationFront_twice setStencilOperationBack_twice)

lemma call_raster_twice: "call_raster c (call_raster c d) = call_raster c d"
  by (cases c)
     (simp_all add: setDepthTest_twice setDepthFunc_twice setDepthWrite_twice setColorWrite_twice
        setCullMode_twice setAlphaToCoverage_twice setRaster_twice setDepthBias_twice)

lemma call_frame_twice:
  "\<not> has_nan (Frame c) \<Longrightarrow> call_frame c (call_frame c d) = call_frame c d"
  by (cases c)
     (simp_all add: has_nan_def nan_left setViewport_twice setScissor_twice setClearColor_twice
        setClearDepth_twice setClearStencil_twice)

lemma setter_twice:
  "cached_setter c \<Longrightarrow> \<not> has_nan c \<Longrightarrow> call_setter c (call_setter c d) = call_setter c d"
  by (cases c)
     (simp_all add: cached_setter_def call_blend_twice call_stencil_twice call_raster_twice
        call_frame_twice)

subsection \<open>Native calls of the setters\<close>

lemma issued_append: "trace (f d) = trace d @ es \<Longrightarrow> issued f d = es"
  by (simp add: issued_def)

lemma issued_nothing: "f d = d \<Longrightarrow> issued f d = []"
  by (simp add: issued_def)

text \<open>A setter issues at most the native calls it guards.\<close>

lemma blend_issues: "issues_at_most 1 (call_blend c) d"
  by (cases c)
     (simp_all add: issues_at_most_def issued_def emit_def is_native_def Let_def
        setBlending_def setBlendFunction_def setBlendFunctionSeparate_def
        setBlendEquation_def setBlendEquationSeparate_def setBlendColor_def)

lemma stencil_issues: "issues_at_most (guarded_calls (Stencil c)) (call_stencil c) d"
  by (cases c)
     (simp_all add: issues_at_most_def issued_def emit_def is_native_def Let_def
        guarded_calls_def
        setStencilTest_def setStencilFunc_def setStencilFuncFront_def setStencilFuncBack_def
        setStencilOperation_def setStencilOperationFront_def setStencilOperationBack_def)

lemma raster_issues: "issues_at_most (guarded_calls (Raster c)) (call_raster c) d"
  by (cases c)
     (simp_all add: issues_at_most_def issued_def emit_def is_native_def Let_def
        guarded_calls_def
        setDepthTest_def setDepthFunc_def setDepthWrite_def setColorWrite_def
        setCullMode_def setAlphaToCoverage_def setRaster_def setDepthBias_def)

lemma frame_issues: "issues_at_most 1 (call_frame c) d"
  by (cases c)
     (simp_all add: issues_at_most_def issued_def emit_def is_native_def Let_def
        setViewport_def setScissor_def setClearColor_def setClearDepth_def setClearStencil_def)

lemma setDepthBiasValues_issued:
  "issued (setDepthBiasValues constBias slopeBias) d = [GlPolygonOffset slopeBias constBias]"
  by (simp add: issued_def setDepthBiasValues_def emit_def)

lemma setter_issues: "issues_at_most (guarded_calls c) (call_setter c) d"
proof (cases c)
  case (Blend b)
  then show ?thesis using blend_issues [of b d] by (simp add: guarded_calls_def)
next
  case (Stencil s)
  then show ?thesis using stencil_issues [of s d] by simp
next
  case (Raster r)
  then show ?thesis using raster_issues [of r d] by simp
next
  case (Frame f)
  then show ?thesis using frame_issues [of f d] by (simp add: guarded_calls_def)
next
  case (SetDepthBiasValues constBias slopeBias)
  then show ?thesis
    by (simp add: guarded_calls_def issues_at_most_def issued_def setDepthBiasValues_def emit_def
          is_native_def)
qed

text \<open>A setter is the identity on a cache that holds its arguments.\<close>

lemma blend_holds: "\<not> blend_differs c d \<Longrightarrow> call_blend c d = d"
  by (cases c)
     (auto simp add: Let_def setBlending_def setBlendFunction_def setBlendFunctionSeparate_def
        setBlendEquation_def setBlendEquationSeparate_def setBlendColor_def strict_ne_iff)

lemma stencil_holds: "\<not> stencil_differs c d \<Longrightarrow> call_stencil c d = d"
  by (cases c)
     (auto simp add: Let_def setStencilTest_def setStencilFunc_def setStencilFuncFront_def
        setStencilFuncBack_def setStencilOperation_def setStencilOperationFront_def
        setStencilOperationBack_def strict_ne_iff)

lemma raster_holds: "\<not> raster_differs c d \<Longrightarrow> call_raster c d = d"
  by (cases c)
     (simp_all add: Let_def setDepthTest_def setDepthFunc_def setDepthWrite_def setColorWrite_def
        setCullMode_def setAlphaToCoverage_def setRaster_def setDepthBias_def)

lemma frame_holds: "\<not> frame_differs c d \<Longrightarrow> call_frame c d = d"
  by (cases c)
     (auto simp add: Let_def setViewport_def setScissor_def setClearColor_def setClearDepth_def
        setClearStencil_def strict_ne_iff)

lemma setter_holds: "cached_setter c \<Longrightarrow> \<not> cache_differs c d \<Longrightarrow> call_setter c d = d"
  by (cases c) (simp_all add: cached_setter_def blend_holds stencil_holds raster_holds frame_holds)

text \<open>A setter issues a native call exactly when the cache differs and its gate is open.\<close>

lemma blend_fires: "issued (call_blend c) d \<noteq> [] \<longleftrightarrow> blend_differs c d"
  by (cases c)
     (auto simp add: issued_def emit_def Let_def setBlending_def setBlendFunction_def
        setBlendFunctionSeparate_def setBlendEquation_def setBlendEquationSeparate_def
        setBlendColor_def strict_ne_iff)

lemma stencil_fires: "issued (call_stencil c) d \<noteq> [] \<longleftrightarrow> stencil_differs c d"
  by (cases c)
     (auto simp add: issued_def emit_def Let_def setStencilTest_def setStencilFunc_def
        setStencilFuncFront_def setStencilFuncBack_def setStencilOperation_def
        setStencilOperationFront_def setStencilOperationBack_def strict_ne_iff)

lemma raster_fires:
  "issued (call_raster c) d \<noteq> [] \<longleftrightarrow> raster_differs c d \<and> passes_gate (Raster c) d"
  by (cases c)
     (simp_all add: issued_def emit_def Let_def passes_gate_def setDepthTest_def setDepthFunc_def
        setDepthWrite_def setColorWrite_def setCullMode_def setAlphaToCoverage_def setRaster_def
        setDepthBias_def)

lemma frame_fires: "issued (call_frame c) d \<noteq> [] \<longleftrightarrow> frame_differs c d"
  by (cases c)
     (auto simp add: issued_def emit_def Let_def setViewport_def setScissor_def setClearColor_def
        setClearDepth_def setClearStencil_def strict_ne_iff)

lemma setter_fires:
  "cached_setter c \<Longrightarrow>
   issued (call_setter c) d \<noteq> [] \<longleftrightarrow> cache_differs c d \<and> passes_gate c d"
  by (cases c)
     (simp_all add: cached_setter_def blend_fires stencil_fires raster_fires frame_fires
        passes_gate_def)

subsection \<open>The device a constructor leaves\<close>

lemmas init_defs = initializeRenderState_def init_blend_def init_raster_def init_stencil_def
  init_toggles_def init_frame_def emits_def initializeContextCaches_def
  super_initializeContextCaches_def initializeCapabilities_def initializeExtensions_def

lemma construct_raster:
  "depthTest (construct env)" "depthWrite (construct env)"
  "cullMode (construct env) = CULLFACE_BACK" "cullFace (construct env) = None"
  "writeRed (construct env)" "writeGreen (construct env)"
  "writeBlue (construct env)" "writeAlpha (construct env)"
  by (simp_all add: construct_def enum_tables_def init_defs Let_def blank_device_def)

lemma construct_toggles:
  "raster (construct env)" "webgl2 (construct env) = env_webgl2 env"
  by (simp_all add: construct_def enum_tables_def init_defs Let_def blank_device_def)

lemma construct_stencil:
  "stencilFailFront (construct env) = STENCILOP_KEEP"
  "stencilFailBack (construct env) = STENCILOP_KEEP"
  "stencilZfailFront (construct env) = STENCILOP_KEEP"
  "stencilZfailBack (construct env) = STENCILOP_KEEP"
  "stencilZpassFront (construct env) = STENCILOP_KEEP"
  "stencilZpassBack (construct env) = STENCILOP_KEEP"
  "stencilWriteMaskFront (construct env) = 255"
  "stencilWriteMaskBack (construct env) = 255"
  by (simp_all add: construct_def enum_tables_def init_defs Let_def blank_device_def)

lemma construct_tables:
  "glStencilOp (construct env) =
     [GL_KEEP, GL_ZERO, GL_REPLACE, GL_INCR, GL_INCR_WRAP, GL_DECR, GL_DECR_WRAP, GL_INVERT]"
  "glCull (construct env) = [0, GL_BACK, GL_FRONT, GL_FRONT_AND_BACK]"
  "glClearFlag (construct env) =
     [0, GL_COLOR_BUFFER_BIT, GL_DEPTH_BUFFER_BIT, GL_COLOR_BUFFER_BIT OR GL_DEPTH_BUFFER_BIT,
      GL_STENCIL_BUFFER_BIT, GL_STENCIL_BUFFER_BIT OR GL_COLOR_BUFFER_BIT,
      GL_STENCIL_BUFFER_BIT OR GL_DEPTH_BUFFER_BIT,
      GL_STENCIL_BUFFER_BIT OR GL_COLOR_BUFFER_BIT OR GL_DEPTH_BUFFER_BIT]"
  by (simp_all add: construct_def enum_tables_def Let_def)

subsection \<open>C1: a repeated setter call\<close>

text \<open>
  C1, as stated, fails: \<^verbatim>\<open>setDepthBiasValues\<close> keeps no cache, so a second call with
  the same arguments issues \<^verbatim>\<open>polygonOffset\<close> again; a first call issues no native call
  when the cache already holds the arguments (\<^verbatim>\<open>setDepthTest(true)\<close> on a fresh device)
  or when the setter's further guard is closed (\<^verbatim>\<open>setRaster(false)\<close> on a WebGL 1
  context), and two when a setter guards two native calls (\<^verbatim>\<open>setStencilOperation\<close>); and
  a second call with a \<^verbatim>\<open>NaN\<close> argument issues its native call again, \<^verbatim>\<open>NaN !== NaN\<close>
  being true.
\<close>

theorem C1_counterexample:
  "issued (setDepthBiasValues 1 2) (setDepthBiasValues 1 2 (construct env0))
     = [GlPolygonOffset 2 1]
   \<and> issued (setDepthTest True) (construct env0) = []
   \<and> issued (setRaster False) (construct (env0\<lparr>env_webgl2 := False\<rparr>)) = []
   \<and> issued (setStencilOperation 1 1 1 0) (construct env0)
     = [GlStencilOp (Some GL_ZERO) (Some GL_ZERO) (Some GL_ZERO), GlStencilMask 0]
   \<and> issued (setClearDepth NaN) (setClearDepth NaN (construct env0)) = [GlClearDepth NaN]"
proof (intro conjI)
  show "issued (setDepthBiasValues 1 2) (setDepthBiasValues 1 2 (construct env0))
          = [GlPolygonOffset 2 1]"
    by (rule setDepthBiasValues_issued)
  show "issued (setDepthTest True) (construct env0) = []"
    by (rule issued_nothing) (simp add: setDepthTest_def construct_raster)
  show "issued (setRaster False) (construct (env0\<lparr>env_webgl2 := False\<rparr>)) = []"
    by (simp add: issued_def setRaster_def Let_def construct_toggles)
  show "issued (setStencilOperation 1 1 1 0) (construct env0)
          = [GlStencilOp (Some GL_ZERO) (Some GL_ZERO) (Some GL_ZERO), GlStencilMask 0]"
    by (rule issued_append)
       (simp add: setStencilOperation_def Let_def construct_stencil construct_tables
          STENCILOP_KEEP_def emit_def lookup_def jsnum_numerals)
  show "issued (setClearDepth NaN) (setClearDepth NaN (construct env0)) = [GlClearDepth NaN]"
    by (rule issued_append) (simp add: setClearDepth_def [of NaN "setClearDepth NaN d" for d] emit_def)
qed

text \<open>
  C1, amended. For every setter \<open>c\<close> of the family other than \<^verbatim>\<open>setDepthBiasValues\<close> and
  every device \<open>d\<close>: the call issues a native call if and only if some affected field
  differs from the cached value and the setter's further guard, if it has one, is open;
  on a cache that holds the arguments the call changes nothing; the call keeps the trace
  and adds at most the native calls the setter guards (one, or two for the setters with
  two groups of fields); and unless an argument is \<^verbatim>\<open>NaN\<close>, a second call with the same
  arguments issues no native call and leaves the device, cache included, as the first
  call left it. \<^verbatim>\<open>setDepthBiasValues\<close> issues one \<^verbatim>\<open>polygonOffset\<close> on every call.
\<close>

theorem C1_setter_repeated:
  "(cached_setter c \<longrightarrow>
      (issued (call_setter c) d \<noteq> [] \<longleftrightarrow> cache_differs c d \<and> passes_gate c d)
      \<and> (\<not> cache_differs c d \<longrightarrow> call_setter c d = d)
      \<and> issues_at_most (guarded_calls c) (call_setter c) d
      \<and> (\<not> has_nan c \<longrightarrow>
            call_setter c (call_setter c d) = call_setter c d
            \<and> issued (call_setter c) (call_setter c d) = []))
   \<and> issued (setDepthBiasValues constBias slopeBias) d = [GlPolygonOffset slopeBias constBias]"
  using setter_fires [of c d] setter_holds [of c d] setter_issues [of c d]
    setter_twice [of c d] issued_nothing [of "call_setter c" "call_setter c d"]
    setDepthBiasValues_issued [of constBias slopeBias d]
  by blast

theorem C1_setter_repeated_witness:
  "cached_setter (Raster (SetDepthTest False))
   \<and> cache_differs (Raster (SetDepthTest False)) (construct env0)
   \<and> \<not> has_nan (Raster (SetDepthTest False))
   \<and> issued (setDepthTest False) (construct env0) = [GlDisable GL_DEPTH_TEST]
   \<and> \<not> cache_differs (Raster (SetDepthTest False)) (setDepthTest False (construct env0))
   \<and> setDepthTest False (setDepthTest False (construct env0)) = setDepthTest False (construct env0)
   \<and> issued (setDepthTest False) (setDepthTest False (construct env0)) = []"
proof -
  have c: "cached_setter (Raster (SetDepthTest False))"
    by (simp add: cached_setter_def)
  have n: "\<not> has_nan (Raster (SetDepthTest False))"
    by (simp add: has_nan_def)
  have df: "cache_differs (Raster (SetDepthTest False)) (construct env0)"
    by (simp add: construct_raster)
  have after: "\<not> cache_differs (Raster (SetDepthTest False)) (setDepthTest False (construct env0))"
    by (simp add: setDepthTest_post)
  have first: "issued (setDepthTest False) (construct env0) = [GlDisable GL_DEPTH_TEST]"
    by (rule issued_append) (simp add: setDepthTest_def construct_raster emit_def)
  show ?thesis
    using C1_setter_repeated [of "Raster (SetDepthTest False)" "construct env0"] c n df after first
    by simp
qed

subsection \<open>C4: the cull toggle\<close>

lemma setCullMode_trace:
  "\<exists>es. trace (setCullMode m d) = trace d @ es
     \<and> filter is_cull_toggle es = spec_cull_toggles (cullMode d) [m]"
  by (simp add: setCullMode_def emit_def Let_def is_cull_toggle_def)

lemma fold_setCullMode_trace:
  "\<exists>es. trace (fold setCullMode ms d) = trace d @ es
     \<and> filter is_cull_toggle es = spec_cull_toggles (cullMode d) ms"
proof (induction ms arbitrary: d)
  case Nil
  show ?case by simp
next
  case (Cons m ms)
  obtain es where es: "trace (setCullMode m d) = trace d @ es"
    "filter is_cull_toggle es = spec_cull_toggles (cullMode d) [m]"
    using setCullMode_trace by blast
  obtain es' where es': "trace (fold setCullMode ms (setCullMode m d)) = trace (setCullMode m d) @ es'"
    "filter is_cull_toggle es' = spec_cull_toggles (cullMode (setCullMode m d)) ms"
    using Cons.IH by blast
  have "trace (fold setCullMode (m # ms) d) = trace d @ (es @ es')"
    using es(1) es'(1) by simp
  moreover have "filter is_cull_toggle (es @ es') = spec_cull_toggles (cullMode d) (m # ms)"
    using es(2) es'(2) by (simp add: setCullMode_post)
  ultimately show ?case by blast
qed

text \<open>
  C4: for every sequence of \<^verbatim>\<open>setCullMode\<close> calls, from every device, the
  \<^verbatim>\<open>enable(CULL_FACE)\<close> and \<^verbatim>\<open>disable(CULL_FACE)\<close> calls issued are exactly the ones the
  spec's rule gives: one per edge between \<^verbatim>\<open>CULLFACE_NONE\<close> and another mode, none for a
  change of face or a repeated mode.
\<close>

theorem C4_cull_toggle_on_edges:
  "filter is_cull_toggle (issued (fold setCullMode ms) d) = spec_cull_toggles (cullMode d) ms"
proof -
  obtain es where "trace (fold setCullMode ms d) = trace d @ es"
    and "filter is_cull_toggle es = spec_cull_toggles (cullMode d) ms"
    using fold_setCullMode_trace by blast
  then show ?thesis by (simp add: issued_append)
qed

theorem C4_cull_toggle_on_edges_witness:
  "filter is_cull_toggle
     (issued (fold setCullMode
        [CULLFACE_FRONT, CULLFACE_FRONT, CULLFACE_NONE, CULLFACE_NONE, CULLFACE_BACK,
         CULLFACE_FRONTANDBACK]) (construct env0))
   = [GlDisable GL_CULL_FACE, GlEnable GL_CULL_FACE]"
  using C4_cull_toggle_on_edges
    [of "[CULLFACE_FRONT, CULLFACE_FRONT, CULLFACE_NONE, CULLFACE_NONE, CULLFACE_BACK,
          CULLFACE_FRONTANDBACK]" "construct env0"]
  by (simp add: construct_raster enum_defs)

subsection \<open>The setters as record updates\<close>

text \<open>
  Each setter used by \<^verbatim>\<open>clear\<close> and \<^verbatim>\<open>startPass\<close>, written as one update of the
  device: the cached fields take the arguments, and the trace grows by the native call
  when the guard of the source holds.
\<close>

lemma setClearColor_update:
  "setClearColor r g b a d =
     d\<lparr>clearColor := \<lparr>col_r = r, col_g = g, col_b = b, col_a = a\<rparr>,
       trace := trace d @
         (if strict_ne r (col_r (clearColor d)) \<or> strict_ne g (col_g (clearColor d))
             \<or> strict_ne b (col_b (clearColor d)) \<or> strict_ne a (col_a (clearColor d))
          then [GlClearColor r g b a] else [])\<rparr>"
proof (cases "strict_ne r (col_r (clearColor d)) \<or> strict_ne g (col_g (clearColor d))
             \<or> strict_ne b (col_b (clearColor d)) \<or> strict_ne a (col_a (clearColor d))")
  case True
  then show ?thesis by (simp add: setClearColor_def emit_def Let_def)
next
  case False
  then have "col_r (clearColor d) = r" "col_g (clearColor d) = g" "col_b (clearColor d) = b"
    "col_a (clearColor d) = a"
    by (auto dest: strict_ne_eq)
  then have "clearColor d = \<lparr>col_r = r, col_g = g, col_b = b, col_a = a\<rparr>"
    by (cases "clearColor d") simp
  then show ?thesis using False by (simp add: setClearColor_def Let_def)
qed

lemma setColorWrite_update:
  "setColorWrite r g b a d =
     d\<lparr>writeRed := r, writeGreen := g, writeBlue := b, writeAlpha := a,
       trace := trace d @
         (if writeRed d \<noteq> r \<or> writeGreen d \<noteq> g \<or> writeBlue d \<noteq> b \<or> writeAlpha d \<noteq> a
          then [GlColorMask r g b a] else [])\<rparr>"
  by (auto simp add: setColorWrite_def emit_def)

lemma setClearDepth_update:
  "setClearDepth z d =
     d\<lparr>clearDepth := z,
       trace := trace d @ (if strict_ne z (clearDepth d) then [GlClearDepth z] else [])\<rparr>"
  by (cases "strict_ne z (clearDepth d)")
     (auto simp add: setClearDepth_def emit_def dest: strict_ne_eq)

lemma setDepthWrite_update:
  "setDepthWrite w d =
     d\<lparr>depthWrite := w,
       trace := trace d @ (if depthWrite d \<noteq> w then [GlDepthMask w] else [])\<rparr>"
  by (auto simp add: setDepthWrite_def emit_def)

lemma setClearStencil_update:
  "setClearStencil v d =
     d\<lparr>clearStencil := v,
       trace := trace d @ (if strict_ne v (clearStencil d) then [GlClearStencil v] else [])\<rparr>"
  by (cases "strict_ne v (clearStencil d)")
     (auto simp add: setClearStencil_def emit_def dest: strict_ne_eq)

lemma setViewport_update:
  "setViewport x y w h d =
     d\<lparr>vx := x, vy := y, vw := w, vh := h,
       trace := trace d @
         (if strict_ne (vx d) x \<or> strict_ne (vy d) y \<or> strict_ne (vw d) w \<or> strict_ne (vh d) h
          then [GlViewport x y w h] else [])\<rparr>"
proof (cases "strict_ne (vx d) x \<or> strict_ne (vy d) y \<or> strict_ne (vw d) w \<or> strict_ne (vh d) h")
  case True
  then show ?thesis by (simp add: setViewport_def emit_def)
next
  case False
  then have "vx d = x" "vy d = y" "vw d = w" "vh d = h"
    by (auto dest: strict_ne_eq)
  then show ?thesis using False by (simp add: setViewport_def)
qed

lemma setScissor_update:
  "setScissor x y w h d =
     d\<lparr>sx := x, sy := y, sw := w, sh := h,
       trace := trace d @
         (if strict_ne (sx d) x \<or> strict_ne (sy d) y \<or> strict_ne (sw d) w \<or> strict_ne (sh d) h
          then [GlScissor x y w h] else [])\<rparr>"
proof (cases "strict_ne (sx d) x \<or> strict_ne (sy d) y \<or> strict_ne (sw d) w \<or> strict_ne (sh d) h")
  case True
  then show ?thesis by (simp add: setScissor_def emit_def)
next
  case False
  then have "sx d = x" "sy d = y" "sw d = w" "sh d = h"
    by (auto dest: strict_ne_eq)
  then show ?thesis using False by (simp add: setScissor_def)
qed

lemmas setter_updates = setClearColor_update setColorWrite_update setClearDepth_update
  setDepthWrite_update setClearStencil_update setViewport_update setScissor_update


subsection \<open>C5: the clear scenario\<close>

lemma clear_color_block_set:
  "flags AND CLEARFLAG_COLOR \<noteq> 0 \<Longrightarrow>
   clear_color_block options df flags d =
     (let color = or_default (opt_color options) (def_color df)
      in setColorWrite True True True True
           (setClearColor (col_r color) (col_g color) (col_b color) (col_a color) d))"
  by (simp add: clear_color_block_def)

lemma clear_depth_block_set:
  "flags AND CLEARFLAG_DEPTH \<noteq> 0 \<Longrightarrow>
   clear_depth_block options df flags d =
     setDepthWrite True (setClearDepth (or_default (opt_depth options) (def_depth df)) d)"
  by (simp add: clear_depth_block_def)

lemma clear_stencil_block_unset:
  "flags AND CLEARFLAG_STENCIL = 0 \<Longrightarrow> clear_stencil_block options df flags d = d"
  by (simp add: clear_stencil_block_def)

lemma clear_scenario_update:
  assumes "glClearFlag d = glClearFlag (construct env)"
  shows "clear (Some clear_color_depth) d =
     d\<lparr>clearColor := opaque_red,
       writeRed := True, writeGreen := True, writeBlue := True, writeAlpha := True,
       clearDepth := 1, depthWrite := True,
       trace := trace d
         @ (if 1 \<noteq> col_r (clearColor d) \<or> 0 \<noteq> col_g (clearColor d)
               \<or> 0 \<noteq> col_b (clearColor d) \<or> 1 \<noteq> col_a (clearColor d)
            then [GlClearColor 1 0 0 1] else [])
         @ (if \<not> writeRed d \<or> \<not> writeGreen d \<or> \<not> writeBlue d \<or> \<not> writeAlpha d
            then [GlColorMask True True True True] else [])
         @ (if 1 \<noteq> clearDepth d then [GlClearDepth 1] else [])
         @ (if \<not> depthWrite d then [GlDepthMask True] else [])
         @ [GlClear (Some (GL_COLOR_BUFFER_BIT OR GL_DEPTH_BUFFER_BIT))]\<rparr>"
proof -
  define flags where "flags = CLEARFLAG_COLOR OR CLEARFLAG_DEPTH"
  define df where "df = defaultClearOptions d"
  define d1 where "d1 = clear_color_block clear_color_depth df flags d"
  define d2 where "d2 = clear_depth_block clear_color_depth df flags d1"
  have bits: "flags AND CLEARFLAG_COLOR \<noteq> 0" "flags AND CLEARFLAG_DEPTH \<noteq> 0"
    "flags AND CLEARFLAG_STENCIL = 0" "flags \<noteq> 0" "flags = 3"
    by (simp_all add: flags_def enum_defs)
  have opts: "opt_flags clear_color_depth = Some flags"
    "opt_color clear_color_depth = Some opaque_red" "opt_depth clear_color_depth = Some 1"
    by (simp_all add: clear_color_depth_def flags_def)
  have d1: "d1 =
      d\<lparr>clearColor := opaque_red,
        writeRed := True, writeGreen := True, writeBlue := True, writeAlpha := True,
        trace := trace d
          @ (if 1 \<noteq> col_r (clearColor d) \<or> 0 \<noteq> col_g (clearColor d)
                \<or> 0 \<noteq> col_b (clearColor d) \<or> 1 \<noteq> col_a (clearColor d)
             then [GlClearColor 1 0 0 1] else [])
          @ (if \<not> writeRed d \<or> \<not> writeGreen d \<or> \<not> writeBlue d \<or> \<not> writeAlpha d
             then [GlColorMask True True True True] else [])\<rparr>"
    by (simp add: d1_def clear_color_block_set [OF bits(1)] opts opaque_red_def
          or_default_def Let_def setClearColor_update setColorWrite_update
          split del: if_split cong: if_cong)
  have d2: "d2 =
      d1\<lparr>clearDepth := 1, depthWrite := True,
        trace := trace d1
          @ (if 1 \<noteq> clearDepth d1 then [GlClearDepth 1] else [])
          @ (if \<not> depthWrite d1 then [GlDepthMask True] else [])\<rparr>"
    by (simp add: d2_def clear_depth_block_set [OF bits(2)] opts
          or_default_def setClearDepth_update setDepthWrite_update
          split del: if_split cong: if_cong)
  have tbl: "lookup (glClearFlag d) flags = Some (GL_COLOR_BUFFER_BIT OR GL_DEPTH_BUFFER_BIT)"
    using assms by (simp add: construct_tables lookup_def bits(5))
  have "clear (Some clear_color_depth) d = emit (GlClear (lookup (glClearFlag d2) flags)) d2"
    by (simp add: clear_def Let_def opts or_default_def bits(4)
          clear_stencil_block_unset [OF bits(3)] d1_def d2_def df_def)
  then show ?thesis
    by (simp add: tbl emit_def d2 d1 split del: if_split cong: if_cong)
qed

lemma clear_no_flags: "opt_flags opts = Some 0 \<Longrightarrow> clear (Some opts) d = d"
  by (simp add: clear_def or_default_def Let_def)

lemma construct_frame:
  "clearColor (construct env) = \<lparr>col_r = 0, col_g = 0, col_b = 0, col_a = 0\<rparr>"
  "clearDepth (construct env) = 1" "clearStencil (construct env) = 0"
  by (simp_all add: construct_def enum_tables_def init_defs Let_def blank_device_def)

text \<open>
  C5: on a device holding the constructor's \<^verbatim>\<open>glClearFlag\<close> table,
  \<^verbatim>\<open>clear({flags: COLOR|DEPTH, color: [1,0,0,1], depth: 1})\<close> issues, in this order, the
  native clear-colour call if the cached clear colour differs from (1,0,0,1), the colour
  mask, clear-depth and depth-mask calls their caches ask for, and last exactly one native
  clear with the bitmask \<^verbatim>\<open>COLOR_BUFFER_BIT | DEPTH_BUFFER_BIT\<close>; the cached clear colour is
  (1,0,0,1) afterwards. A clear whose flags are 0 changes nothing and issues nothing.
\<close>

theorem C5_clear_scenario:
  assumes "glClearFlag d = glClearFlag (construct env)"
  shows "issued (clear (Some clear_color_depth)) d =
           (if 1 \<noteq> col_r (clearColor d) \<or> 0 \<noteq> col_g (clearColor d)
               \<or> 0 \<noteq> col_b (clearColor d) \<or> 1 \<noteq> col_a (clearColor d)
            then [GlClearColor 1 0 0 1] else [])
           @ (if \<not> writeRed d \<or> \<not> writeGreen d \<or> \<not> writeBlue d \<or> \<not> writeAlpha d
              then [GlColorMask True True True True] else [])
           @ (if 1 \<noteq> clearDepth d then [GlClearDepth 1] else [])
           @ (if \<not> depthWrite d then [GlDepthMask True] else [])
           @ [GlClear (Some (GL_COLOR_BUFFER_BIT OR GL_DEPTH_BUFFER_BIT))]
         \<and> filter is_clear_call (issued (clear (Some clear_color_depth)) d)
             = [GlClear (Some (GL_COLOR_BUFFER_BIT OR GL_DEPTH_BUFFER_BIT))]
         \<and> clearColor (clear (Some clear_color_depth) d) = opaque_red
         \<and> clear (Some (clear_color_depth\<lparr>opt_flags := Some 0\<rparr>)) d = d
         \<and> issued (clear (Some (clear_color_depth\<lparr>opt_flags := Some 0\<rparr>))) d = []"
proof -
  note upd = clear_scenario_update [OF assms]
  have tr: "issued (clear (Some clear_color_depth)) d =
           (if 1 \<noteq> col_r (clearColor d) \<or> 0 \<noteq> col_g (clearColor d)
               \<or> 0 \<noteq> col_b (clearColor d) \<or> 1 \<noteq> col_a (clearColor d)
            then [GlClearColor 1 0 0 1] else [])
           @ (if \<not> writeRed d \<or> \<not> writeGreen d \<or> \<not> writeBlue d \<or> \<not> writeAlpha d
              then [GlColorMask True True True True] else [])
           @ (if 1 \<noteq> clearDepth d then [GlClearDepth 1] else [])
           @ (if \<not> depthWrite d then [GlDepthMask True] else [])
           @ [GlClear (Some (GL_COLOR_BUFFER_BIT OR GL_DEPTH_BUFFER_BIT))]"
    by (rule issued_append) (simp add: upd split del: if_split cong: if_cong)
  have cnt: "filter is_clear_call (issued (clear (Some clear_color_depth)) d)
               = [GlClear (Some (GL_COLOR_BUFFER_BIT OR GL_DEPTH_BUFFER_BIT))]"
    unfolding tr by (simp add: is_clear_call_def)
  have col: "clearColor (clear (Some clear_color_depth) d) = opaque_red"
    by (simp add: upd)
  have zero: "clear (Some (clear_color_depth\<lparr>opt_flags := Some 0\<rparr>)) d = d"
    by (rule clear_no_flags) simp
  have none: "issued (clear (Some (clear_color_depth\<lparr>opt_flags := Some 0\<rparr>))) d = []"
    using zero by (rule issued_nothing)
  show ?thesis
    using tr cnt col zero none by blast
qed

theorem C5_clear_scenario_witness:
  "glClearFlag (construct env0) = glClearFlag (construct env0)
   \<and> issued (clear (Some clear_color_depth)) (construct env0)
       = [GlClearColor 1 0 0 1, GlClear (Some 16640)]
   \<and> clearColor (clear (Some clear_color_depth) (construct env0)) = opaque_red"
  using C5_clear_scenario [of "construct env0" env0]
  by (simp add: construct_frame construct_raster jsnum_numerals)

subsection \<open>C10: what a clear leaves in the write masks\<close>

lemma emit_masks:
  "writeRed (emit e d) = writeRed d" "writeGreen (emit e d) = writeGreen d"
  "writeBlue (emit e d) = writeBlue d" "writeAlpha (emit e d) = writeAlpha d"
  "depthWrite (emit e d) = depthWrite d"
  by (simp_all add: emit_def)

lemma clear_stencil_block_masks:
  "writeRed (clear_stencil_block opts df flags d) = writeRed d"
  "writeGreen (clear_stencil_block opts df flags d) = writeGreen d"
  "writeBlue (clear_stencil_block opts df flags d) = writeBlue d"
  "writeAlpha (clear_stencil_block opts df flags d) = writeAlpha d"
  "depthWrite (clear_stencil_block opts df flags d) = depthWrite d"
  by (simp_all add: clear_stencil_block_def Let_def setClearStencil_update)

lemma clear_depth_block_masks:
  "writeRed (clear_depth_block opts df flags d) = writeRed d"
  "writeGreen (clear_depth_block opts df flags d) = writeGreen d"
  "writeBlue (clear_depth_block opts df flags d) = writeBlue d"
  "writeAlpha (clear_depth_block opts df flags d) = writeAlpha d"
  "flags AND CLEARFLAG_DEPTH \<noteq> 0 \<Longrightarrow> depthWrite (clear_depth_block opts df flags d)"
  by (simp_all add: clear_depth_block_def Let_def setClearDepth_update setDepthWrite_update)

lemma clear_color_block_masks:
  "flags AND CLEARFLAG_COLOR \<noteq> 0 \<Longrightarrow> writeRed (clear_color_block opts df flags d)"
  "flags AND CLEARFLAG_COLOR \<noteq> 0 \<Longrightarrow> writeGreen (clear_color_block opts df flags d)"
  "flags AND CLEARFLAG_COLOR \<noteq> 0 \<Longrightarrow> writeBlue (clear_color_block opts df flags d)"
  "flags AND CLEARFLAG_COLOR \<noteq> 0 \<Longrightarrow> writeAlpha (clear_color_block opts df flags d)"
  by (simp_all add: clear_color_block_def Let_def setColorWrite_post)

lemma clear_unfold:
  "effective_flags options d \<noteq> 0 \<Longrightarrow>
   clear options d =
     (let opts = (case options of None \<Rightarrow> as_options (defaultClearOptions d) | Some x \<Rightarrow> x);
          d3 = clear_stencil_block opts (defaultClearOptions d) (effective_flags options d)
                 (clear_depth_block opts (defaultClearOptions d) (effective_flags options d)
                    (clear_color_block opts (defaultClearOptions d) (effective_flags options d) d))
      in emit (GlClear (lookup (glClearFlag d3) (effective_flags options d))) d3)"
  by (cases options)
     (simp_all add: clear_def effective_flags_def as_options_def or_default_def Let_def)

lemma and_nonzero: "(flags::nat) AND c \<noteq> 0 \<Longrightarrow> flags \<noteq> 0"
  by (cases "flags = 0") simp_all

lemma clear_color_masks:
  assumes "effective_flags options d AND CLEARFLAG_COLOR \<noteq> 0"
  shows "writeRed (clear options d)" "writeGreen (clear options d)"
    "writeBlue (clear options d)" "writeAlpha (clear options d)"
  using assms
  by (simp_all add: clear_unfold [OF and_nonzero [OF assms]] Let_def emit_masks
        clear_stencil_block_masks clear_depth_block_masks clear_color_block_masks)

lemma clear_depth_mask:
  assumes "effective_flags options d AND CLEARFLAG_DEPTH \<noteq> 0"
  shows "depthWrite (clear options d)"
  using assms
  by (simp add: clear_unfold [OF and_nonzero [OF assms]] Let_def emit_masks
        clear_stencil_block_masks clear_depth_block_masks)

lemma setColorWrite_issued:
  "issued (setColorWrite r g b a) d =
     (if writeRed d \<noteq> r \<or> writeGreen d \<noteq> g \<or> writeBlue d \<noteq> b \<or> writeAlpha d \<noteq> a
      then [GlColorMask r g b a] else [])"
  by (rule issued_append) (simp add: setColorWrite_update)

lemma setDepthWrite_issued:
  "issued (setDepthWrite w) d = (if depthWrite d \<noteq> w then [GlDepthMask w] else [])"
  by (rule issued_append) (simp add: setDepthWrite_update)

text \<open>
  C10: a clear whose flags include the colour flag leaves the cached colour write mask
  at (true, true, true, true), and one whose flags include the depth flag leaves the cached
  depth write enable at true. The values stay in the cache: the next \<^verbatim>\<open>setColorWrite\<close>
  or \<^verbatim>\<open>setDepthWrite\<close> is compared with them, so it issues its native call exactly when
  it asks for something other than all-true.
\<close>

theorem C10_clear_forces_write_masks:
  "(effective_flags options d AND CLEARFLAG_COLOR \<noteq> 0 \<longrightarrow>
      writeRed (clear options d) \<and> writeGreen (clear options d)
      \<and> writeBlue (clear options d) \<and> writeAlpha (clear options d)
      \<and> issued (setColorWrite r g b a) (clear options d)
          = (if r \<and> g \<and> b \<and> a then [] else [GlColorMask r g b a]))
   \<and> (effective_flags options d AND CLEARFLAG_DEPTH \<noteq> 0 \<longrightarrow>
      depthWrite (clear options d)
      \<and> issued (setDepthWrite w) (clear options d) = (if w then [] else [GlDepthMask w]))"
  by (auto simp add: clear_color_masks clear_depth_mask setColorWrite_issued setDepthWrite_issued)

lemma construct_defaults:
  "defaultClearOptions (construct env) =
     \<lparr>def_color = \<lparr>col_r = 0, col_g = 0, col_b = 0, col_a = 1\<rparr>, def_depth = 1,
      def_stencil = 0, def_flags = CLEARFLAG_COLOR OR CLEARFLAG_DEPTH\<rparr>"
  by (simp add: construct_def enum_tables_def Let_def)

theorem C10_clear_forces_write_masks_witness:
  "effective_flags None (setDepthWrite False (setColorWrite False False False True (construct env0)))
     AND CLEARFLAG_COLOR \<noteq> 0
   \<and> effective_flags None (setDepthWrite False (setColorWrite False False False True (construct env0)))
     AND CLEARFLAG_DEPTH \<noteq> 0
   \<and> writeRed (clear None (setDepthWrite False (setColorWrite False False False True (construct env0))))
   \<and> depthWrite (clear None (setDepthWrite False (setColorWrite False False False True (construct env0))))
   \<and> issued (setColorWrite False False False True)
        (clear None (setDepthWrite False (setColorWrite False False False True (construct env0))))
      = [GlColorMask False False False True]
   \<and> issued (setDepthWrite True)
        (clear None (setDepthWrite False (setColorWrite False False False True (construct env0))))
      = []"
proof -
  let ?d = "setDepthWrite False (setColorWrite False False False True (construct env0))"
  have "defaultClearOptions ?d = defaultClearOptions (construct env0)"
    by (simp add: setDepthWrite_update setColorWrite_update)
  then have flags: "effective_flags None ?d = 3"
    by (simp add: effective_flags_def construct_defaults enum_defs)
  show ?thesis
    using C10_clear_forces_write_masks [of None ?d False False False True True]
    by (simp add: flags enum_defs)
qed

subsection \<open>C8: texture binding\<close>

lemma tracked_track:
  "unit_in_table u d \<Longrightarrow> unit_in_table u' d \<Longrightarrow>
   tracked (track u slot obj d) u' slot' =
     (if u' = u \<and> slot' = slot then obj else tracked d u' slot')"
  by (auto simp add: tracked_def track_def unit_in_table_def nth_list_update)

lemma unit_in_table_track: "unit_in_table u' (track u slot obj d) = unit_in_table u' d"
  by (simp add: unit_in_table_def track_def)

lemma emit_bindings:
  "tracked (emit e d) u slot = tracked d u slot"
  "unit_in_table u (emit e d) = unit_in_table u d"
  "textureUnit (emit e d) = textureUnit d"
  "trace (emit e d) = trace d @ [e]"
  by (simp_all add: tracked_def unit_in_table_def emit_def)

lemma track_frame:
  "textureUnit (track u slot obj d) = textureUnit d"
  "trace (track u slot obj d) = trace d"
  by (simp_all add: track_def)

lemma activeTexture_bindings:
  "tracked (activeTexture u d) u' slot = tracked d u' slot"
  "unit_in_table u' (activeTexture u d) = unit_in_table u' d"
  "textureUnit (activeTexture u d) = u"
  "trace (activeTexture u d) = trace d @ (if textureUnit d \<noteq> u then [GlActiveTexture u] else [])"
  by (simp_all add: activeTexture_def tracked_def unit_in_table_def emit_def)

lemma bindTexture_result:
  assumes "unit_in_table (textureUnit d) d"
  shows "bindTexture tex d =
     Inr (if tracked d (textureUnit d) (targetToSlot (glTarget tex)) \<noteq> glTexture tex
          then track (textureUnit d) (targetToSlot (glTarget tex)) (glTexture tex)
                 (emit (GlBindTexture (gl_target (glTarget tex)) (glTexture tex)) d)
          else d)"
  using assms by (simp add: bindTexture_def Let_def)

lemma bindTextureOnUnit_result:
  assumes "unit_in_table u d"
  shows "bindTextureOnUnit tex u d =
     Inr (if tracked d u (targetToSlot (glTarget tex)) \<noteq> glTexture tex
          then track u (targetToSlot (glTarget tex)) (glTexture tex)
                 (emit (GlBindTexture (gl_target (glTarget tex)) (glTexture tex))
                    (activeTexture u d))
          else d)"
  using assms by (simp add: bindTextureOnUnit_def Let_def)

lemma targetToSlot_inj: "targetToSlot k = targetToSlot k' \<longleftrightarrow> k = k'"
  by (cases k; cases k') (simp_all add: targetToSlot_def)

text \<open>
  C8: on a device whose active unit is a unit of the binding table, \<^verbatim>\<open>bindTexture\<close>
  returns; it issues the native bind exactly when the object tracked for the pair (active
  unit, target kind of the texture) differs from the texture's native object, the entry
  of that pair then holds the object, the entry of every other pair (unit, target kind)
  and every other slot is as before, and binding the same texture again issues nothing.
  \<^verbatim>\<open>bindTextureOnUnit\<close> does the same for the unit it is given, activating the unit first
  only when it binds. Distinct target kinds have distinct entries.
\<close>

theorem C8_bind_texture:
  assumes "unit_in_table (textureUnit d) d" and "unit_in_table u d"
  shows "\<exists>d1 d2.
     bindTexture tex d = Inr d1
     \<and> trace d1 = trace d @
         (if tracked d (textureUnit d) (targetToSlot (glTarget tex)) \<noteq> glTexture tex
          then [GlBindTexture (gl_target (glTarget tex)) (glTexture tex)] else [])
     \<and> tracked d1 (textureUnit d) (targetToSlot (glTarget tex)) = glTexture tex
     \<and> (\<forall>u' k. unit_in_table u' d \<and> (u', k) \<noteq> (textureUnit d, glTarget tex)
          \<longrightarrow> tracked d1 u' (targetToSlot k) = tracked d u' (targetToSlot k))
     \<and> (\<forall>u' slot'. unit_in_table u' d
            \<and> (u', slot') \<noteq> (textureUnit d, targetToSlot (glTarget tex))
          \<longrightarrow> tracked d1 u' slot' = tracked d u' slot')
     \<and> bindTexture tex d1 = Inr d1
     \<and> bindTextureOnUnit tex u d = Inr d2
     \<and> trace d2 = trace d @
         (if tracked d u (targetToSlot (glTarget tex)) \<noteq> glTexture tex
          then (if textureUnit d \<noteq> u then [GlActiveTexture u] else [])
               @ [GlBindTexture (gl_target (glTarget tex)) (glTexture tex)]
          else [])
     \<and> tracked d2 u (targetToSlot (glTarget tex)) = glTexture tex
     \<and> (\<forall>u' k. unit_in_table u' d \<and> (u', k) \<noteq> (u, glTarget tex)
          \<longrightarrow> tracked d2 u' (targetToSlot k) = tracked d u' (targetToSlot k))
     \<and> (\<forall>u' slot'. unit_in_table u' d \<and> (u', slot') \<noteq> (u, targetToSlot (glTarget tex))
          \<longrightarrow> tracked d2 u' slot' = tracked d u' slot')
     \<and> bindTextureOnUnit tex u d2 = Inr d2
     \<and> (\<forall>k k'. targetToSlot k = targetToSlot k' \<longrightarrow> k = k')"
proof -
  let ?slot = "targetToSlot (glTarget tex)"
  let ?obj = "glTexture tex"
  let ?bind = "GlBindTexture (gl_target (glTarget tex)) ?obj"
  define d1 where "d1 =
     (if tracked d (textureUnit d) ?slot \<noteq> ?obj
      then track (textureUnit d) ?slot ?obj (emit ?bind d) else d)"
  define d2 where "d2 =
     (if tracked d u ?slot \<noteq> ?obj
      then track u ?slot ?obj (emit ?bind (activeTexture u d)) else d)"
  have in1: "unit_in_table (textureUnit d) (emit ?bind d)"
    using assms(1) by (simp add: emit_bindings)
  have in2: "unit_in_table u (emit ?bind (activeTexture u d))"
    using assms(2) by (simp add: emit_bindings activeTexture_bindings)
  have r1: "bindTexture tex d = Inr d1"
    unfolding d1_def by (rule bindTexture_result [OF assms(1)])
  have t1: "trace d1 = trace d @ (if tracked d (textureUnit d) ?slot \<noteq> ?obj then [?bind] else [])"
    by (simp add: d1_def track_frame emit_bindings)
  have k1: "tracked d1 (textureUnit d) ?slot = ?obj"
    using in1 by (simp add: d1_def tracked_track)
  have f1: "\<forall>u' slot'. unit_in_table u' d \<and> (u', slot') \<noteq> (textureUnit d, ?slot)
              \<longrightarrow> tracked d1 u' slot' = tracked d u' slot'"
    using in1 by (auto simp add: d1_def tracked_track emit_bindings)
  have g1: "\<forall>u' k. unit_in_table u' d \<and> (u', k) \<noteq> (textureUnit d, glTarget tex)
              \<longrightarrow> tracked d1 u' (targetToSlot k) = tracked d u' (targetToSlot k)"
    using f1 by (simp add: targetToSlot_inj)
  have u1: "unit_in_table (textureUnit d1) d1" "textureUnit d1 = textureUnit d"
    using assms(1) by (simp_all add: d1_def track_frame emit_bindings unit_in_table_track)
  have again1: "bindTexture tex d1 = Inr d1"
    using k1 u1 by (simp add: bindTexture_result)
  have r2: "bindTextureOnUnit tex u d = Inr d2"
    unfolding d2_def by (rule bindTextureOnUnit_result [OF assms(2)])
  have t2: "trace d2 = trace d @
         (if tracked d u ?slot \<noteq> ?obj
          then (if textureUnit d \<noteq> u then [GlActiveTexture u] else []) @ [?bind] else [])"
    by (simp add: d2_def track_frame emit_bindings activeTexture_bindings)
  have k2: "tracked d2 u ?slot = ?obj"
    using in2 by (simp add: d2_def tracked_track)
  have f2: "\<forall>u' slot'. unit_in_table u' d \<and> (u', slot') \<noteq> (u, ?slot)
              \<longrightarrow> tracked d2 u' slot' = tracked d u' slot'"
    using in2 by (auto simp add: d2_def tracked_track emit_bindings activeTexture_bindings)
  have g2: "\<forall>u' k. unit_in_table u' d \<and> (u', k) \<noteq> (u, glTarget tex)
              \<longrightarrow> tracked d2 u' (targetToSlot k) = tracked d u' (targetToSlot k)"
    using f2 by (simp add: targetToSlot_inj)
  have u2: "unit_in_table u d2"
    using assms(2)
    by (simp add: d2_def unit_in_table_track emit_bindings activeTexture_bindings)
  have again2: "bindTextureOnUnit tex u d2 = Inr d2"
    using k2 u2 by (simp add: bindTextureOnUnit_result)
  have inj: "\<forall>k k'. targetToSlot k = targetToSlot k' \<longrightarrow> k = k'"
    by (simp add: targetToSlot_inj)
  show ?thesis
    using r1 t1 k1 g1 f1 again1 r2 t2 k2 g2 f2 again2 inj by blast
qed

lemma construct_bindings:
  "textureUnit (construct env) = 0"
  "textureUnits (construct env) =
     replicate (nat (env_MAX_COMBINED_TEXTURE_IMAGE_UNITS env))
       (\<lambda>slot. if slot < 3 then JNull else JUndefined)"
  by (simp_all add: construct_def enum_tables_def init_defs Let_def blank_device_def)

theorem C8_bind_texture_witness:
  "unit_in_table (textureUnit (construct env0)) (construct env0)
   \<and> unit_in_table 2 (construct env0)
   \<and> (\<exists>d1 d2.
        bindTexture example_texture (construct env0) = Inr d1
        \<and> trace d1 = trace (construct env0) @ [GlBindTexture GL_TEXTURE_2D (JObj 7)]
        \<and> tracked d1 0 (targetToSlot TEXTURE_2D) = JObj 7
        \<and> tracked d1 0 (targetToSlot TEXTURE_CUBE_MAP) = JNull
        \<and> tracked d1 2 (targetToSlot TEXTURE_2D) = JNull
        \<and> bindTexture example_texture d1 = Inr d1
        \<and> bindTextureOnUnit example_texture 2 (construct env0) = Inr d2
        \<and> trace d2 = trace (construct env0)
             @ [GlActiveTexture 2, GlBindTexture GL_TEXTURE_2D (JObj 7)]
        \<and> tracked d2 2 (targetToSlot TEXTURE_2D) = JObj 7
        \<and> tracked d2 2 (targetToSlot TEXTURE_3D) = JNull
        \<and> bindTextureOnUnit example_texture 2 d2 = Inr d2)"
proof -
  have in0: "unit_in_table (textureUnit (construct env0)) (construct env0)"
    "unit_in_table 2 (construct env0)"
    by (simp_all add: unit_in_table_def construct_bindings env0_def)
  have in00: "unit_in_table 0 (construct env0)"
    by (simp add: unit_in_table_def construct_bindings env0_def)
  have tr: "tracked (construct env0) 0 0 = JNull" "tracked (construct env0) 2 0 = JNull"
    "tracked (construct env0) 0 (targetToSlot TEXTURE_CUBE_MAP) = JNull"
    "tracked (construct env0) 2 (targetToSlot TEXTURE_2D) = JNull"
    "tracked (construct env0) 2 (targetToSlot TEXTURE_3D) = JNull"
    by (simp_all add: tracked_def construct_bindings env0_def targetToSlot_def)
  have tex: "glTexture example_texture = JObj 7" "glTarget example_texture = TEXTURE_2D"
    by (simp_all add: example_texture_def blank_texture_def)
  obtain d1 d2 where b:
    "bindTexture example_texture (construct env0) = Inr d1"
    "trace d1 = trace (construct env0) @ [GlBindTexture GL_TEXTURE_2D (JObj 7)]"
    "tracked d1 0 (targetToSlot TEXTURE_2D) = JObj 7"
    "\<forall>u' k. unit_in_table u' (construct env0) \<and> (u', k) \<noteq> (0, TEXTURE_2D)
        \<longrightarrow> tracked d1 u' (targetToSlot k) = tracked (construct env0) u' (targetToSlot k)"
    "bindTexture example_texture d1 = Inr d1"
    "bindTextureOnUnit example_texture 2 (construct env0) = Inr d2"
    "trace d2 = trace (construct env0) @ [GlActiveTexture 2, GlBindTexture GL_TEXTURE_2D (JObj 7)]"
    "tracked d2 2 (targetToSlot TEXTURE_2D) = JObj 7"
    "\<forall>u' k. unit_in_table u' (construct env0) \<and> (u', k) \<noteq> (2, TEXTURE_2D)
        \<longrightarrow> tracked d2 u' (targetToSlot k) = tracked (construct env0) u' (targetToSlot k)"
    "bindTextureOnUnit example_texture 2 d2 = Inr d2"
    using C8_bind_texture [OF in0, of example_texture] tr(1,2)
    by (auto simp add: tex targetToSlot_def gl_target_def construct_bindings)
  have "tracked d1 0 (targetToSlot TEXTURE_CUBE_MAP) = JNull"
    "tracked d1 2 (targetToSlot TEXTURE_2D) = JNull"
    using b(4) in0(2) in00 tr by simp_all
  moreover have "tracked d2 2 (targetToSlot TEXTURE_3D) = JNull"
    using b(9) in0(2) tr by simp
  ultimately show ?thesis
    using in0 b by blast
qed

subsection \<open>C6: a shader that failed to link\<close>

lemma setShader_failed:
  "failed (shader_heap d s) \<Longrightarrow> shader d \<noteq> Some s \<Longrightarrow> setShader postLink s d = (False, d)"
  by (auto simp add: setShader_def)

lemma setShader_keeps_failed:
  assumes "failed (shader_heap d s)" and "shader d \<noteq> Some s"
  shows "failed (shader_heap (snd (setShader postLink t d)) s)
         \<and> shader (snd (setShader postLink t d)) \<noteq> Some s"
proof (cases "t = s")
  case True
  then show ?thesis using assms by (simp add: setShader_failed)
next
  case False
  then show ?thesis
    using assms
    by (auto simp add: setShader_def call_postLink_def use_shader_def update_shader_def emit_def
          Let_def split: prod.splits)
qed

lemma setShaders_keeps_failed:
  "failed (shader_heap d s) \<Longrightarrow> shader d \<noteq> Some s \<Longrightarrow>
   failed (shader_heap (setShaders calls d) s) \<and> shader (setShaders calls d) \<noteq> Some s"
proof (induction calls arbitrary: d)
  case Nil
  then show ?case by simp
next
  case (Cons c calls)
  obtain postLink t where c: "c = (postLink, t)" by (cases c)
  show ?case
    using Cons.IH [of "snd (setShader postLink t d)"]
      setShader_keeps_failed [OF Cons.prems, of postLink t]
    by (simp add: c)
qed

lemma setShader_link_failure:
  assumes "Some s \<noteq> shader d" and "\<not> failed (shader_heap d s)"
    and "\<not> ready (shader_heap d s)" and "\<not> fst (postLink (shader_heap d s))"
  shows "fst (setShader postLink s d) = False"
    and "failed (shader_heap (snd (setShader postLink s d)) s)"
    and "shader (snd (setShader postLink s d)) = shader d"
    and "trace (snd (setShader postLink s d)) = trace d @ [Collaborator ''shader.impl.postLink'' s]"
  using assms
  by (auto simp add: setShader_def call_postLink_def update_shader_def emit_def Let_def
        split: prod.splits)

text \<open>
  C6: when \<^verbatim>\<open>setShader\<close> runs the link step of a shader and the step fails, the call
  returns false, marks the shader failed, makes one link attempt and no
  \<^verbatim>\<open>useProgram\<close> call, and leaves the active shader as it was. From then on, after any
  further \<^verbatim>\<open>setShader\<close> calls on any shaders, with any link steps, \<^verbatim>\<open>setShader\<close> on the
  failed shader returns false and changes nothing: no link attempt, no native call, the
  active shader and program untouched.
\<close>

theorem C6_link_failure_sticky:
  assumes "Some s \<noteq> shader d" and "\<not> failed (shader_heap d s)"
    and "\<not> ready (shader_heap d s)" and "\<not> fst (postLink (shader_heap d s))"
  shows "fst (setShader postLink s d) = False
     \<and> failed (shader_heap (snd (setShader postLink s d)) s)
     \<and> shader (snd (setShader postLink s d)) = shader d
     \<and> trace (snd (setShader postLink s d)) = trace d @ [Collaborator ''shader.impl.postLink'' s]
     \<and> setShader postLink' s (setShaders calls (snd (setShader postLink s d)))
         = (False, setShaders calls (snd (setShader postLink s d)))"
proof -
  note first = setShader_link_failure [where postLink = postLink and s = s and d = d, OF assms]
  have "shader (snd (setShader postLink s d)) \<noteq> Some s"
    using first(3) assms(1) by simp
  then have "failed (shader_heap (setShaders calls (snd (setShader postLink s d))) s)
      \<and> shader (setShaders calls (snd (setShader postLink s d))) \<noteq> Some s"
    using first(2) by (rule setShaders_keeps_failed [rotated])
  then have "setShader postLink' s (setShaders calls (snd (setShader postLink s d)))
         = (False, setShaders calls (snd (setShader postLink s d)))"
    by (simp add: setShader_failed)
  then show ?thesis using first by simp
qed

lemma construct_shader:
  "shader (construct env) = None" "shader_heap (construct env) = (\<lambda>_. blank_shader)"
  by (simp_all add: construct_def enum_tables_def init_defs Let_def blank_device_def)

theorem C6_link_failure_sticky_witness:
  "Some 3 \<noteq> shader (construct env0)
   \<and> \<not> failed (shader_heap (construct env0) 3)
   \<and> \<not> ready (shader_heap (construct env0) 3)
   \<and> \<not> fst (link_fails (shader_heap (construct env0) 3))
   \<and> fst (setShader link_fails 3 (construct env0)) = False
   \<and> trace (snd (setShader link_fails 3 (construct env0)))
       = trace (construct env0) @ [Collaborator ''shader.impl.postLink'' 3]
   \<and> setShader link_succeeds 3
        (setShaders [(link_succeeds, 5), (link_succeeds, 3)]
           (snd (setShader link_fails 3 (construct env0))))
       = (False, setShaders [(link_succeeds, 5), (link_succeeds, 3)]
                   (snd (setShader link_fails 3 (construct env0))))"
proof -
  have h: "Some 3 \<noteq> shader (construct env0)" "\<not> failed (shader_heap (construct env0) 3)"
    "\<not> ready (shader_heap (construct env0) 3)"
    "\<not> fst (link_fails (shader_heap (construct env0) 3))"
    by (simp_all add: construct_shader blank_shader_def link_fails_def)
  show ?thesis
    using C6_link_failure_sticky
      [where postLink = link_fails and s = 3 and d = "construct env0"
         and postLink' = link_succeeds and calls = "[(link_succeeds, 5), (link_succeeds, 3)]",
       OF h] h
    by simp
qed

subsection \<open>C7: the vertex array cache\<close>



















subsection \<open>C9: the four draw variants\<close>

text \<open>
  Everything \<^verbatim>\<open>draw\<close> does before the dispatch leaves alone what the dispatch reads, and
  issues no draw of its own.
\<close>

lemma draw_inputs_trace:
  "filter is_draw_call es = [] \<Longrightarrow> draw_inputs (d\<lparr>trace := trace d @ es\<rparr>) = draw_inputs d"
  by (simp add: draw_inputs_def draw_calls_def)











lemma unit_in_table_cong:
  "length (textureUnits d') = length (textureUnits d) \<Longrightarrow>
   unit_in_table u d' = unit_in_table u d"
  by (simp add: unit_in_table_def)





















subsection \<open>C3: a pass started inside a pass\<close>

text \<open>
  Nothing that \<^verbatim>\<open>startPass\<close> does before its assertion reads or writes
  \<^verbatim>\<open>insideRenderPass\<close>: each step commutes with an update of the flag.
\<close>

lemma setters_flag:
  "setViewport x y w h (d\<lparr>insideRenderPass := b\<rparr>) = (setViewport x y w h d)\<lparr>insideRenderPass := b\<rparr>"
  "setScissor x y w h (d\<lparr>insideRenderPass := b\<rparr>) = (setScissor x y w h d)\<lparr>insideRenderPass := b\<rparr>"
  "setClearColor cr cg cb ca (d\<lparr>insideRenderPass := b\<rparr>)
     = (setClearColor cr cg cb ca d)\<lparr>insideRenderPass := b\<rparr>"
  "setColorWrite wr wg wb wa (d\<lparr>insideRenderPass := b\<rparr>)
     = (setColorWrite wr wg wb wa d)\<lparr>insideRenderPass := b\<rparr>"
  "setClearDepth z (d\<lparr>insideRenderPass := b\<rparr>) = (setClearDepth z d)\<lparr>insideRenderPass := b\<rparr>"
  "setDepthWrite dw (d\<lparr>insideRenderPass := b\<rparr>) = (setDepthWrite dw d)\<lparr>insideRenderPass := b\<rparr>"
  "setClearStencil v (d\<lparr>insideRenderPass := b\<rparr>) = (setClearStencil v d)\<lparr>insideRenderPass := b\<rparr>"
  by (simp_all add: setter_updates)

lemma emit_flag: "emit e (d\<lparr>insideRenderPass := b\<rparr>) = (emit e d)\<lparr>insideRenderPass := b\<rparr>"
  by (simp add: emit_def)

lemma clear_blocks_flag:
  "clear_color_block opts df flags (d\<lparr>insideRenderPass := b\<rparr>)
     = (clear_color_block opts df flags d)\<lparr>insideRenderPass := b\<rparr>"
  "clear_depth_block opts df flags (d\<lparr>insideRenderPass := b\<rparr>)
     = (clear_depth_block opts df flags d)\<lparr>insideRenderPass := b\<rparr>"
  "clear_stencil_block opts df flags (d\<lparr>insideRenderPass := b\<rparr>)
     = (clear_stencil_block opts df flags d)\<lparr>insideRenderPass := b\<rparr>"
  by (simp_all add: clear_color_block_def clear_depth_block_def clear_stencil_block_def Let_def
        setters_flag)

lemma clear_flag:
  "clear options (d\<lparr>insideRenderPass := b\<rparr>) = (clear options d)\<lparr>insideRenderPass := b\<rparr>"
  by (simp add: clear_def Let_def clear_blocks_flag emit_flag)

lemma setFramebuffer_flag:
  "setFramebuffer fb (d\<lparr>insideRenderPass := b\<rparr>) = (setFramebuffer fb d)\<lparr>insideRenderPass := b\<rparr>"
  by (simp add: setFramebuffer_def emit_def)

lemma initRenderTarget_flag:
  "initRenderTarget t (d\<lparr>insideRenderPass := b\<rparr>) = (initRenderTarget t d)\<lparr>insideRenderPass := b\<rparr>"
  by (simp add: initRenderTarget_def target_init_def update_target_def emit_def Let_def)

lemma updateBegin_flag:
  "updateBegin (d\<lparr>insideRenderPass := b\<rparr>) = (updateBegin d)\<lparr>insideRenderPass := b\<rparr>"
proof -
  define d2 where "d2 =
     (if tempEnableSafariTextureUnitWorkaround d
      then d\<lparr>boundVao := None,
             textureUnits := map (\<lambda>unit. unit(0 := JNull, 1 := JNull, 2 := JNull)) (textureUnits d)\<rparr>
      else d\<lparr>boundVao := None\<rparr>)"
  have u: "updateBegin d =
     (case renderTarget d2 of
        Some target \<Rightarrow>
          (if \<not> truthy (glFrameBuffer (target_heap d2 target))
           then initRenderTarget target d2
           else setFramebuffer (glFrameBuffer (target_heap d2 target)) d2)
      | None \<Rightarrow> setFramebuffer (defaultFramebuffer d2) d2)"
    by (cases "tempEnableSafariTextureUnitWorkaround d"; cases "renderTarget d")
       (simp_all add: updateBegin_def Let_def d2_def)
  have sw: "r\<lparr>insideRenderPass := b, boundVao := v\<rparr> = r\<lparr>boundVao := v, insideRenderPass := b\<rparr>"
    "r\<lparr>insideRenderPass := b, textureUnits := t\<rparr> = r\<lparr>textureUnits := t, insideRenderPass := b\<rparr>"
    for r :: device and v t
    by simp_all
  have u': "updateBegin (d\<lparr>insideRenderPass := b\<rparr>) =
     (case renderTarget d2 of
        Some target \<Rightarrow>
          (if \<not> truthy (glFrameBuffer (target_heap d2 target))
           then initRenderTarget target (d2\<lparr>insideRenderPass := b\<rparr>)
           else setFramebuffer (glFrameBuffer (target_heap d2 target)) (d2\<lparr>insideRenderPass := b\<rparr>))
      | None \<Rightarrow> setFramebuffer (defaultFramebuffer d2) (d2\<lparr>insideRenderPass := b\<rparr>))"
    by (cases "tempEnableSafariTextureUnitWorkaround d"; cases "renderTarget d")
       (simp_all add: updateBegin_def Let_def d2_def sw)
  show ?thesis
    unfolding u u' by (simp add: setFramebuffer_flag initRenderTarget_flag split: option.splits)
qed

lemma pass_setup_flag:
  "pass_setup p (d\<lparr>insideRenderPass := b\<rparr>) = (pass_setup p d)\<lparr>insideRenderPass := b\<rparr>"
proof -
  define d1 where "d1 = updateBegin (setRenderTarget (rp_renderTarget p) d)"
  have s: "setRenderTarget rt (d\<lparr>insideRenderPass := b\<rparr>)
             = (setRenderTarget rt d)\<lparr>insideRenderPass := b\<rparr>" for rt
    by (simp add: setRenderTarget_def)
  have d1': "updateBegin (setRenderTarget (rp_renderTarget p) (d\<lparr>insideRenderPass := b\<rparr>))
               = d1\<lparr>insideRenderPass := b\<rparr>"
    by (simp add: d1_def s updateBegin_flag)
  have wh:
    "(case rp_renderTarget p of Some t \<Rightarrow> rt_width (target_heap (d1\<lparr>insideRenderPass := b\<rparr>) t)
      | None \<Rightarrow> width (d1\<lparr>insideRenderPass := b\<rparr>))
     = (case rp_renderTarget p of Some t \<Rightarrow> rt_width (target_heap d1 t) | None \<Rightarrow> width d1)"
    "(case rp_renderTarget p of Some t \<Rightarrow> rt_height (target_heap (d1\<lparr>insideRenderPass := b\<rparr>) t)
      | None \<Rightarrow> height (d1\<lparr>insideRenderPass := b\<rparr>))
     = (case rp_renderTarget p of Some t \<Rightarrow> rt_height (target_heap d1 t) | None \<Rightarrow> height d1)"
    by (cases "rp_renderTarget p"; simp)+
  show ?thesis
    unfolding pass_setup_def Let_def d1' d1_def [symmetric] wh
    by (simp add: setters_flag clear_flag)
qed

lemma pass_setup_keeps_flag: "insideRenderPass (pass_setup p d) = insideRenderPass d"
proof -
  have "pass_setup p (d\<lparr>insideRenderPass := insideRenderPass d\<rparr>)
          = (pass_setup p d)\<lparr>insideRenderPass := insideRenderPass d\<rparr>"
    by (rule pass_setup_flag)
  then have "pass_setup p d = (pass_setup p d)\<lparr>insideRenderPass := insideRenderPass d\<rparr>"
    by simp
  then have "insideRenderPass (pass_setup p d)
          = insideRenderPass ((pass_setup p d)\<lparr>insideRenderPass := insideRenderPass d\<rparr>)"
    by simp
  then show ?thesis by simp
qed

lemma startPass_nested:
  assumes "insideRenderPass d"
  shows "startPass p d
     = emit (DebugAssertFailed ''!this.insideRenderPass'')
         (startPass p (d\<lparr>insideRenderPass := False\<rparr>))"
  using assms
  by (simp add: startPass_def Let_def pass_setup_flag pass_setup_keeps_flag emit_def)

text \<open>
  The example pass (a colour clear of the back buffer) as one update of the device, and
  what a second set-up of the same pass adds: the clear alone.
\<close>

lemma setFramebuffer_update:
  "setFramebuffer fb d =
     d\<lparr>activeFramebuffer := fb,
       trace := trace d @ (if activeFramebuffer d \<noteq> fb then [GlBindFramebuffer fb] else [])\<rparr>"
  by (auto simp add: setFramebuffer_def emit_def)

lemma begin_back_buffer:
  assumes "\<not> tempEnableSafariTextureUnitWorkaround d"
  shows "updateBegin (setRenderTarget None d) =
     d\<lparr>renderTarget := None, boundVao := None, activeFramebuffer := defaultFramebuffer d,
       trace := trace d @ (if activeFramebuffer d \<noteq> defaultFramebuffer d
                           then [GlBindFramebuffer (defaultFramebuffer d)] else [])\<rparr>"
  using assms by (simp add: updateBegin_def setRenderTarget_def Let_def setFramebuffer_update)

lemma clear_color_only:
  assumes "lookup (glClearFlag d) CLEARFLAG_COLOR = Some GL_COLOR_BUFFER_BIT"
    and "opt_flags opts = Some CLEARFLAG_COLOR" and "opt_color opts = Some opaque_red"
  shows "clear (Some opts) d =
     d\<lparr>clearColor := opaque_red,
       writeRed := True, writeGreen := True, writeBlue := True, writeAlpha := True,
       trace := trace d
         @ (if 1 \<noteq> col_r (clearColor d) \<or> 0 \<noteq> col_g (clearColor d)
               \<or> 0 \<noteq> col_b (clearColor d) \<or> 1 \<noteq> col_a (clearColor d)
            then [GlClearColor 1 0 0 1] else [])
         @ (if \<not> writeRed d \<or> \<not> writeGreen d \<or> \<not> writeBlue d \<or> \<not> writeAlpha d
            then [GlColorMask True True True True] else [])
         @ [GlClear (Some GL_COLOR_BUFFER_BIT)]\<rparr>"
proof -
  define df where "df = defaultClearOptions d"
  define d1 where "d1 = clear_color_block opts df CLEARFLAG_COLOR d"
  have bits: "CLEARFLAG_COLOR AND CLEARFLAG_COLOR \<noteq> 0" "CLEARFLAG_COLOR AND CLEARFLAG_DEPTH = 0"
    "CLEARFLAG_COLOR AND CLEARFLAG_STENCIL = 0" "CLEARFLAG_COLOR \<noteq> 0"
    by (simp_all add: enum_defs)
  have d1: "d1 =
      d\<lparr>clearColor := opaque_red,
        writeRed := True, writeGreen := True, writeBlue := True, writeAlpha := True,
        trace := trace d
          @ (if 1 \<noteq> col_r (clearColor d) \<or> 0 \<noteq> col_g (clearColor d)
                \<or> 0 \<noteq> col_b (clearColor d) \<or> 1 \<noteq> col_a (clearColor d)
             then [GlClearColor 1 0 0 1] else [])
          @ (if \<not> writeRed d \<or> \<not> writeGreen d \<or> \<not> writeBlue d \<or> \<not> writeAlpha d
             then [GlColorMask True True True True] else [])\<rparr>"
    by (simp add: d1_def clear_color_block_set [OF bits(1)] assms(3) opaque_red_def
          or_default_def Let_def setClearColor_update setColorWrite_update
          split del: if_split cong: if_cong)
  have nd: "clear_depth_block opts df CLEARFLAG_COLOR d1 = d1"
    using bits(2) by (simp add: clear_depth_block_def)
  have "clear (Some opts) d = emit (GlClear (lookup (glClearFlag d1) CLEARFLAG_COLOR)) d1"
    by (simp add: clear_def Let_def assms(2) or_default_def bits(4)
          clear_stencil_block_unset [OF bits(3)] nd d1_def [symmetric] df_def [symmetric])
  moreover have "glClearFlag d1 = glClearFlag d"
    by (simp add: d1)
  ultimately show ?thesis
    using assms(1) by (simp add: emit_def d1 split del: if_split cong: if_cong)
qed

lemma pass_setup_example:
  assumes "\<not> tempEnableSafariTextureUnitWorkaround d"
    and "lookup (glClearFlag d) CLEARFLAG_COLOR = Some GL_COLOR_BUFFER_BIT"
  shows "pass_setup example_pass d =
     d\<lparr>renderTarget := None, boundVao := None, activeFramebuffer := defaultFramebuffer d,
       vx := 0, vy := 0, vw := Num (width d), vh := Num (height d),
       sx := 0, sy := 0, sw := Num (width d), sh := Num (height d),
       clearColor := opaque_red,
       writeRed := True, writeGreen := True, writeBlue := True, writeAlpha := True,
       trace := trace d
         @ (if activeFramebuffer d \<noteq> defaultFramebuffer d
            then [GlBindFramebuffer (defaultFramebuffer d)] else [])
         @ (if vx d \<noteq> 0 \<or> vy d \<noteq> 0 \<or> vw d \<noteq> Num (width d) \<or> vh d \<noteq> Num (height d)
            then [GlViewport 0 0 (Num (width d)) (Num (height d))] else [])
         @ (if sx d \<noteq> 0 \<or> sy d \<noteq> 0 \<or> sw d \<noteq> Num (width d) \<or> sh d \<noteq> Num (height d)
            then [GlScissor 0 0 (Num (width d)) (Num (height d))] else [])
         @ (if 1 \<noteq> col_r (clearColor d) \<or> 0 \<noteq> col_g (clearColor d)
               \<or> 0 \<noteq> col_b (clearColor d) \<or> 1 \<noteq> col_a (clearColor d)
            then [GlClearColor 1 0 0 1] else [])
         @ (if \<not> writeRed d \<or> \<not> writeGreen d \<or> \<not> writeBlue d \<or> \<not> writeAlpha d
            then [GlColorMask True True True True] else [])
         @ [GlClear (Some GL_COLOR_BUFFER_BIT)]\<rparr>"
proof -
  define d1 where "d1 = updateBegin (setRenderTarget None d)"
  define d1a where "d1a =
     setScissor 0 0 (Num (width d)) (Num (height d))
       (setViewport 0 0 (Num (width d)) (Num (height d)) d1)"
  define opts where "opts =
     \<lparr>opt_color = Some opaque_red, opt_depth = None, opt_stencil = None,
      opt_flags = Some CLEARFLAG_COLOR\<rparr>"
  have d1: "d1 =
     d\<lparr>renderTarget := None, boundVao := None, activeFramebuffer := defaultFramebuffer d,
       trace := trace d @ (if activeFramebuffer d \<noteq> defaultFramebuffer d
                           then [GlBindFramebuffer (defaultFramebuffer d)] else [])\<rparr>"
    unfolding d1_def by (rule begin_back_buffer [OF assms(1)])
  have wh: "width d1 = width d" "height d1 = height d"
    by (simp_all add: d1)
  have d1a: "d1a =
     d1\<lparr>vx := 0, vy := 0, vw := Num (width d), vh := Num (height d),
        sx := 0, sy := 0, sw := Num (width d), sh := Num (height d),
        trace := trace d1
         @ (if vx d \<noteq> 0 \<or> vy d \<noteq> 0 \<or> vw d \<noteq> Num (width d) \<or> vh d \<noteq> Num (height d)
            then [GlViewport 0 0 (Num (width d)) (Num (height d))] else [])
         @ (if sx d \<noteq> 0 \<or> sy d \<noteq> 0 \<or> sw d \<noteq> Num (width d) \<or> sh d \<noteq> Num (height d)
            then [GlScissor 0 0 (Num (width d)) (Num (height d))] else [])\<rparr>"
    by (simp add: d1a_def setViewport_update setScissor_update d1
          split del: if_split cong: if_cong)
  have ps: "pass_setup example_pass d = clear (Some opts) d1a"
    by (simp add: pass_setup_def example_pass_def Let_def d1_def [symmetric] wh
          d1a_def [symmetric] opts_def enum_defs)
  have tbl: "lookup (glClearFlag d1a) CLEARFLAG_COLOR = Some GL_COLOR_BUFFER_BIT"
    using assms(2) by (simp add: d1a d1)
  have fields: "clearColor d1a = clearColor d" "writeRed d1a = writeRed d"
    "writeGreen d1a = writeGreen d" "writeBlue d1a = writeBlue d" "writeAlpha d1a = writeAlpha d"
    by (simp_all add: d1a d1)
  have c: "clear (Some opts) d1a =
     d1a\<lparr>clearColor := opaque_red,
       writeRed := True, writeGreen := True, writeBlue := True, writeAlpha := True,
       trace := trace d1a
         @ (if 1 \<noteq> col_r (clearColor d) \<or> 0 \<noteq> col_g (clearColor d)
               \<or> 0 \<noteq> col_b (clearColor d) \<or> 1 \<noteq> col_a (clearColor d)
            then [GlClearColor 1 0 0 1] else [])
         @ (if \<not> writeRed d \<or> \<not> writeGreen d \<or> \<not> writeBlue d \<or> \<not> writeAlpha d
            then [GlColorMask True True True True] else [])
         @ [GlClear (Some GL_COLOR_BUFFER_BIT)]\<rparr>"
    using clear_color_only [OF tbl, of opts] by (simp add: opts_def fields)
  show ?thesis
    unfolding ps c by (simp add: d1a d1 split del: if_split cong: if_cong)
qed

lemma pass_setup_again:
  assumes "\<not> tempEnableSafariTextureUnitWorkaround d"
    and "lookup (glClearFlag d) CLEARFLAG_COLOR = Some GL_COLOR_BUFFER_BIT"
  shows "pass_setup example_pass (pass_setup example_pass d)
           = emit (GlClear (Some GL_COLOR_BUFFER_BIT)) (pass_setup example_pass d)"
proof -
  note n = pass_setup_example [OF assms]
  define e where "e = pass_setup example_pass d"
  have e: "\<not> tempEnableSafariTextureUnitWorkaround e"
    "lookup (glClearFlag e) CLEARFLAG_COLOR = Some GL_COLOR_BUFFER_BIT"
    "activeFramebuffer e = defaultFramebuffer e"
    "vx e = 0" "vy e = 0" "vw e = Num (width e)" "vh e = Num (height e)"
    "sx e = 0" "sy e = 0" "sw e = Num (width e)" "sh e = Num (height e)"
    "clearColor e = opaque_red" "writeRed e" "writeGreen e" "writeBlue e" "writeAlpha e"
    "renderTarget e = None" "boundVao e = None"
    using assms by (simp_all add: e_def n)
  have "pass_setup example_pass e = e\<lparr>trace := trace e @ [GlClear (Some GL_COLOR_BUFFER_BIT)]\<rparr>"
    unfolding pass_setup_example [OF e(1,2)]
    using e(3-) by (simp add: opaque_red_def)
  then show ?thesis
    by (simp add: e_def emit_def)
qed

lemma construct_pass:
  "\<not> insideRenderPass (construct env)"
  "tempEnableSafariTextureUnitWorkaround (construct env) = env_safari env"
  by (simp_all add: construct_def enum_tables_def init_defs Let_def blank_device_def)

lemma startPass_first: "\<not> insideRenderPass d \<Longrightarrow> startPass p d = (pass_setup p d)\<lparr>insideRenderPass := True\<rparr>"
  by (simp add: startPass_def Let_def pass_setup_keeps_flag)

lemma startPass_example_twice:
  assumes "\<not> insideRenderPass d" and "\<not> tempEnableSafariTextureUnitWorkaround d"
    and "lookup (glClearFlag d) CLEARFLAG_COLOR = Some GL_COLOR_BUFFER_BIT"
  shows "issued (startPass example_pass) (startPass example_pass d)
           = [GlClear (Some GL_COLOR_BUFFER_BIT), DebugAssertFailed ''!this.insideRenderPass'']"
proof -
  define e where "e = pass_setup example_pass d"
  have fe: "\<not> insideRenderPass e"
    using assms(1) by (simp add: e_def pass_setup_keeps_flag)
  have d1: "startPass example_pass d = e\<lparr>insideRenderPass := True\<rparr>"
    using assms(1) by (simp add: startPass_first e_def)
  have off: "(e\<lparr>insideRenderPass := True\<rparr>)\<lparr>insideRenderPass := False\<rparr> = e"
    using fe by simp
  have "startPass example_pass (e\<lparr>insideRenderPass := True\<rparr>)
          = emit (DebugAssertFailed ''!this.insideRenderPass'') (startPass example_pass e)"
    using startPass_nested [of "e\<lparr>insideRenderPass := True\<rparr>" example_pass] off by simp
  also have "startPass example_pass e
          = (emit (GlClear (Some GL_COLOR_BUFFER_BIT)) e)\<lparr>insideRenderPass := True\<rparr>"
    using fe pass_setup_again [OF assms(2,3)] by (simp add: startPass_first e_def)
  finally have "trace (startPass example_pass (e\<lparr>insideRenderPass := True\<rparr>))
          = trace (e\<lparr>insideRenderPass := True\<rparr>)
            @ [GlClear (Some GL_COLOR_BUFFER_BIT), DebugAssertFailed ''!this.insideRenderPass'']"
    by (simp add: emit_def)
  then show ?thesis
    unfolding d1 by (rule issued_append)
qed

text \<open>
  C3, as stated, fails: on a fresh device a second \<^verbatim>\<open>startPass\<close> with no \<^verbatim>\<open>endPass\<close> in
  between goes through its effects, here the clear of the back buffer, and only then
  reports the failed assertion.
\<close>

theorem C3_counterexample:
  "insideRenderPass (startPass example_pass (construct env0))
   \<and> issued (startPass example_pass) (startPass example_pass (construct env0))
       = [GlClear (Some GL_COLOR_BUFFER_BIT), DebugAssertFailed ''!this.insideRenderPass'']"
proof -
  have "lookup (glClearFlag (construct env0)) CLEARFLAG_COLOR = Some GL_COLOR_BUFFER_BIT"
    by (simp add: construct_tables lookup_def enum_defs)
  moreover have "\<not> tempEnableSafariTextureUnitWorkaround (construct env0)"
    by (simp add: construct_pass env0_def)
  ultimately show ?thesis
    using startPass_example_twice [of "construct env0"] construct_pass(1) [of env0]
    by (simp add: startPass_def Let_def)
qed

text \<open>
  C3, amended. Every \<^verbatim>\<open>startPass\<close> leaves the device inside a pass. A \<^verbatim>\<open>startPass\<close> on a
  device that is inside a pass does everything a \<^verbatim>\<open>startPass\<close> outside a pass does
  (render-target bind, viewport, scissor, clear), and after that reports the failed
  assertion \<^verbatim>\<open>!this.insideRenderPass\<close>: the device it leaves is the one the same call
  leaves when no pass is open, with the assertion failure added to the trace.
\<close>

theorem C3_nested_startPass:
  "insideRenderPass (startPass q d0)
   \<and> (insideRenderPass d \<longrightarrow>
        startPass p d
          = emit (DebugAssertFailed ''!this.insideRenderPass'')
              (startPass p (d\<lparr>insideRenderPass := False\<rparr>))
        \<and> trace (startPass p d)
          = trace (startPass p (d\<lparr>insideRenderPass := False\<rparr>))
            @ [DebugAssertFailed ''!this.insideRenderPass''])"
proof -
  have "insideRenderPass (startPass q d0)"
    by (simp add: startPass_def Let_def)
  moreover have "trace (startPass p d)
          = trace (startPass p (d\<lparr>insideRenderPass := False\<rparr>))
            @ [DebugAssertFailed ''!this.insideRenderPass'']"
    if "insideRenderPass d"
    using startPass_nested [OF that, of p] by (simp add: emit_def)
  ultimately show ?thesis
    using startPass_nested [of d p] by blast
qed

theorem C3_nested_startPass_witness:
  "insideRenderPass (startPass example_pass (construct env0))
   \<and> startPass example_pass (startPass example_pass (construct env0))
       = emit (DebugAssertFailed ''!this.insideRenderPass'')
           (startPass example_pass
              ((startPass example_pass (construct env0))\<lparr>insideRenderPass := False\<rparr>))
   \<and> issued (startPass example_pass) (startPass example_pass (construct env0))
       = [GlClear (Some GL_COLOR_BUFFER_BIT), DebugAssertFailed ''!this.insideRenderPass'']"
proof -
  have "lookup (glClearFlag (construct env0)) CLEARFLAG_COLOR = Some GL_COLOR_BUFFER_BIT"
    by (simp add: construct_tables lookup_def enum_defs)
  moreover have "\<not> tempEnableSafariTextureUnitWorkaround (construct env0)"
    by (simp add: construct_pass env0_def)
  ultimately have "issued (startPass example_pass) (startPass example_pass (construct env0))
       = [GlClear (Some GL_COLOR_BUFFER_BIT), DebugAssertFailed ''!this.insideRenderPass'']"
    using startPass_example_twice [of "construct env0"] construct_pass(1) [of env0] by simp
  then show ?thesis
    using C3_nested_startPass
      [of example_pass "construct env0" "startPass example_pass (construct env0)" example_pass]
    by simp
qed

subsection \<open>C2: the render state after a context restore\<close>

text \<open>
  \<^verbatim>\<open>loseContext\<close> leaves the render state alone; \<^verbatim>\<open>restoreContext\<close> resets the cull mode
  to \<^verbatim>\<open>CULLFACE_BACK\<close> and keeps the cached cull face and the \<^verbatim>\<open>glCull\<close> table.
\<close>

lemma emits_cull:
  "cullFace (emits es d) = cullFace d" "cullMode (emits es d) = cullMode d"
  "glCull (emits es d) = glCull d" "trace (emits es d) = trace d @ es"
  by (simp_all add: emits_def)

lemma loseContext_cull:
  "cullFace (loseContext d) = cullFace d" "cullMode (loseContext d) = cullMode d"
  "glCull (loseContext d) = glCull d"
  by (simp_all add: loseContext_def Let_def notify_def emits_cull)

lemma initializeRenderState_cull:
  "cullFace (initializeRenderState d) = cullFace d"
  "cullMode (initializeRenderState d) = CULLFACE_BACK"
  "glCull (initializeRenderState d) = glCull d"
  by (simp_all add: initializeRenderState_def init_blend_def init_raster_def init_stencil_def
        init_toggles_def init_frame_def emits_def)

lemma restoreContext_cull:
  "cullFace (restoreContext env d) = cullFace d"
  "cullMode (restoreContext env d) = CULLFACE_BACK"
  "glCull (restoreContext env d) = glCull d"
proof -
  define d0 where "d0 = initializeCapabilities env (initializeExtensions env d)"
  have d0: "cullFace d0 = cullFace d" "glCull d0 = glCull d"
    by (simp_all add: d0_def initializeCapabilities_def initializeExtensions_def Let_def)
  define d1 where "d1 = initializeContextCaches (initializeRenderState d0)"
  have d1: "cullFace d1 = cullFace d" "cullMode d1 = CULLFACE_BACK" "glCull d1 = glCull d"
    using d0
    by (simp_all add: d1_def initializeContextCaches_def super_initializeContextCaches_def
          initializeRenderState_cull)
  have r: "restoreContext env d =
     emits (map (\<lambda>b. Collaborator ''buffer.unlock'' (nat b))
              (buffers (notify ''shader.restoreContext'' (shaders d1) d1)))
       (notify ''shader.restoreContext'' (shaders d1) d1)"
    by (simp add: restoreContext_def Let_def d1_def d0_def)
  show "cullFace (restoreContext env d) = cullFace d"
    "cullMode (restoreContext env d) = CULLFACE_BACK"
    "glCull (restoreContext env d) = glCull d"
    unfolding r by (simp_all add: notify_def emits_cull d1)
qed

lemma setCullMode_front_fresh:
  "setCullMode CULLFACE_FRONT (construct env)
     = (emit (GlCullFace (Some GL_FRONT)) (construct env))
         \<lparr>cullFace := Some GL_FRONT, cullMode := CULLFACE_FRONT\<rparr>"
  by (simp add: setCullMode_def Let_def construct_raster construct_tables lookup_def enum_defs)

text \<open>
  Apart from the cached cull face, the render state after a loss and a restore is that of
  a fresh construction.
\<close>

lemma initializeRenderState_state:
  "render_state.truncate ((initializeRenderState d)\<lparr>cullFace := None\<rparr>)
     = render_state.truncate ((initializeRenderState d')\<lparr>cullFace := None\<rparr>)"
  by (simp add: initializeRenderState_def init_blend_def init_raster_def init_stencil_def
        init_toggles_def init_frame_def emits_def render_state.truncate_def
        render_stencil.truncate_def render_raster.truncate_def render_blend.truncate_def)

lemmas truncate_defs = render_state.truncate_def render_stencil.truncate_def
  render_raster.truncate_def render_blend.truncate_def

lemma restoreContext_state:
  "render_state.truncate ((restoreContext env d)\<lparr>cullFace := None\<rparr>)
     = render_state.truncate ((initializeRenderState d)\<lparr>cullFace := None\<rparr>)"
proof -
  define d0 where "d0 = initializeCapabilities env (initializeExtensions env d)"
  define d1 where "d1 = initializeContextCaches (initializeRenderState d0)"
  have r: "restoreContext env d =
     emits (map (\<lambda>b. Collaborator ''buffer.unlock'' (nat b))
              (buffers (notify ''shader.restoreContext'' (shaders d1) d1)))
       (notify ''shader.restoreContext'' (shaders d1) d1)"
    by (simp add: restoreContext_def Let_def d1_def d0_def)
  have "render_state.truncate ((restoreContext env d)\<lparr>cullFace := None\<rparr>)
          = render_state.truncate (d1\<lparr>cullFace := None\<rparr>)"
    unfolding r by (simp add: notify_def emits_def truncate_defs)
  also have "\<dots> = render_state.truncate ((initializeRenderState d0)\<lparr>cullFace := None\<rparr>)"
    by (simp add: d1_def initializeContextCaches_def super_initializeContextCaches_def
          truncate_defs)
  also have "\<dots> = render_state.truncate ((initializeRenderState d)\<lparr>cullFace := None\<rparr>)"
    by (rule initializeRenderState_state)
  finally show ?thesis .
qed

lemma construct_state:
  "render_state.truncate (construct env)
     = render_state.truncate ((initializeRenderState d)\<lparr>cullFace := None\<rparr>)"
proof -
  define d0 where "d0 = blank_device
                 \<lparr>defaultFramebuffer := JNull,
                  webgl2 := env_webgl2 env,
                  tempEnableSafariTextureUnitWorkaround := env_safari env,
                  width := env_drawingBufferWidth env,
                  height := env_drawingBufferHeight env,
                  semanticToLocation := env_semanticToLocation env\<rparr>"
  define d1 where "d1 = initializeRenderState (initializeCapabilities env (initializeExtensions env d0))"
  have c0: "cullFace d1 = None"
    by (simp add: d1_def initializeRenderState_cull initializeCapabilities_def
          initializeExtensions_def Let_def d0_def blank_device_def)
  have "render_state.truncate (construct env) = render_state.truncate d1"
    by (simp add: construct_def Let_def d0_def [symmetric] d1_def [symmetric] enum_tables_def
          initializeContextCaches_def super_initializeContextCaches_def truncate_defs)
  also have "d1 = d1\<lparr>cullFace := None\<rparr>"
    using c0 by simp
  also have "render_state.truncate (d1\<lparr>cullFace := None\<rparr>)
          = render_state.truncate ((initializeRenderState d)\<lparr>cullFace := None\<rparr>)"
    unfolding d1_def by (rule initializeRenderState_state)
  finally show ?thesis .
qed

lemma restored_state:
  "render_state.truncate ((restoreContext env (loseContext d))\<lparr>cullFace := None\<rparr>)
     = render_state.truncate (construct env)"
  by (simp add: restoreContext_state construct_state [of env "loseContext d"])

text \<open>
  C2 at the failing input: construct a device, cull front faces, lose the context and
  restore it. A fresh device has no cached cull face; the restored one still holds
  \<^verbatim>\<open>FRONT\<close>, next to the cull mode \<^verbatim>\<open>CULLFACE_BACK\<close> that the restore has set and the
  \<^verbatim>\<open>gl.cullFace(gl.BACK)\<close> it has issued. On the fresh device \<^verbatim>\<open>setCullMode(CULLFACE_FRONT)\<close>
  issues \<^verbatim>\<open>gl.cullFace(FRONT)\<close>; on the restored one it issues nothing.
\<close>

theorem C2_cull_face_not_restored:
  "cullFace (construct env0) = None
   \<and> cullFace (restoreContext env0 (loseContext (setCullMode CULLFACE_FRONT (construct env0))))
       = Some GL_FRONT
   \<and> cullMode (restoreContext env0 (loseContext (setCullMode CULLFACE_FRONT (construct env0))))
       = cullMode (construct env0)
   \<and> issued (setCullMode CULLFACE_FRONT) (construct env0) = [GlCullFace (Some GL_FRONT)]
   \<and> issued (setCullMode CULLFACE_FRONT)
        (restoreContext env0 (loseContext (setCullMode CULLFACE_FRONT (construct env0)))) = []"
proof -
  define d where "d = restoreContext env0 (loseContext (setCullMode CULLFACE_FRONT (construct env0)))"
  have f: "cullFace (setCullMode CULLFACE_FRONT (construct env0)) = Some GL_FRONT"
    "glCull (setCullMode CULLFACE_FRONT (construct env0)) = [0, GL_BACK, GL_FRONT, GL_FRONT_AND_BACK]"
    by (simp_all add: setCullMode_front_fresh emit_def construct_tables)
  have d: "cullFace d = Some GL_FRONT" "cullMode d = CULLFACE_BACK"
    "glCull d = [0, GL_BACK, GL_FRONT, GL_FRONT_AND_BACK]"
    by (simp_all add: d_def restoreContext_cull loseContext_cull f)
  have first: "issued (setCullMode CULLFACE_FRONT) (construct env0) = [GlCullFace (Some GL_FRONT)]"
    by (rule issued_append) (simp add: setCullMode_front_fresh emit_def)
  have "setCullMode CULLFACE_FRONT d = d\<lparr>cullMode := CULLFACE_FRONT\<rparr>"
    by (simp add: setCullMode_def Let_def d lookup_def enum_defs)
  then have again: "issued (setCullMode CULLFACE_FRONT) d = []"
    by (simp add: issued_def)
  show ?thesis
    using d first again by (simp add: d_def construct_raster)
qed

end
